theory Spec2Isabelle
  imports Complex_Main
begin

section \<open>Errors raised by the interpreter and by library calls\<close>

text \<open>
  The notebooks contain no exception handling, so an exception raised in a cell ends the
  run of that cell. Every fallible step of the models below returns \<open>error + 'a\<close>, with
  \<open>Inl\<close> the exception, and \<open>and_then\<close> sequences two steps as two consecutive Python
  statements are sequenced: the second runs only when the first returned.
\<close>

datatype error =
    IndexError
  | KeyError
  | TypeError
  | ValueError
  | LibraryError string

definition and_then :: "error + 'a \<Rightarrow> ('a \<Rightarrow> error + 'b) \<Rightarrow> error + 'b" where
  "and_then r k = (case r of Inl e \<Rightarrow> Inl e | Inr v \<Rightarrow> k v)"

section \<open>Module 03: converting a list of integers to a list of strings\<close>

text \<open>
  \<^verbatim>\<open>modules/03-coding-bootcamp-i/lecture.ipynb\<close>, the cells from
  \<^verbatim>\<open>int_list = [2, 4, 6, 8, 10]\<close> to the list comprehension. Python's \<^verbatim>\<open>int\<close> is
  unbounded (\<open>int\<close>); \<^verbatim>\<open>str\<close> of an \<^verbatim>\<open>int\<close> is its decimal numeral, with a leading
  minus sign for a negative number.
\<close>

definition digit_char :: "nat \<Rightarrow> char" where
  "digit_char d = ''0123456789'' ! d"

fun str_nat :: "nat \<Rightarrow> string" where
  "str_nat n = (if n < 10 then [digit_char n] else str_nat (n div 10) @ [digit_char (n mod 10)])"

declare str_nat.simps [simp del]

definition py_str :: "int \<Rightarrow> string" where
  "py_str i = (if i < 0 then CHR ''-'' # str_nat (nat (- i)) else str_nat (nat i))"

text \<open>
  \<^verbatim>\<open>xs[i]\<close>: an index from \<open>- len\<close> to \<open>len - 1\<close>, a negative one counting from the end;
  any other index raises \<^verbatim>\<open>IndexError\<close>.
\<close>

definition getitem :: "'a list \<Rightarrow> int \<Rightarrow> error + 'a" where
  "getitem xs i =
     (if 0 \<le> i \<and> i < int (length xs) then Inr (xs ! nat i)
      else if - int (length xs) \<le> i \<and> i < 0 then Inr (xs ! nat (int (length xs) + i))
      else Inl IndexError)"

text \<open>\<^verbatim>\<open>xs.append(x)\<close> mutates the list; the model returns the new list.\<close>

definition list_append :: "'a list \<Rightarrow> 'a \<Rightarrow> 'a list" where
  "list_append xs x = xs @ [x]"

definition int_list :: "int list" where
  "int_list = [2, 4, 6, 8, 10]"

text \<open>\<^verbatim>\<open>str_list = []\<close>\<close>

definition str_list_init :: "string list" where
  "str_list_init = []"

text \<open>\<^verbatim>\<open>str_list.append(str(int_list[0]))\<close>\<close>

definition append_str_of :: "int list \<Rightarrow> int \<Rightarrow> string list \<Rightarrow> error + string list" where
  "append_str_of il i str_list =
     and_then (getitem il i) (\<lambda>v. Inr (list_append str_list (py_str v)))"

text \<open>
  The manual conversion: the cell appending position 0, then the cell appending positions
  1 to 4, on the list \<open>il\<close> bound to \<^verbatim>\<open>int_list\<close>.
\<close>

definition manual_conversion :: "int list \<Rightarrow> error + string list" where
  "manual_conversion il =
     and_then (append_str_of il 0 str_list_init) (\<lambda>s0.
     and_then (append_str_of il 1 s0) (\<lambda>s1.
     and_then (append_str_of il 2 s1) (\<lambda>s2.
     and_then (append_str_of il 3 s2) (\<lambda>s3.
     append_str_of il 4 s3))))"

text \<open>
  \<^verbatim>\<open>
  new_list = []
  for value in int_list:
      new_list.append(str(value))
  \<close>
  The loop visits the elements in order, carrying \<^verbatim>\<open>new_list\<close>.
\<close>

fun loop_conversion_from :: "string list \<Rightarrow> int list \<Rightarrow> string list" where
  "loop_conversion_from new_list [] = new_list"
| "loop_conversion_from new_list (v # rest) =
     loop_conversion_from (list_append new_list (py_str v)) rest"

definition loop_conversion :: "int list \<Rightarrow> string list" where
  "loop_conversion il = loop_conversion_from [] il"

text \<open>\<^verbatim>\<open>[str(value) for value in int_list]\<close>\<close>

definition comprehension_conversion :: "int list \<Rightarrow> string list" where
  "comprehension_conversion il = [py_str v. v \<leftarrow> il]"

section \<open>pandas frames\<close>

text \<open>
  A cell of a frame holds a number (an \<^verbatim>\<open>int64\<close> or a finite \<^verbatim>\<open>float64\<close>: comparisons of
  finite floats are exact, so a real stands for it), an infinity, or any other Python
  object (a \<^verbatim>\<open>str\<close>, a shapely geometry) written as text; a missing cell (\<^verbatim>\<open>NaN\<close>,
  \<^verbatim>\<open>None\<close>) is \<open>None\<close>. A \<^verbatim>\<open>Series\<close> is a list of cells. A \<^verbatim>\<open>DataFrame\<close> has its column
  labels, in order, and its rows; a row maps a label to the cell under it. Rows are
  identified by their position.
\<close>

datatype val = Num real | PosInf | NegInf | Obj string

type_synonym cell = "val option"

type_synonym series = "cell list"

type_synonym row = "string \<Rightarrow> val option"

record frame =
  columns :: "string list"
  rows :: "row list"

text \<open>\<^verbatim>\<open>df[name]\<close>: the column as a Series; \<^verbatim>\<open>KeyError\<close> when there is no such label.\<close>

definition column :: "frame \<Rightarrow> string \<Rightarrow> error + series" where
  "column df name =
     (if name \<in> set (columns df) then Inr (map (\<lambda>r. r name) (rows df)) else Inl KeyError)"

text \<open>
  \<^verbatim>\<open>df[names]\<close> with a list of labels: the frame of these columns, in the order asked for;
  \<^verbatim>\<open>KeyError\<close> when a label is missing.
\<close>

definition select_columns :: "frame \<Rightarrow> string list \<Rightarrow> error + frame" where
  "select_columns df names =
     (if list_all (\<lambda>c. c \<in> set (columns df)) names
      then Inr \<lparr>columns = names, rows = map (\<lambda>r. r |` set names) (rows df)\<rparr>
      else Inl KeyError)"

text \<open>\<^verbatim>\<open>df.dropna()\<close>: the rows with no missing cell in any column of the frame.\<close>

definition notnull_row :: "string list \<Rightarrow> row \<Rightarrow> bool" where
  "notnull_row cols r = list_all (\<lambda>c. r c \<noteq> None) cols"

definition dropna :: "frame \<Rightarrow> frame" where
  "dropna df = \<lparr>columns = columns df, rows = filter (notnull_row (columns df)) (rows df)\<rparr>"

text \<open>
  \<^verbatim>\<open>df[name] = s\<close> for a Series \<open>s\<close> over the frame's own index: the column is replaced,
  or added as the last column; a row the Series has no entry for gets a missing cell.
\<close>

definition setitem_column :: "frame \<Rightarrow> string \<Rightarrow> series \<Rightarrow> frame" where
  "setitem_column df name s =
     \<lparr>columns = (if name \<in> set (columns df) then columns df else columns df @ [name]),
      rows = map (\<lambda>(i, r). r(name := (if i < length s then s ! i else None)))
                 (enumerate 0 (rows df))\<rparr>"

text \<open>Elementwise operations on a Series stop at the first element that raises.\<close>

fun collect :: "(error + 'a) list \<Rightarrow> error + 'a list" where
  "collect [] = Inr []"
| "collect (r # rs) = and_then r (\<lambda>v. and_then (collect rs) (\<lambda>vs. Inr (v # vs)))"

text \<open>
  \<^verbatim>\<open>s > t\<close> for a number \<open>t\<close>: a missing cell compares \<^verbatim>\<open>False\<close>; an object that is not a
  number raises \<^verbatim>\<open>TypeError\<close>.
\<close>

fun gt :: "cell \<Rightarrow> real \<Rightarrow> error + bool" where
  "gt None t = Inr False"
| "gt (Some (Num x)) t = Inr (t < x)"
| "gt (Some PosInf) t = Inr True"
| "gt (Some NegInf) t = Inr False"
| "gt (Some (Obj s)) t = Inl TypeError"

definition series_gt :: "series \<Rightarrow> real \<Rightarrow> error + bool list" where
  "series_gt s t = collect (map (\<lambda>c. gt c t) s)"

text \<open>\<^verbatim>\<open>mask.astype(int)\<close> for a boolean Series: \<^verbatim>\<open>True\<close> is 1 and \<^verbatim>\<open>False\<close> is 0.\<close>

definition astype_int :: "bool list \<Rightarrow> series" where
  "astype_int flags = map (\<lambda>b. Some (Num (if b then 1 else 0))) flags"

text \<open>
  \<^verbatim>\<open>np.log(s)\<close>: the logarithm of a positive number is the library's (\<open>flog\<close>, the
  \<^verbatim>\<open>float64\<close> result); of zero, minus infinity; of a negative number or of minus infinity,
  \<^verbatim>\<open>NaN\<close>; a missing cell stays missing.
\<close>

fun log_cell :: "(real \<Rightarrow> real) \<Rightarrow> cell \<Rightarrow> error + cell" where
  "log_cell flog None = Inr None"
| "log_cell flog (Some (Num x)) =
     Inr (if 0 < x then Some (Num (flog x)) else if x = 0 then Some NegInf else None)"
| "log_cell flog (Some PosInf) = Inr (Some PosInf)"
| "log_cell flog (Some NegInf) = Inr None"
| "log_cell flog (Some (Obj s)) = Inl TypeError"

definition series_log :: "(real \<Rightarrow> real) \<Rightarrow> series \<Rightarrow> error + series" where
  "series_log flog s = collect (map (log_cell flog) s)"

section \<open>Module 12: the regression cells\<close>

text \<open>
  \<^verbatim>\<open>modules/12-statistical-models/lecture.ipynb\<close>. The predictors \<open>X\<close> are a Series in the
  simple regression (\<^verbatim>\<open>data[predictor]\<close>, which carries the column's label as its name)
  and a DataFrame in the others.
\<close>

datatype exog = ExogSeries string series | ExogFrame frame

text \<open>
  \<^verbatim>\<open>sm.add_constant(X)\<close> is statsmodels' function, called with its default arguments
  \<^verbatim>\<open>prepend=True, has_constant='skip'\<close>; it is modelled as statsmodels documents it. A
  Series is first made a DataFrame of one column (\<^verbatim>\<open>pd.DataFrame(x)\<close>). A column counts as
  a constant when it has at least one row and all its cells hold the same number, which is
  not zero (the range of the column is 0 and some cell differs from 0); a column with a
  missing cell, an infinity or an object that is not a number does not count. If some
  column of the data is such a constant, the data are returned as they are (\<^verbatim>\<open>'skip'\<close>);
  otherwise a column of ones labelled \<^verbatim>\<open>const\<close> is put in front. (The predictors of the
  notebook have no column labelled \<^verbatim>\<open>const\<close> of their own.)
\<close>

fun exog_frame :: "exog \<Rightarrow> frame" where
  "exog_frame (ExogSeries name s) =
     \<lparr>columns = [name], rows = map (\<lambda>c. (\<lambda>n. None)(name := c)) s\<rparr>"
| "exog_frame (ExogFrame df) = df"

fun is_nonzero_constant :: "series \<Rightarrow> bool" where
  "is_nonzero_constant [] = False"
| "is_nonzero_constant (Some (Num x) # cs) = (x \<noteq> 0 \<and> list_all (\<lambda>c. c = Some (Num x)) cs)"
| "is_nonzero_constant (c # cs) = False"

definition constant_columns :: "frame \<Rightarrow> string list" where
  "constant_columns df =
     filter (\<lambda>c. is_nonzero_constant (map (\<lambda>r. r c) (rows df))) (columns df)"

definition add_constant :: "exog \<Rightarrow> frame" where
  "add_constant X =
     (if constant_columns (exog_frame X) \<noteq> [] then exog_frame X
      else \<lparr>columns = ''const'' # columns (exog_frame X),
            rows = map (\<lambda>r. r(''const'' \<mapsto> Num 1)) (rows (exog_frame X))\<rparr>)"

text \<open>
  The estimation is statsmodels' and the logarithm is numpy's: their functions are
  parameters of the model. \<^verbatim>\<open>sm.OLS(y, design)\<close> builds the model and \<^verbatim>\<open>model.fit()\<close>
  estimates it; each of them may raise.
\<close>

record ('m, 'r) statlibs =
  OLS :: "series \<Rightarrow> frame \<Rightarrow> error + 'm"
  fit :: "'m \<Rightarrow> error + 'r"
  np_log :: "real \<Rightarrow> real"

text \<open>What a regression cell leaves in the namespace.\<close>

record 'r regression =
  r_data :: frame
  r_X :: exog
  r_y :: series
  r_design :: frame
  r_result :: 'r

text \<open>
  \<^verbatim>\<open>
  data = gdf[[response, predictor]].dropna()
  X = data[predictor]
  y = data[response]
  model = sm.OLS(y, sm.add_constant(X))
  result = model.fit()
  \<close>
\<close>

definition simple_regression ::
  "('m, 'r) statlibs \<Rightarrow> frame \<Rightarrow> string \<Rightarrow> string \<Rightarrow> error + 'r regression" where
  "simple_regression L gdf response predictor =
     and_then (select_columns gdf [response, predictor]) (\<lambda>selected.
     and_then (Inr (dropna selected)) (\<lambda>data.
     and_then (column data predictor) (\<lambda>X.
     and_then (column data response) (\<lambda>y.
     and_then (Inr (add_constant (ExogSeries predictor X))) (\<lambda>design.
     and_then (OLS L y design) (\<lambda>model.
     and_then (fit L model) (\<lambda>result.
     Inr \<lparr>r_data = data, r_X = ExogSeries predictor X, r_y = y, r_design = design,
          r_result = result\<rparr>)))))))"

text \<open>
  \<^verbatim>\<open>
  data = gdf[[response] + predictors].dropna()
  X = data[predictors]
  y = data[response]
  model = sm.OLS(y, sm.add_constant(X))
  result = model.fit()
  \<close>
\<close>

definition multiple_regression ::
  "('m, 'r) statlibs \<Rightarrow> frame \<Rightarrow> string \<Rightarrow> string list \<Rightarrow> error + 'r regression" where
  "multiple_regression L gdf response predictors =
     and_then (select_columns gdf ([response] @ predictors)) (\<lambda>selected.
     and_then (Inr (dropna selected)) (\<lambda>data.
     and_then (select_columns data predictors) (\<lambda>X.
     and_then (column data response) (\<lambda>y.
     and_then (Inr (add_constant (ExogFrame X))) (\<lambda>design.
     and_then (OLS L y design) (\<lambda>model.
     and_then (fit L model) (\<lambda>result.
     Inr \<lparr>r_data = data, r_X = ExogFrame X, r_y = y, r_design = design,
          r_result = result\<rparr>)))))))"

text \<open>\<^verbatim>\<open>gdf["majority_white"] = (gdf["pct_white"] > 50).astype(int)\<close>\<close>

definition add_majority_white :: "frame \<Rightarrow> error + frame" where
  "add_majority_white gdf =
     and_then (column gdf ''pct_white'') (\<lambda>pct_white.
     and_then (series_gt pct_white 50) (\<lambda>flags.
     Inr (setitem_column gdf ''majority_white'' (astype_int flags))))"

text \<open>\<^verbatim>\<open>gdf["rent_log"] = np.log(gdf["rent"])\<close>\<close>

definition add_rent_log :: "('m, 'r) statlibs \<Rightarrow> frame \<Rightarrow> error + frame" where
  "add_rent_log L gdf =
     and_then (column gdf ''rent'') (\<lambda>rent.
     and_then (series_log (np_log L) rent) (\<lambda>rent_log.
     Inr (setitem_column gdf ''rent_log'' rent_log)))"

text \<open>
  The five models of the notebook, in cell order, on the frame \<open>gdf\<close> that the spatial
  join produced. The cells between them that only plot or display are left out: they
  assign none of the variables used here.
\<close>

definition nb12_regressions ::
  "('m, 'r) statlibs \<Rightarrow> frame \<Rightarrow> error + 'r regression list" where
  "nb12_regressions L gdf =
     and_then (simple_regression L gdf ''rent'' ''sqft'') (\<lambda>m1.
     and_then (multiple_regression L gdf ''rent'' [''bedrooms'', ''sqft'']) (\<lambda>m2.
     and_then (multiple_regression L gdf ''rent''
        [''bedrooms'', ''sqft'', ''med_home_value'', ''mean_commute_time'']) (\<lambda>m3.
     and_then (add_majority_white gdf) (\<lambda>gdf1.
     and_then (multiple_regression L gdf1 ''rent''
        [''bedrooms'', ''sqft'', ''med_home_value'', ''mean_commute_time'',
         ''majority_white'']) (\<lambda>m4.
     and_then (add_rent_log L gdf1) (\<lambda>gdf2.
     and_then (multiple_regression L gdf2 ''rent_log''
        [''bedrooms'', ''sqft'', ''med_home_value'', ''mean_commute_time'']) (\<lambda>m5.
     Inr [m1, m2, m3, m4, m5])))))))"

text \<open>The number of rows of the predictors, and whether any of their cells is missing.\<close>

fun exog_nrows :: "exog \<Rightarrow> nat" where
  "exog_nrows (ExogSeries name s) = length s"
| "exog_nrows (ExogFrame df) = length (rows df)"

fun exog_notnull :: "exog \<Rightarrow> bool" where
  "exog_notnull (ExogSeries name s) = list_all (\<lambda>c. c \<noteq> None) s"
| "exog_notnull (ExogFrame df) = list_all (notnull_row (columns df)) (rows df)"

text \<open>
  Whether \<open>X\<close> is a column slice of \<open>data\<close>: the column of its name (a Series), or the
  frame of some of its columns.
\<close>

fun is_slice_of :: "frame \<Rightarrow> exog \<Rightarrow> bool" where
  "is_slice_of data (ExogSeries name s) = (column data name = Inr s)"
| "is_slice_of data (ExogFrame X) = (select_columns data (columns X) = Inr X)"

text \<open>
  What is asked of the inputs of one fitted model: the design matrix handed to
  \<^verbatim>\<open>sm.OLS\<close> is what \<^verbatim>\<open>sm.add_constant\<close> returns for \<open>X\<close>; \<open>data\<close> is already filtered by
  \<^verbatim>\<open>dropna\<close>; \<open>X\<close> and \<open>y\<close> are column slices of \<open>data\<close>, with as many rows, and none of
  their cells is missing.
\<close>

definition ols_inputs_ok :: "('m, 'r) statlibs \<Rightarrow> 'r regression \<Rightarrow> bool" where
  "ols_inputs_ok L m \<longleftrightarrow>
     r_design m = add_constant (r_X m)
   \<and> (\<exists>model. OLS L (r_y m) (r_design m) = Inr model \<and> fit L model = Inr (r_result m))
   \<and> dropna (r_data m) = r_data m
   \<and> is_slice_of (r_data m) (r_X m)
   \<and> (\<exists>name. is_slice_of (r_data m) (ExogSeries name (r_y m)))
   \<and> exog_nrows (r_X m) = length (r_y m)
   \<and> exog_notnull (r_X m)
   \<and> list_all (\<lambda>c. c \<noteq> None) (r_y m)"

section \<open>geopandas frames and their coordinate reference system\<close>

text \<open>
  A \<^verbatim>\<open>GeoDataFrame\<close> is a frame with a \<^verbatim>\<open>crs\<close> attribute: a CRS object (of type \<open>'c\<close>,
  pyproj's), or \<^verbatim>\<open>None\<close>. What the libraries compute (fetching and parsing a file, the
  geometry of a reprojection, of a spatial join, of a dissolve, of a predicate) is a
  parameter of the model; each call may raise. What geopandas documents of the \<^verbatim>\<open>crs\<close>
  attribute is written out: a row subset, a merge into a \<^verbatim>\<open>GeoDataFrame\<close>, a dissolve
  and a spatial join keep the CRS of the frame they start from, and \<^verbatim>\<open>to_crs\<close> returns a
  frame in the CRS asked for.
\<close>

record 'c geoframe =
  table :: frame
  crs :: "'c option"

record 'c geolib =
  read_csv :: "string \<Rightarrow> string list \<Rightarrow> error + frame"
  read_file :: "string \<Rightarrow> error + 'c geoframe"
  crs_from_user_input :: "string \<Rightarrow> error + 'c"
  transform :: "'c \<Rightarrow> 'c \<Rightarrow> frame \<Rightarrow> error + frame"
  points_from_xy :: "series \<Rightarrow> series \<Rightarrow> error + series"
  merge_tables :: "frame \<Rightarrow> frame \<Rightarrow> string \<Rightarrow> string \<Rightarrow> string \<Rightarrow> error + frame"
  sjoin_tables :: "frame \<Rightarrow> frame \<Rightarrow> string \<Rightarrow> string \<Rightarrow> error + frame"
  dissolve_table :: "frame \<Rightarrow> string \<Rightarrow> string \<Rightarrow> error + frame"
  unary_union :: "series \<Rightarrow> error + val"
  intersects :: "frame \<Rightarrow> val \<Rightarrow> error + bool list"
  within_geometry :: "frame \<Rightarrow> val \<Rightarrow> error + bool list"
  buffer :: "frame \<Rightarrow> real \<Rightarrow> error + series"
  loc :: "frame \<Rightarrow> string \<Rightarrow> string \<Rightarrow> error + val"

text \<open>\<^verbatim>\<open>s.isin(values)\<close> for a list of strings, and \<^verbatim>\<open>gdf[flags]\<close> for a boolean Series.\<close>

definition isin :: "series \<Rightarrow> string list \<Rightarrow> bool list" where
  "isin s vals = map (\<lambda>c. case c of Some (Obj x) \<Rightarrow> x \<in> set vals | _ \<Rightarrow> False) s"

definition subset_rows :: "'c geoframe \<Rightarrow> bool list \<Rightarrow> 'c geoframe" where
  "subset_rows gdf flags =
     \<lparr>table = \<lparr>columns = columns (table gdf),
                rows = map snd (filter fst (zip flags (rows (table gdf))))\<rparr>,
      crs = crs gdf\<rparr>"

text \<open>\<^verbatim>\<open>gpd.GeoDataFrame(df)\<close> has no CRS; \<^verbatim>\<open>gpd.GeoDataFrame(df, crs=s)\<close> and
  \<^verbatim>\<open>gdf.crs = s\<close> set the CRS the string \<open>s\<close> denotes.\<close>

definition GeoDataFrame :: "frame \<Rightarrow> 'c geoframe" where
  "GeoDataFrame df = \<lparr>table = df, crs = None\<rparr>"

definition set_crs :: "'c geolib \<Rightarrow> 'c geoframe \<Rightarrow> string \<Rightarrow> error + 'c geoframe" where
  "set_crs G gdf s =
     and_then (crs_from_user_input G s) (\<lambda>c. Inr \<lparr>table = table gdf, crs = Some c\<rparr>)"

text \<open>
  \<^verbatim>\<open>gdf.to_crs(target)\<close>, the target a CRS attribute read from a frame (possibly
  \<^verbatim>\<open>None\<close>) or a string. A frame without CRS cannot be transformed, and a target
  \<^verbatim>\<open>None\<close> is refused (\<^verbatim>\<open>ValueError\<close>); otherwise the geometries are transformed and the
  result carries the target CRS.
\<close>

datatype 'c crs_arg = CrsAttr "'c option" | CrsStr string

fun resolve_crs :: "'c geolib \<Rightarrow> 'c crs_arg \<Rightarrow> error + 'c" where
  "resolve_crs G (CrsAttr None) = Inl ValueError"
| "resolve_crs G (CrsAttr (Some c)) = Inr c"
| "resolve_crs G (CrsStr s) = crs_from_user_input G s"

definition to_crs :: "'c geolib \<Rightarrow> 'c geoframe \<Rightarrow> 'c crs_arg \<Rightarrow> error + 'c geoframe" where
  "to_crs G gdf target =
     (case crs gdf of
        None \<Rightarrow> Inl ValueError
      | Some src \<Rightarrow>
          and_then (resolve_crs G target) (\<lambda>dst.
          and_then (transform G src dst (table gdf)) (\<lambda>t.
          Inr \<lparr>table = t, crs = Some dst\<rparr>)))"

text \<open>\<^verbatim>\<open>pd.merge(left=gdf, right=df, how=..., left_on=..., right_on=...)\<close>\<close>

definition pd_merge ::
  "'c geolib \<Rightarrow> 'c geoframe \<Rightarrow> frame \<Rightarrow> string \<Rightarrow> string \<Rightarrow> string \<Rightarrow> error + 'c geoframe" where
  "pd_merge G left right how left_on right_on =
     and_then (merge_tables G (table left) right how left_on right_on) (\<lambda>t.
     Inr \<lparr>table = t, crs = crs left\<rparr>)"

text \<open>\<^verbatim>\<open>gdf.dissolve(by, aggfunc=...)\<close>\<close>

definition dissolve :: "'c geolib \<Rightarrow> 'c geoframe \<Rightarrow> string \<Rightarrow> string \<Rightarrow> error + 'c geoframe" where
  "dissolve G gdf by_col aggfunc =
     and_then (dissolve_table G (table gdf) by_col aggfunc) (\<lambda>t.
     Inr \<lparr>table = t, crs = crs gdf\<rparr>)"

text \<open>
  \<^verbatim>\<open>gpd.sjoin(left, right, how=..., op=...)\<close>. The join does not compare the CRS of its
  two arguments (geopandas only warns when they differ); the result has the left one's.
\<close>

definition gpd_sjoin ::
  "'c geolib \<Rightarrow> 'c geoframe \<Rightarrow> 'c geoframe \<Rightarrow> string \<Rightarrow> string \<Rightarrow> error + 'c geoframe" where
  "gpd_sjoin G left right how op =
     and_then (sjoin_tables G (table left) (table right) how op) (\<lambda>t.
     Inr \<lparr>table = t, crs = crs left\<rparr>)"

definition url_tracts :: string where
  "url_tracts =
     ''https://raw.githubusercontent.com/gboeing/ppd534/main/data/tl_2017_06_tract/tl_2017_06_tract.shp''"

definition url_census :: string where
  "url_census =
     ''https://raw.githubusercontent.com/gboeing/ppd534/main/data/census_tracts_data_ca.csv''"

definition url_listings :: string where
  "url_listings =
     ''https://raw.githubusercontent.com/gboeing/ppd534/main/data/listings-la_oc_vc.csv''"

definition usa_crs :: string where
  "usa_crs = ''epsg:2163''"

definition utm_11 :: string where
  "utm_11 = ''+proj=utm +zone=11 +ellps=WGS84 +datum=WGS84 +units=m +no_defs''"

section \<open>Module 12: from the data to the spatial join\<close>

text \<open>
  \<^verbatim>\<open>
  gdf_tracts = gpd.read_file(".../tl_2017_06_tract.shp")
  df_tracts = pd.read_csv(".../census_tracts_data_ca.csv",
                          dtype={"GEOID10": str, "state": str, "county": str})
  gdf_tracts_data = pd.merge(left=gdf_tracts, right=df_tracts,
                             left_on="GEOID", right_on="GEOID10", how="left")
  df_listings = pd.read_csv(".../listings-la_oc_vc.csv")
  df_listings["geometry"] = gpd.points_from_xy(x=df_listings["longitude"],
                                               y=df_listings["latitude"])
  gdf_listings = gpd.GeoDataFrame(df_listings, crs="epsg:4326")
  gdf_listings = gdf_listings.to_crs(gdf_tracts_data.crs)
  gdf = gpd.sjoin(gdf_listings, gdf_tracts_data, how="inner", op="within")
  \<close>
  A variable assigned more than once is numbered from its second assignment on. The cells between
  that only display a value (\<^verbatim>\<open>.shape\<close>, \<^verbatim>\<open>.crs ==\<close>) are left out.
\<close>

definition nb12_sjoin_arguments :: "'c geolib \<Rightarrow> error + 'c geoframe \<times> 'c geoframe" where
  "nb12_sjoin_arguments G =
     and_then (read_file G url_tracts) (\<lambda>gdf_tracts.
     and_then (read_csv G url_census [''GEOID10'', ''state'', ''county'']) (\<lambda>df_tracts.
     and_then (pd_merge G gdf_tracts df_tracts ''left'' ''GEOID'' ''GEOID10'') (\<lambda>gdf_tracts_data.
     and_then (read_csv G url_listings []) (\<lambda>df_listings.
     and_then (column df_listings ''longitude'') (\<lambda>longitude.
     and_then (column df_listings ''latitude'') (\<lambda>latitude.
     and_then (points_from_xy G longitude latitude) (\<lambda>geometry.
     and_then (Inr (setitem_column df_listings ''geometry'' geometry)) (\<lambda>df_listings2.
     and_then (set_crs G (GeoDataFrame df_listings2) ''epsg:4326'') (\<lambda>gdf_listings.
     and_then (to_crs G gdf_listings (CrsAttr (crs gdf_tracts_data))) (\<lambda>gdf_listings2.
     Inr (gdf_listings2, gdf_tracts_data)))))))))))"

definition nb12_gdf :: "'c geolib \<Rightarrow> error + 'c geoframe" where
  "nb12_gdf G =
     and_then (nb12_sjoin_arguments G) (\<lambda>(gdf_listings, gdf_tracts_data).
     gpd_sjoin G gdf_listings gdf_tracts_data ''inner'' ''within'')"


section \<open>Module 07: from the data to the spatial join\<close>

text \<open>
  \<^verbatim>\<open>modules/07-spatial-data/lecture.ipynb\<close>, every cell that assigns a variable, in cell
  order, up to the cell that reprojects the counties; the cells that only display or plot
  are left out. The three frames the join depends on are \<^verbatim>\<open>gdf_tracts\<close>,
  \<^verbatim>\<open>gdf_listings\<close> and \<^verbatim>\<open>gdf_counties\<close>:
  \<^verbatim>\<open>
  gdf = gpd.read_file(".../tl_2017_06_tract.shp")
  gdf_tracts = gdf[gdf["COUNTYFP"].isin(["037", "059", "111"])]
  df = pd.read_csv(".../listings-la_oc_vc.csv")
  gdf_listings = gpd.GeoDataFrame(df)
  geometry = gpd.points_from_xy(x=gdf_listings["longitude"], y=gdf_listings["latitude"])
  gdf_listings["geometry"] = geometry
  gdf_listings.crs = "epsg:4326"
  gdf_tracts = gdf_tracts.to_crs(gdf_listings.crs)
  unified_listings = gdf_listings["geometry"].unary_union
  mask = gdf_tracts.intersects(unified_listings)
  gdf_counties = gdf_tracts.dissolve("COUNTYFP", aggfunc="sum")
  oc_geometry = gdf_counties.loc["059", "geometry"]
  mask = gdf_listings.within(oc_geometry)
  oc_listings = gdf_listings[mask]
  oc_listings_buffered = oc_listings.buffer(distance=0.1)
  gdf_tracts = gdf_tracts.to_crs(usa_crs)
  gdf_listings = gdf_listings.to_crs(usa_crs)
  gdf_tracts = gdf_tracts.to_crs(utm_11)
  gdf_listings = gdf_listings.to_crs(utm_11)
  tract_indicators = pd.read_csv(".../census_tracts_data_ca.csv", dtype={"GEOID10": str})
  gdf_tracts_ind = pd.merge(left=gdf_tracts, right=tract_indicators, how="left",
                            left_on="GEOID", right_on="GEOID10")
  gdf_counties = gdf_counties.to_crs(gdf_listings.crs)
  gdf_listings_counties = gpd.sjoin(gdf_listings, gdf_counties, how="left", op="within")
  \<close>
\<close>

definition nb07_before_reprojection ::
  "'c geolib \<Rightarrow> error + 'c geoframe \<times> 'c geoframe" where
  "nb07_before_reprojection G =
     and_then (read_file G url_tracts) (\<lambda>gdf.
     and_then (column (table gdf) ''COUNTYFP'') (\<lambda>countyfp.
     and_then (Inr (subset_rows gdf (isin countyfp [''037'', ''059'', ''111'']))) (\<lambda>gdf_tracts.
     and_then (read_csv G url_listings []) (\<lambda>df.
     and_then (Inr (GeoDataFrame df)) (\<lambda>gdf_listings.
     and_then (column (table gdf_listings) ''longitude'') (\<lambda>longitude.
     and_then (column (table gdf_listings) ''latitude'') (\<lambda>latitude.
     and_then (points_from_xy G longitude latitude) (\<lambda>geometry.
     and_then (Inr (gdf_listings\<lparr>table := setitem_column (table gdf_listings) ''geometry'' geometry\<rparr>))
       (\<lambda>gdf_listings2.
     and_then (set_crs G gdf_listings2 ''epsg:4326'') (\<lambda>gdf_listings3.
     and_then (to_crs G gdf_tracts (CrsAttr (crs gdf_listings3))) (\<lambda>gdf_tracts2.
     and_then (column (table gdf_listings3) ''geometry'') (\<lambda>points.
     and_then (unary_union G points) (\<lambda>unified_listings.
     and_then (intersects G (table gdf_tracts2) unified_listings) (\<lambda>flags.
     and_then (dissolve G gdf_tracts2 ''COUNTYFP'' ''sum'') (\<lambda>gdf_counties.
     and_then (loc G (table gdf_counties) ''059'' ''geometry'') (\<lambda>oc_geometry.
     and_then (within_geometry G (table gdf_listings3) oc_geometry) (\<lambda>flags2.
     and_then (Inr (subset_rows gdf_listings3 flags2)) (\<lambda>oc_listings.
     and_then (buffer G (table oc_listings) 0.1) (\<lambda>oc_listings_buffered.
     and_then (to_crs G gdf_tracts2 (CrsStr usa_crs)) (\<lambda>gdf_tracts3.
     and_then (to_crs G gdf_listings3 (CrsStr usa_crs)) (\<lambda>gdf_listings4.
     and_then (to_crs G gdf_tracts3 (CrsStr utm_11)) (\<lambda>gdf_tracts4.
     and_then (to_crs G gdf_listings4 (CrsStr utm_11)) (\<lambda>gdf_listings5.
     and_then (read_csv G url_census [''GEOID10'']) (\<lambda>tract_indicators.
     and_then (pd_merge G gdf_tracts4 tract_indicators ''left'' ''GEOID'' ''GEOID10'')
       (\<lambda>gdf_tracts_ind.
     Inr (gdf_listings5, gdf_counties))))))))))))))))))))))))))"

definition nb07_sjoin_arguments :: "'c geolib \<Rightarrow> error + 'c geoframe \<times> 'c geoframe" where
  "nb07_sjoin_arguments G =
     and_then (nb07_before_reprojection G) (\<lambda>(gdf_listings, gdf_counties).
     and_then (to_crs G gdf_counties (CrsAttr (crs gdf_listings))) (\<lambda>gdf_counties2.
     Inr (gdf_listings, gdf_counties2)))"

definition nb07_gdf_listings_counties :: "'c geolib \<Rightarrow> error + 'c geoframe" where
  "nb07_gdf_listings_counties G =
     and_then (nb07_sjoin_arguments G) (\<lambda>(gdf_listings, gdf_counties).
     gpd_sjoin G gdf_listings gdf_counties ''left'' ''within'')"

section \<open>The code cells of the notebooks\<close>

text \<open>
  The statements of every code cell, as Python's own grammar reads them. A call carries,
  besides the callee expression and the arguments, the library that implements the
  callee: the module an alias stands for (\<^verbatim>\<open>pd\<close>, \<^verbatim>\<open>gpd\<close>, \<^verbatim>\<open>sns\<close>, \<^verbatim>\<open>sm\<close>, \<^verbatim>\<open>np\<close>), the
  class of the receiver for a method (a list, string or dict method is \<open>Builtin\<close>; a
  \<^verbatim>\<open>DataFrame\<close>, \<^verbatim>\<open>Series\<close> or \<^verbatim>\<open>GroupBy\<close> method is \<open>Pandas\<close>; a method that
  \<^verbatim>\<open>GeoDataFrame\<close> or \<^verbatim>\<open>GeoSeries\<close> defines is \<open>GeoPandas\<close>; an \<^verbatim>\<open>Axes\<close> or \<^verbatim>\<open>Figure\<close>
  method is \<open>Matplotlib\<close>; a method of a model or of its results is \<open>Statsmodels\<close>).
  A keyword argument \<^verbatim>\<open>k=v\<close> is \<open>Kw k v\<close>; a slice \<^verbatim>\<open>a:b\<close> is \<open>Op '':'' [a, b]\<close>, an
  absent bound the literal with no text; a dict display lists its keys and values in turn.
  \<open>Shell\<close> is a line handed to the system shell (\<^verbatim>\<open>!pip install ...\<close>), \<open>Help\<close> IPython's
  \<^verbatim>\<open>name?\<close>, and \<open>Invalid\<close> a line that is not Python (the notebook shows its
  \<^verbatim>\<open>SyntaxError\<close>). Cells holding only comments have no statement and are left out; cells
  are numbered by their position in the notebook file, from 0, markdown cells included.
\<close>

datatype library = Builtin | Pandas | GeoPandas | Seaborn | Matplotlib | NumPy | Statsmodels

datatype expr =
    Str string
  | Lit string
  | Name string
  | Attr expr string
  | Subscript expr expr
  | Op string "expr list"
  | Display string "expr list"
  | Call library expr "expr list"
  | Kw string expr
  | ListComp expr expr expr

datatype stmt =
    Import string string
  | ImportFrom string string
  | Assign expr expr
  | ExprStmt expr
  | For expr expr "stmt list"
  | While expr "stmt list"
  | IfElse expr "stmt list" "stmt list"
  | With expr "stmt list"
  | Try "stmt list" "stmt list" "stmt list"
  | Raise expr
  | FunctionDef string "stmt list"
  | ClassDef string "stmt list"
  | Shell string
  | Help string
  | Invalid string

text \<open>An expression and all the expressions inside it; a statement and all inside it.\<close>

fun subexprs :: "expr \<Rightarrow> expr list" where
  "subexprs (Str s) = [Str s]"
| "subexprs (Lit s) = [Lit s]"
| "subexprs (Name n) = [Name n]"
| "subexprs (Attr e a) = Attr e a # subexprs e"
| "subexprs (Subscript e i) = Subscript e i # subexprs e @ subexprs i"
| "subexprs (Op s es) = Op s es # concat (map subexprs es)"
| "subexprs (Display s es) = Display s es # concat (map subexprs es)"
| "subexprs (Call l f es) = Call l f es # subexprs f @ concat (map subexprs es)"
| "subexprs (Kw k e) = Kw k e # subexprs e"
| "subexprs (ListComp e x it) = ListComp e x it # subexprs e @ subexprs x @ subexprs it"

fun substmts :: "stmt \<Rightarrow> stmt list" where
  "substmts (For x it body) = For x it body # concat (map substmts body)"
| "substmts (While c body) = While c body # concat (map substmts body)"
| "substmts (IfElse c body orelse) =
     IfElse c body orelse # concat (map substmts body) @ concat (map substmts orelse)"
| "substmts (With e body) = With e body # concat (map substmts body)"
| "substmts (Try body handlers final) =
     Try body handlers final # concat (map substmts body) @ concat (map substmts handlers)
       @ concat (map substmts final)"
| "substmts (FunctionDef n body) = FunctionDef n body # concat (map substmts body)"
| "substmts (ClassDef n body) = ClassDef n body # concat (map substmts body)"
| "substmts s = [s]"

text \<open>The expressions a statement holds itself (not those of the statements inside it).\<close>

fun own_exprs :: "stmt \<Rightarrow> expr list" where
  "own_exprs (Assign t v) = [t, v]"
| "own_exprs (ExprStmt e) = [e]"
| "own_exprs (For x it body) = [x, it]"
| "own_exprs (While c body) = [c]"
| "own_exprs (IfElse c body orelse) = [c]"
| "own_exprs (With e body) = [e]"
| "own_exprs (Raise e) = [e]"
| "own_exprs s = []"

text \<open>All statements of a notebook, and all its expressions.\<close>

definition statements :: "stmt list list \<Rightarrow> stmt list" where
  "statements nb = concat (map substmts (concat nb))"

definition expressions :: "stmt list list \<Rightarrow> expr list" where
  "expressions nb = concat (map subexprs (concat (map own_exprs (statements nb))))"

text \<open>
  The calls of a notebook: for each, the library, the name called (the name itself, or
  the attribute after the last dot) and the arguments.
\<close>

fun callee_name :: "expr \<Rightarrow> string" where
  "callee_name (Name n) = n"
| "callee_name (Attr e a) = a"
| "callee_name e = ''''"

fun call_of :: "expr \<Rightarrow> (library \<times> string \<times> expr list) list" where
  "call_of (Call l f es) = [(l, callee_name f, es)]"
| "call_of e = []"

definition calls :: "stmt list list \<Rightarrow> (library \<times> string \<times> expr list) list" where
  "calls nb = concat (map call_of (expressions nb))"

text \<open>
  The head of each call (library and name); the names called of one library; the calls of
  some names, with their library.
\<close>

definition heads :: "stmt list list \<Rightarrow> (library \<times> string) list" where
  "heads nb = map (\<lambda>(l, f, es). (l, f)) (calls nb)"

definition called :: "library \<Rightarrow> stmt list list \<Rightarrow> string list" where
  "called l nb = map snd (filter (\<lambda>(l', f). l' = l) (heads nb))"

definition calls_named :: "string list \<Rightarrow> stmt list list \<Rightarrow> (library \<times> string) list" where
  "calls_named fs nb = filter (\<lambda>(l, f). f \<in> set fs) (heads nb)"

text \<open>
  The statements that are more than an import, an assignment or an expression; the
  comprehensions; the \<^verbatim>\<open>try\<close> statements.
\<close>

fun is_compound :: "stmt \<Rightarrow> bool" where
  "is_compound (For x it body) = True"
| "is_compound (While c body) = True"
| "is_compound (IfElse c body orelse) = True"
| "is_compound (With e body) = True"
| "is_compound (Try body handlers final) = True"
| "is_compound (FunctionDef n body) = True"
| "is_compound (ClassDef n body) = True"
| "is_compound s = False"

fun is_comprehension :: "expr \<Rightarrow> bool" where
  "is_comprehension (ListComp e x it) = True"
| "is_comprehension e = False"

fun is_try :: "stmt \<Rightarrow> bool" where
  "is_try (Try body handlers final) = True"
| "is_try s = False"

definition compound :: "stmt list list \<Rightarrow> stmt list" where
  "compound nb = filter is_compound (statements nb)"

definition comprehensions :: "stmt list list \<Rightarrow> expr list" where
  "comprehensions nb = filter is_comprehension (expressions nb)"

definition tries :: "stmt list list \<Rightarrow> stmt list" where
  "tries nb = filter is_try (statements nb)"

section \<open>The four notebooks\<close>

subsection \<open>\<^verbatim>\<open>modules/03-coding-bootcamp-i/lecture.ipynb\<close>\<close>

definition nb03_cell5 :: "stmt list" where
  "nb03_cell5 =
     [ExprStmt (Call Builtin (Name ''print'') [Str ''Hello World!''])]"

definition nb03_cell9 :: "stmt list" where
  "nb03_cell9 =
     [ExprStmt (Op ''+'' [Lit ''1'', Lit ''1''])]"

definition nb03_cell10 :: "stmt list" where
  "nb03_cell10 =
     [ExprStmt (Op ''*'' [Lit ''2'', Lit ''3''])]"

definition nb03_cell11 :: "stmt list" where
  "nb03_cell11 =
     [ExprStmt (Op ''*'' [Lit ''2'', Lit ''3''])]"

definition nb03_cell12 :: "stmt list" where
  "nb03_cell12 =
     [ExprStmt (Op ''/'' [Lit ''10'', Lit ''5''])]"

definition nb03_cell13 :: "stmt list" where
  "nb03_cell13 =
     [ExprStmt (Op ''**'' [Lit ''2'', Lit ''4''])]"

definition nb03_cell14 :: "stmt list" where
  "nb03_cell14 =
     [ExprStmt (Op ''**'' [Lit ''9'', Op ''/'' [Lit ''1'', Lit ''2'']])]"

definition nb03_cell17 :: "stmt list" where
  "nb03_cell17 =
     [Assign (Name ''x'') (Lit ''5'')]"

definition nb03_cell18 :: "stmt list" where
  "nb03_cell18 =
     [ExprStmt (Name ''x'')]"

definition nb03_cell19 :: "stmt list" where
  "nb03_cell19 =
     [ExprStmt (Op ''+'' [Name ''x'', Lit ''3''])]"

definition nb03_cell20 :: "stmt list" where
  "nb03_cell20 =
     [ExprStmt (Name ''x'')]"

definition nb03_cell21 :: "stmt list" where
  "nb03_cell21 =
     [Assign (Name ''x'') (Op ''+'' [Name ''x'', Lit ''3''])]"

definition nb03_cell22 :: "stmt list" where
  "nb03_cell22 =
     [ExprStmt (Name ''x'')]"

definition nb03_cell23 :: "stmt list" where
  "nb03_cell23 =
     [Assign (Name ''x'') (Lit ''5''),
      Assign (Name ''y'') (Op ''*'' [Name ''x'', Lit ''2'']),
      ExprStmt (Name ''y'')]"

definition nb03_cell24 :: "stmt list" where
  "nb03_cell24 =
     [ExprStmt (Name ''x''), ExprStmt (Name ''y'')]"

definition nb03_cell25 :: "stmt list" where
  "nb03_cell25 =
     [ExprStmt (Call Builtin (Name ''print'') [Name ''x'']),
      ExprStmt (Call Builtin (Name ''print'') [Name ''y''])]"

definition nb03_cell26 :: "stmt list" where
  "nb03_cell26 =
     [ExprStmt (Call Builtin (Name ''print'') [Name ''x'', Name ''y''])]"

definition nb03_cell27 :: "stmt list" where
  "nb03_cell27 =
     [ExprStmt (Call Builtin (Name ''print'') [Op ''*'' [Name ''x'', Name ''y'']])]"

definition nb03_cell30 :: "stmt list" where
  "nb03_cell30 =
     [Help ''len'']"

definition nb03_cell31 :: "stmt list" where
  "nb03_cell31 =
     [ExprStmt (Name ''prin'')]"

definition nb03_cell32 :: "stmt list" where
  "nb03_cell32 =
     [Assign (Name ''number_of_students'') (Lit ''10'')]"

definition nb03_cell33 :: "stmt list" where
  "nb03_cell33 =
     [ExprStmt (Name ''numbe'')]"

definition nb03_cell34 :: "stmt list" where
  "nb03_cell34 =
     [ExprStmt (Op ''/'' [Lit ''12'', Lit ''0''])]"

definition nb03_cell38 :: "stmt list" where
  "nb03_cell38 =
     [ExprStmt (Call Builtin (Name ''type'') [Lit ''125''])]"

definition nb03_cell39 :: "stmt list" where
  "nb03_cell39 =
     [Assign (Name ''x'') (Lit ''125''), ExprStmt (Call Builtin (Name ''type'') [Name ''x''])]"

definition nb03_cell40 :: "stmt list" where
  "nb03_cell40 =
     [ExprStmt (Call Builtin (Name ''isinstance'') [Name ''x'', Name ''int''])]"

definition nb03_cell41 :: "stmt list" where
  "nb03_cell41 =
     [Assign (Name ''some_rate'') (Lit ''4.3''),
      ExprStmt (Call Builtin (Name ''type'') [Name ''some_rate''])]"

definition nb03_cell42 :: "stmt list" where
  "nb03_cell42 =
     [ExprStmt (Call Builtin (Name ''isinstance'') [Name ''some_rate'', Name ''int''])]"

definition nb03_cell43 :: "stmt list" where
  "nb03_cell43 =
     [Assign (Name ''some_rate'') (Lit ''125''),
      ExprStmt (Call Builtin (Name ''isinstance'') [Name ''some_rate'', Name ''int''])]"

definition nb03_cell44 :: "stmt list" where
  "nb03_cell44 =
     [Assign (Name ''s'') (Str ''abc''), ExprStmt (Call Builtin (Name ''type'') [Name ''s''])]"

definition nb03_cell45 :: "stmt list" where
  "nb03_cell45 =
     [Assign (Name ''my_list'') (Display ''list'' [Lit ''1'', Lit ''2'', Lit ''3'', Lit ''4'']),
      ExprStmt (Name ''my_list'')]"

definition nb03_cell46 :: "stmt list" where
  "nb03_cell46 =
     [ExprStmt (Call Builtin (Name ''type'') [Name ''my_list''])]"

definition nb03_cell47 :: "stmt list" where
  "nb03_cell47 =
     [Assign (Name ''person'')
        (Display ''dict'' [Str ''first_name'', Str ''Geoff'', Str ''last_name'', Str ''Boeing'']),
      ExprStmt (Name ''person'')]"

definition nb03_cell48 :: "stmt list" where
  "nb03_cell48 =
     [ExprStmt (Call Builtin (Name ''type'') [Name ''person''])]"

definition nb03_cell51 :: "stmt list" where
  "nb03_cell51 =
     [Assign (Name ''num1'') (Lit ''8''),
      Assign (Name ''num2'') (Lit ''5''),
      ExprStmt (Op ''/'' [Name ''num1'', Name ''num2''])]"

definition nb03_cell52 :: "stmt list" where
  "nb03_cell52 =
     [Assign (Name ''num1'') (Lit ''10''),
      Assign (Name ''num2'') (Lit ''5''),
      ExprStmt (Op ''/'' [Name ''num1'', Name ''num2''])]"

definition nb03_cell53 :: "stmt list" where
  "nb03_cell53 =
     [Assign (Name ''num1'') (Lit ''8.0''),
      ExprStmt (Call Builtin (Name ''print'') [Call Builtin (Name ''type'') [Name ''num1'']]),
      Assign (Name ''num2'') (Lit ''5''),
      ExprStmt (Call Builtin (Name ''print'') [Call Builtin (Name ''type'') [Name ''num2'']]),
      Assign (Name ''num3'') (Op ''/'' [Name ''num1'', Name ''num2'']),
      ExprStmt (Call Builtin (Name ''print'') [Call Builtin (Name ''type'') [Name ''num3'']]),
      ExprStmt (Name ''num3'')]"

definition nb03_cell55 :: "stmt list" where
  "nb03_cell55 =
     [Assign (Name ''city'') (Str ''Los Angeles''),
      Assign (Name ''sep'') (Str '', ''),
      Assign (Name ''state'') (Str ''CA''),
      Assign (Name ''zip_code'') (Str ''90089''),
      Assign (Name ''location'')
        (Op ''+''
           [Op ''+''
              [Op ''+'' [Op ''+'' [Name ''city'', Name ''sep''], Name ''state''], Str '' ''],
            Name ''zip_code'']),
      ExprStmt (Call Builtin (Name ''print'') [Name ''location''])]"

definition nb03_cell56 :: "stmt list" where
  "nb03_cell56 =
     [Invalid ''zip_code = 02115'']"

definition nb03_cell57 :: "stmt list" where
  "nb03_cell57 =
     [Assign (Name ''zip_code'') (Str ''02115'')]"

definition nb03_cell58 :: "stmt list" where
  "nb03_cell58 =
     [ExprStmt (Op ''*'' [Name ''zip_code'', Lit ''3''])]"

definition nb03_cell59 :: "stmt list" where
  "nb03_cell59 =
     [ExprStmt (Call Builtin (Name ''print'') [Name ''location'']),
      ExprStmt (Subscript (Name ''location'') (Lit ''0''))]"

definition nb03_cell60 :: "stmt list" where
  "nb03_cell60 =
     [ExprStmt (Call Builtin (Name ''print'') [Subscript (Name ''location'') (Lit ''0'')]),
      ExprStmt (Call Builtin (Name ''print'') [Subscript (Name ''location'') (Lit ''1'')]),
      ExprStmt (Call Builtin (Name ''print'') [Subscript (Name ''location'') (Lit ''2'')])]"

definition nb03_cell61 :: "stmt list" where
  "nb03_cell61 =
     [ExprStmt (Call Builtin (Name ''len'') [Name ''location''])]"

definition nb03_cell62 :: "stmt list" where
  "nb03_cell62 =
     [ExprStmt (Subscript (Name ''location'') (Op '':'' [Lit ''4'', Lit ''7'']))]"

definition nb03_cell63 :: "stmt list" where
  "nb03_cell63 =
     [ExprStmt (Subscript (Name ''location'') (Op '':'' [Lit '''', Lit ''5'']))]"

definition nb03_cell64 :: "stmt list" where
  "nb03_cell64 =
     [ExprStmt (Subscript (Name ''location'') (Op '':'' [Lit ''5'', Lit '''']))]"

definition nb03_cell65 :: "stmt list" where
  "nb03_cell65 =
     [ExprStmt (Subscript (Name ''location'') (Op '':'' [Op ''-'' [Lit ''8''], Lit '''']))]"

definition nb03_cell66 :: "stmt list" where
  "nb03_cell66 =
     [ExprStmt (Call Builtin (Attr (Name ''location'') ''replace'') [Str ''e'', Str ''E''])]"

definition nb03_cell69 :: "stmt list" where
  "nb03_cell69 =
     [ExprStmt (Name ''zip_code'')]"

definition nb03_cell70 :: "stmt list" where
  "nb03_cell70 =
     [ExprStmt (Call Builtin (Name ''type'') [Name ''zip_code''])]"

definition nb03_cell71 :: "stmt list" where
  "nb03_cell71 =
     [Assign (Name ''zip_code'') (Call Builtin (Name ''int'') [Name ''zip_code'']),
      ExprStmt (Name ''zip_code'')]"

definition nb03_cell72 :: "stmt list" where
  "nb03_cell72 =
     [ExprStmt (Call Builtin (Name ''type'') [Name ''zip_code''])]"

definition nb03_cell73 :: "stmt list" where
  "nb03_cell73 =
     [ExprStmt (Op ''*'' [Name ''zip_code'', Lit ''2''])]"

definition nb03_cell74 :: "stmt list" where
  "nb03_cell74 =
     [Assign (Name ''x'') (Lit ''3''),
      ExprStmt (Call Builtin (Name ''print'') [Op ''*'' [Name ''x'', Lit ''2'']]),
      Assign (Name ''y'') (Call Builtin (Name ''str'') [Name ''x'']),
      ExprStmt (Call Builtin (Name ''print'') [Op ''*'' [Name ''y'', Lit ''2'']])]"

definition nb03_cell75 :: "stmt list" where
  "nb03_cell75 =
     [Assign (Name ''rent_str'') (Str ''2500.00''),
      Assign (Name ''rent_int'') (Call Builtin (Name ''int'') [Name ''rent_str''])]"

definition nb03_cell76 :: "stmt list" where
  "nb03_cell76 =
     [Assign (Name ''rent_int'')
        (Call Builtin (Name ''int'') [Call Builtin (Name ''float'') [Name ''rent_str'']]),
      ExprStmt (Name ''rent_int'')]"

definition nb03_cell77 :: "stmt list" where
  "nb03_cell77 =
     [Assign (Name ''city'') (Str ''Los Angeles ''),
      Assign (Name ''zip_code'') (Lit ''90089''),
      ExprStmt (Op ''+'' [Name ''city'', Name ''zip_code''])]"

definition nb03_cell78 :: "stmt list" where
  "nb03_cell78 =
     [ExprStmt (Op ''+'' [Name ''city'', Call Builtin (Name ''str'') [Name ''zip_code'']])]"

definition nb03_cell81 :: "stmt list" where
  "nb03_cell81 =
     [Assign (Name ''my_tuple'')
        (Display ''tuple'' [Lit ''3'', Lit ''2'', Lit ''1'', Lit ''2'']),
      ExprStmt (Name ''my_tuple'')]"

definition nb03_cell82 :: "stmt list" where
  "nb03_cell82 =
     [ExprStmt (Call Builtin (Name ''sum'') [Name ''my_tuple''])]"

definition nb03_cell83 :: "stmt list" where
  "nb03_cell83 =
     [ExprStmt (Call Builtin (Name ''set'') [Name ''my_tuple''])]"

definition nb03_cell84 :: "stmt list" where
  "nb03_cell84 =
     [Assign (Name ''my_list'') (Display ''list'' [Lit ''2'', Lit ''4'', Lit ''6'', Lit ''8''])]"

definition nb03_cell85 :: "stmt list" where
  "nb03_cell85 =
     [ExprStmt (Call Builtin (Name ''len'') [Name ''my_list''])]"

definition nb03_cell86 :: "stmt list" where
  "nb03_cell86 =
     [ExprStmt (Subscript (Name ''my_list'') (Lit ''0''))]"

definition nb03_cell87 :: "stmt list" where
  "nb03_cell87 =
     [Assign (Subscript (Name ''my_list'') (Lit ''2'')) (Lit ''100''),
      ExprStmt (Name ''my_list'')]"

definition nb03_cell88 :: "stmt list" where
  "nb03_cell88 =
     [ExprStmt (Call Builtin (Attr (Name ''my_list'') ''append'') [Str ''hello'']),
      ExprStmt (Name ''my_list'')]"

definition nb03_cell89 :: "stmt list" where
  "nb03_cell89 =
     [ExprStmt
        (Op ''+''
           [Display ''list'' [Lit ''1'', Lit ''2'', Lit ''3''],
            Display ''list'' [Lit ''4'', Lit ''5'', Lit ''6'']])]"

definition nb03_cell91 :: "stmt list" where
  "nb03_cell91 =
     [Assign (Name ''int_list'')
        (Display ''list'' [Lit ''2'', Lit ''4'', Lit ''6'', Lit ''8'', Lit ''10''])]"

definition nb03_cell92 :: "stmt list" where
  "nb03_cell92 =
     [ExprStmt (Call Builtin (Name ''len'') [Name ''int_list''])]"

definition nb03_cell93 :: "stmt list" where
  "nb03_cell93 =
     [ExprStmt (Subscript (Name ''int_list'') (Lit ''0''))]"

definition nb03_cell94 :: "stmt list" where
  "nb03_cell94 =
     [ExprStmt (Call Builtin (Name ''type'') [Subscript (Name ''int_list'') (Lit ''0'')])]"

definition nb03_cell95 :: "stmt list" where
  "nb03_cell95 =
     [ExprStmt (Call Builtin (Name ''str'') [Subscript (Name ''int_list'') (Lit ''0'')])]"

definition nb03_cell96 :: "stmt list" where
  "nb03_cell96 =
     [ExprStmt
        (Call Builtin (Name ''type'')
           [Call Builtin (Name ''str'') [Subscript (Name ''int_list'') (Lit ''0'')]])]"

definition nb03_cell97 :: "stmt list" where
  "nb03_cell97 =
     [Assign (Name ''str_list'') (Display ''list'' [])]"

definition nb03_cell98 :: "stmt list" where
  "nb03_cell98 =
     [ExprStmt
        (Call Builtin (Attr (Name ''str_list'') ''append'')
           [Call Builtin (Name ''str'') [Subscript (Name ''int_list'') (Lit ''0'')]])]"

definition nb03_cell99 :: "stmt list" where
  "nb03_cell99 =
     [ExprStmt (Name ''str_list'')]"

definition nb03_cell100 :: "stmt list" where
  "nb03_cell100 =
     [ExprStmt
        (Call Builtin (Attr (Name ''str_list'') ''append'')
           [Call Builtin (Name ''str'') [Subscript (Name ''int_list'') (Lit ''1'')]]),
      ExprStmt
        (Call Builtin (Attr (Name ''str_list'') ''append'')
           [Call Builtin (Name ''str'') [Subscript (Name ''int_list'') (Lit ''2'')]]),
      ExprStmt
        (Call Builtin (Attr (Name ''str_list'') ''append'')
           [Call Builtin (Name ''str'') [Subscript (Name ''int_list'') (Lit ''3'')]]),
      ExprStmt
        (Call Builtin (Attr (Name ''str_list'') ''append'')
           [Call Builtin (Name ''str'') [Subscript (Name ''int_list'') (Lit ''4'')]])]"

definition nb03_cell101 :: "stmt list" where
  "nb03_cell101 =
     [ExprStmt (Name ''str_list'')]"

definition nb03_cell102 :: "stmt list" where
  "nb03_cell102 =
     [ExprStmt (Name ''int_list'')]"

definition nb03_cell103 :: "stmt list" where
  "nb03_cell103 =
     [Assign (Name ''new_list'') (Display ''list'' []),
      For (Name ''value'') (Name ''int_list'')
        [ExprStmt
           (Call Builtin (Attr (Name ''new_list'') ''append'')
              [Call Builtin (Name ''str'') [Name ''value'']])],
      ExprStmt (Name ''new_list'')]"

definition nb03_cell104 :: "stmt list" where
  "nb03_cell104 =
     [ExprStmt
        (ListComp (Call Builtin (Name ''str'') [Name ''value'']) (Name ''value'')
           (Name ''int_list''))]"

definition nb03_cell108 :: "stmt list" where
  "nb03_cell108 =
     [Assign (Name ''antonyms'')
        (Display ''dict''
           [Str ''hot'', Str ''cold'', Str ''fast'', Str ''slow'', Str ''good'', Str ''bad'']),
      ExprStmt (Name ''antonyms'')]"

definition nb03_cell109 :: "stmt list" where
  "nb03_cell109 =
     [ExprStmt (Subscript (Name ''antonyms'') (Str ''hot''))]"

definition nb03_cell110 :: "stmt list" where
  "nb03_cell110 =
     [Assign (Subscript (Name ''antonyms'') (Str ''hot'')) (Str ''freezing''),
      ExprStmt (Name ''antonyms'')]"

definition nb03_cell111 :: "stmt list" where
  "nb03_cell111 =
     [ExprStmt (Call Builtin (Attr (Name ''antonyms'') ''keys'') [])]"

definition nb03_cell112 :: "stmt list" where
  "nb03_cell112 =
     [ExprStmt (Call Builtin (Attr (Name ''antonyms'') ''values'') [])]"

definition nb03_cell113 :: "stmt list" where
  "nb03_cell113 =
     [ExprStmt (Call Builtin (Attr (Name ''antonyms'') ''items'') [])]"

definition nb03 :: "stmt list list" where
  "nb03 =
    [nb03_cell5, nb03_cell9, nb03_cell10, nb03_cell11, nb03_cell12, nb03_cell13, nb03_cell14,
     nb03_cell17, nb03_cell18, nb03_cell19, nb03_cell20, nb03_cell21, nb03_cell22, nb03_cell23,
     nb03_cell24, nb03_cell25, nb03_cell26, nb03_cell27, nb03_cell30, nb03_cell31, nb03_cell32,
     nb03_cell33, nb03_cell34, nb03_cell38, nb03_cell39, nb03_cell40, nb03_cell41, nb03_cell42,
     nb03_cell43, nb03_cell44, nb03_cell45, nb03_cell46, nb03_cell47, nb03_cell48, nb03_cell51,
     nb03_cell52, nb03_cell53, nb03_cell55, nb03_cell56, nb03_cell57, nb03_cell58, nb03_cell59,
     nb03_cell60, nb03_cell61, nb03_cell62, nb03_cell63, nb03_cell64, nb03_cell65, nb03_cell66,
     nb03_cell69, nb03_cell70, nb03_cell71, nb03_cell72, nb03_cell73, nb03_cell74, nb03_cell75,
     nb03_cell76, nb03_cell77, nb03_cell78, nb03_cell81, nb03_cell82, nb03_cell83, nb03_cell84,
     nb03_cell85, nb03_cell86, nb03_cell87, nb03_cell88, nb03_cell89, nb03_cell91, nb03_cell92,
     nb03_cell93, nb03_cell94, nb03_cell95, nb03_cell96, nb03_cell97, nb03_cell98, nb03_cell99,
     nb03_cell100, nb03_cell101, nb03_cell102, nb03_cell103, nb03_cell104, nb03_cell108,
     nb03_cell109, nb03_cell110, nb03_cell111, nb03_cell112, nb03_cell113]"

subsection \<open>\<^verbatim>\<open>modules/06-data-visualization/lecture.ipynb\<close>\<close>

definition nb06_cell1 :: "stmt list" where
  "nb06_cell1 =
     [Shell ''pip install numpy pandas seaborn'']"

definition nb06_cell2 :: "stmt list" where
  "nb06_cell2 =
     [Import ''numpy'' ''np'', Import ''pandas'' ''pd'', Import ''seaborn'' ''sns'']"

definition nb06_cell4 :: "stmt list" where
  "nb06_cell4 =
     [Assign (Name ''df'')
        (Call Pandas (Attr (Name ''pd'') ''read_csv'')
           [Str
              ''https://raw.githubusercontent.com/gboeing/ppd534/main/data/census_tracts_data_ca.csv'',
            Kw ''dtype'' (Display ''dict'' [Str ''GEOID10'', Name ''str''])]),
      ExprStmt (Attr (Name ''df'') ''shape'')]"

definition nb06_cell5 :: "stmt list" where
  "nb06_cell5 =
     [ExprStmt (Attr (Name ''df'') ''columns'')]"

definition nb06_cell6 :: "stmt list" where
  "nb06_cell6 =
     [Assign (Name ''df'') (Call Pandas (Attr (Name ''df'') ''set_index'') [Str ''GEOID10'']),
      ExprStmt (Call Pandas (Attr (Name ''df'') ''head'') [])]"

definition nb06_cell8 :: "stmt list" where
  "nb06_cell8 =
     [Assign (Name ''socal_counties'')
        (Display ''list''
           [Str ''Imperial'',
            Str ''Kern'',
            Str ''Los Angeles'',
            Str ''Orange'',
            Str ''Riverside'',
            Str ''San Bernardino'',
            Str ''San Diego'',
            Str ''San Luis Obispo'',
            Str ''Santa Barbara'',
            Str ''Ventura'']),
      Assign (Name ''mask'')
        (Call Pandas (Attr (Subscript (Name ''df'') (Str ''county_name'')) ''isin'')
           [Name ''socal_counties'']),
      Assign (Name ''df_sc'') (Subscript (Name ''df'') (Name ''mask'')),
      ExprStmt (Attr (Name ''df_sc'') ''shape'')]"

definition nb06_cell9 :: "stmt list" where
  "nb06_cell9 =
     [ExprStmt
        (Call Pandas
           (Attr (Subscript (Name ''df_sc'') (Str ''med_household_income'')) ''describe'')
           [])]"

definition nb06_cell10 :: "stmt list" where
  "nb06_cell10 =
     [ExprStmt
        (Call Pandas
           (Attr
              (Call Pandas
                 (Attr
                    (Subscript
                       (Call Pandas (Attr (Name ''df_sc'') ''groupby'') [Str ''county_name''])
                       (Str ''med_household_income''))
                    ''describe'')
                 [])
              ''astype'')
           [Name ''int''])]"

definition nb06_cell12 :: "stmt list" where
  "nb06_cell12 =
     [Assign (Name ''ax'')
        (Call Seaborn (Attr (Name ''sns'') ''boxplot'')
           [Kw ''x'' (Subscript (Name ''df_sc'') (Str ''med_household_income'')),
            Kw ''y'' (Subscript (Name ''df_sc'') (Str ''county_name''))])]"

definition nb06_cell14 :: "stmt list" where
  "nb06_cell14 =
     [ExprStmt (Call Builtin (Name ''type'') [Name ''ax''])]"

definition nb06_cell15 :: "stmt list" where
  "nb06_cell15 =
     [Assign (Name ''fig'') (Call Matplotlib (Attr (Name ''ax'') ''get_figure'') []),
      ExprStmt (Call Builtin (Name ''type'') [Name ''fig''])]"

definition nb06_cell16 :: "stmt list" where
  "nb06_cell16 =
     [Assign (Name ''fig'') (Call Matplotlib (Attr (Name ''ax'') ''get_figure'') []),
      ExprStmt
        (Call Matplotlib (Attr (Name ''fig'') ''set_size_inches'') [Lit ''6'', Lit ''6'']),
      ExprStmt (Name ''fig'')]"

definition nb06_cell18 :: "stmt list" where
  "nb06_cell18 =
     [ExprStmt (Call Seaborn (Attr (Name ''sns'') ''set_style'') [Str ''whitegrid'']),
      ExprStmt (Call Seaborn (Attr (Name ''sns'') ''set_context'') [Str ''paper'']),
      Assign (Name ''ax'')
        (Call Seaborn (Attr (Name ''sns'') ''boxplot'')
           [Kw ''x'' (Subscript (Name ''df_sc'') (Str ''med_household_income'')),
            Kw ''y'' (Subscript (Name ''df_sc'') (Str ''county_name'')),
            Kw ''fliersize'' (Lit ''1''),
            Kw ''boxprops'' (Display ''dict'' [Str ''alpha'', Lit ''0.7''])]),
      ExprStmt (Call Matplotlib (Attr (Name ''ax'') ''set_xlim'') [Kw ''left'' (Lit ''0'')]),
      ExprStmt
        (Call Matplotlib (Attr (Name ''ax'') ''set_title'')
           [Str ''Box plot of tract-level median household income'']),
      ExprStmt
        (Call Matplotlib (Attr (Name ''ax'') ''set_xlabel'')
           [Str ''2017 inflation-adjusted USD'']),
      ExprStmt (Call Matplotlib (Attr (Name ''ax'') ''set_ylabel'') [Str '''']),
      ExprStmt
        (Call Matplotlib
           (Attr (Call Matplotlib (Attr (Name ''ax'') ''get_figure'') []) ''savefig'')
           [Str ''figure-income-boxplot.png'',
            Kw ''dpi'' (Lit ''600''),
            Kw ''bbox_inches'' (Str ''tight'')])]"

definition nb06_cell21 :: "stmt list" where
  "nb06_cell21 =
     [Assign (Name ''ax'')
        (Call Seaborn (Attr (Name ''sns'') ''histplot'')
           [Call Pandas (Attr (Subscript (Name ''df'') (Str ''median_age'')) ''dropna'') [],
            Kw ''stat'' (Str ''density''),
            Kw ''kde'' (Lit ''True'')])]"

definition nb06_cell22 :: "stmt list" where
  "nb06_cell22 =
     [Assign (Name ''ax'')
        (Call Seaborn (Attr (Name ''sns'') ''histplot'')
           [Call Pandas (Attr (Subscript (Name ''df'') (Str ''median_age'')) ''dropna'') [],
            Kw ''stat'' (Str ''density''),
            Kw ''kde'' (Lit ''False'')])]"

definition nb06_cell24 :: "stmt list" where
  "nb06_cell24 =
     [Assign (Name ''df_wht'')
        (Subscript (Name ''df'')
           (Op ''>'' [Subscript (Name ''df'') (Str ''pct_white''), Lit ''50''])),
      Assign (Name ''df_hsp'')
        (Subscript (Name ''df'')
           (Op ''>'' [Subscript (Name ''df'') (Str ''pct_hispanic''), Lit ''50'']))]"

definition nb06_cell25 :: "stmt list" where
  "nb06_cell25 =
     [Assign (Name ''ax'')
        (Call Seaborn (Attr (Name ''sns'') ''histplot'')
           [Call Pandas (Attr (Subscript (Name ''df_wht'') (Str ''median_age'')) ''dropna'') [],
            Kw ''stat'' (Str ''density'')]),
      Assign (Name ''ax'')
        (Call Seaborn (Attr (Name ''sns'') ''histplot'')
           [Call Pandas (Attr (Subscript (Name ''df_hsp'') (Str ''median_age'')) ''dropna'') [],
            Kw ''stat'' (Str ''density''),
            Kw ''color'' (Str ''orange'')])]"

definition nb06_cell26 :: "stmt list" where
  "nb06_cell26 =
     [Assign (Name ''ax'')
        (Call Seaborn (Attr (Name ''sns'') ''histplot'')
           [Call Pandas (Attr (Subscript (Name ''df_wht'') (Str ''median_age'')) ''dropna'') [],
            Kw ''stat'' (Str ''density''),
            Kw ''label'' (Str ''Majority White Tracts'')]),
      Assign (Name ''ax'')
        (Call Seaborn (Attr (Name ''sns'') ''histplot'')
           [Call Pandas (Attr (Subscript (Name ''df_hsp'') (Str ''median_age'')) ''dropna'') [],
            Kw ''stat'' (Str ''density''),
            Kw ''label'' (Str ''Majority Hispanic Tracts''),
            Kw ''color'' (Str ''orange'')]),
      ExprStmt (Call Matplotlib (Attr (Name ''ax'') ''legend'') []),
      ExprStmt (Call Matplotlib (Attr (Name ''ax'') ''set_xlim'') [Lit ''10'', Lit ''85'']),
      ExprStmt
        (Call Matplotlib (Attr (Name ''ax'') ''set_xlabel'')
           [Str ''Median Age of Population (Years)'']),
      ExprStmt
        (Call Matplotlib
           (Attr (Call Matplotlib (Attr (Name ''ax'') ''get_figure'') []) ''savefig'')
           [Str ''figure-age-distributions.png'',
            Kw ''dpi'' (Lit ''600''),
            Kw ''bbox_inches'' (Str ''tight'')])]"

definition nb06_cell30 :: "stmt list" where
  "nb06_cell30 =
     [Assign (Name ''ax'')
        (Call Seaborn (Attr (Name ''sns'') ''scatterplot'')
           [Kw ''x'' (Subscript (Name ''df'') (Str ''pct_bachelors_degree'')),
            Kw ''y'' (Subscript (Name ''df'') (Str ''med_household_income''))])]"

definition nb06_cell31 :: "stmt list" where
  "nb06_cell31 =
     [Assign (Name ''counties'')
        (Display ''list'' [Str ''Riverside'', Str ''San Mateo'', Str ''San Francisco'']),
      Assign (Name ''df_counties'')
        (Subscript (Name ''df'')
           (Call Pandas (Attr (Subscript (Name ''df'') (Str ''county_name'')) ''isin'')
              [Name ''counties''])),
      Assign (Name ''ax'')
        (Call Seaborn (Attr (Name ''sns'') ''scatterplot'')
           [Kw ''x'' (Subscript (Name ''df_counties'') (Str ''pct_bachelors_degree'')),
            Kw ''y'' (Subscript (Name ''df_counties'') (Str ''med_household_income'')),
            Kw ''hue'' (Subscript (Name ''df_counties'') (Str ''county_name''))])]"

definition nb06_cell32 :: "stmt list" where
  "nb06_cell32 =
     [Assign (Name ''counties'')
        (Display ''list'' [Str ''Riverside'', Str ''San Mateo'', Str ''San Francisco'']),
      Assign (Name ''df_counties'')
        (Subscript (Name ''df'')
           (Call Pandas (Attr (Subscript (Name ''df'') (Str ''county_name'')) ''isin'')
              [Name ''counties''])),
      Assign (Name ''ax'')
        (Call Seaborn (Attr (Name ''sns'') ''scatterplot'')
           [Kw ''x'' (Subscript (Name ''df_counties'') (Str ''pct_bachelors_degree'')),
            Kw ''y'' (Subscript (Name ''df_counties'') (Str ''med_household_income'')),
            Kw ''hue'' (Subscript (Name ''df_counties'') (Str ''county_name'')),
            Kw ''alpha'' (Lit ''0.8'')]),
      Assign (Display ''tuple'' [Name ''handles'', Name ''labels''])
        (Call Matplotlib (Attr (Name ''ax'') ''get_legend_handles_labels'') []),
      ExprStmt
        (Call Matplotlib (Attr (Name ''ax'') ''legend'')
           [Kw ''handles'' (Name ''handles''), Kw ''labels'' (Name ''labels'')]),
      ExprStmt (Call Matplotlib (Attr (Name ''ax'') ''set_xlim'') [Lit ''0'', Lit ''100'']),
      ExprStmt (Call Matplotlib (Attr (Name ''ax'') ''set_ylim'') [Kw ''bottom'' (Lit ''0'')]),
      ExprStmt
        (Call Matplotlib (Attr (Name ''ax'') ''set_xlabel'')
           [Str ''Tract population % with bachelor's degree or higher'']),
      ExprStmt
        (Call Matplotlib (Attr (Name ''ax'') ''set_ylabel'')
           [Str ''Tract median household income (2017 USD)'']),
      ExprStmt
        (Call Matplotlib
           (Attr (Call Matplotlib (Attr (Name ''ax'') ''get_figure'') []) ''savefig'')
           [Str ''figure-income-degree.png'',
            Kw ''dpi'' (Lit ''600''),
            Kw ''bbox_inches'' (Str ''tight'')])]"

definition nb06_cell35 :: "stmt list" where
  "nb06_cell35 =
     [Assign (Name ''df_sf'')
        (Subscript (Name ''df'')
           (Op ''=='' [Subscript (Name ''df'') (Str ''county_name''), Str ''San Francisco''])),
      Assign (Name ''df_sf'')
        (Subscript (Name ''df_sf'')
           (Display ''list''
              [Str ''pct_bachelors_degree'',
               Str ''med_household_income'',
               Str ''med_home_value'',
               Str ''mean_commute_time''])),
      ExprStmt (Call Pandas (Attr (Name ''df_sf'') ''head'') [])]"

definition nb06_cell36 :: "stmt list" where
  "nb06_cell36 =
     [Assign (Name ''ax'')
        (Call Seaborn (Attr (Name ''sns'') ''pairplot'')
           [Call Pandas (Attr (Name ''df_sf'') ''dropna'') []])]"

definition nb06_cell38 :: "stmt list" where
  "nb06_cell38 =
     [Assign (Name ''correlations'') (Call Pandas (Attr (Name ''df_sf'') ''corr'') []),
      ExprStmt (Call Pandas (Attr (Name ''correlations'') ''round'') [Lit ''2''])]"

definition nb06_cell39 :: "stmt list" where
  "nb06_cell39 =
     [Assign (Name ''ax'')
        (Call Seaborn (Attr (Name ''sns'') ''heatmap'')
           [Name ''correlations'',
            Kw ''vmin'' (Op ''-'' [Lit ''1'']),
            Kw ''vmax'' (Lit ''1''),
            Kw ''center'' (Lit ''0''),
            Kw ''cmap'' (Str ''coolwarm''),
            Kw ''square'' (Lit ''True''),
            Kw ''linewidths'' (Lit ''1'')])]"

definition nb06_cell40 :: "stmt list" where
  "nb06_cell40 =
     [Assign (Name ''ax'')
        (Call Seaborn (Attr (Name ''sns'') ''regplot'')
           [Kw ''x'' (Subscript (Name ''df_sf'') (Str ''pct_bachelors_degree'')),
            Kw ''y'' (Subscript (Name ''df_sf'') (Str ''med_household_income''))]),
      ExprStmt
        (Call Matplotlib
           (Attr (Call Matplotlib (Attr (Name ''ax'') ''get_figure'') []) ''set_size_inches'')
           [Lit ''5'', Lit ''5''])]"

definition nb06_cell42 :: "stmt list" where
  "nb06_cell42 =
     [Assign (Name ''counts'')
        (Call Pandas
           (Attr
              (Call Pandas
                 (Attr (Subscript (Name ''df_sc'') (Str ''county_name'')) ''value_counts'')
                 [])
              ''sort_index'')
           []),
      ExprStmt (Name ''counts'')]"

definition nb06_cell43 :: "stmt list" where
  "nb06_cell43 =
     [Assign (Name ''ax'')
        (Call Seaborn (Attr (Name ''sns'') ''countplot'')
           [Kw ''x'' (Subscript (Name ''df_sc'') (Str ''county_name''))])]"

definition nb06_cell44 :: "stmt list" where
  "nb06_cell44 =
     [Assign (Name ''order'')
        (Attr
           (Call Pandas
              (Attr (Subscript (Name ''df_sc'') (Str ''county_name'')) ''value_counts'')
              [])
           ''index''),
      Assign (Name ''ax'')
        (Call Seaborn (Attr (Name ''sns'') ''countplot'')
           [Kw ''x'' (Subscript (Name ''df_sc'') (Str ''county_name'')),
            Kw ''order'' (Name ''order''),
            Kw ''alpha'' (Lit ''0.7'')]),
      ExprStmt
        (Call Matplotlib (Attr (Name ''ax'') ''set_xticklabels'')
           [Call Matplotlib (Attr (Name ''ax'') ''get_xticklabels'') [],
            Kw ''rotation'' (Lit ''45''),
            Kw ''horizontalalignment'' (Str ''right'')]),
      ExprStmt
        (Call Matplotlib (Attr (Name ''ax'') ''set_xlabel'')
           [Str ''Counties in Southern California'']),
      ExprStmt
        (Call Matplotlib (Attr (Name ''ax'') ''set_ylabel'') [Str ''Number of census tracts'']),
      ExprStmt
        (Call Matplotlib
           (Attr (Call Matplotlib (Attr (Name ''ax'') ''get_figure'') []) ''savefig'')
           [Str ''county-tracts-countplot.png'',
            Kw ''dpi'' (Lit ''600''),
            Kw ''bbox_inches'' (Str ''tight'')])]"

definition nb06_cell45 :: "stmt list" where
  "nb06_cell45 =
     [Assign (Name ''ax'')
        (Call Seaborn (Attr (Name ''sns'') ''barplot'')
           [Kw ''x'' (Subscript (Name ''df_sc'') (Str ''county_name'')),
            Kw ''y'' (Subscript (Name ''df_sc'') (Str ''med_household_income''))])]"

definition nb06_cell46 :: "stmt list" where
  "nb06_cell46 =
     [Assign (Name ''order'')
        (Attr
           (Call Pandas
              (Attr
                 (Call Pandas
                    (Attr
                       (Subscript
                          (Call Pandas (Attr (Name ''df_sc'') ''groupby'') [Str ''county_name''])
                          (Str ''med_household_income''))
                       ''median'')
                    [])
                 ''sort_values'')
              [])
           ''index''),
      Assign (Name ''ax'')
        (Call Seaborn (Attr (Name ''sns'') ''barplot'')
           [Kw ''x'' (Subscript (Name ''df_sc'') (Str ''med_household_income'')),
            Kw ''y'' (Subscript (Name ''df_sc'') (Str ''county_name'')),
            Kw ''estimator'' (Attr (Name ''np'') ''median''),
            Kw ''ci'' (Lit ''None''),
            Kw ''order'' (Name ''order''),
            Kw ''alpha'' (Lit ''0.7''),
            Kw ''palette'' (Str ''plasma'')])]"

definition nb06_cell48 :: "stmt list" where
  "nb06_cell48 =
     [Assign (Name ''df_gdp'')
        (Call Pandas
           (Attr
              (Call Pandas (Attr (Name ''pd'') ''read_csv'')
                 [Str ''https://raw.githubusercontent.com/gboeing/ppd534/main/data/gdp.csv''])
              ''set_index'')
           [Str ''year'']),
      ExprStmt (Attr (Name ''df_gdp'') ''shape'')]"

definition nb06_cell49 :: "stmt list" where
  "nb06_cell49 =
     [ExprStmt (Call Pandas (Attr (Name ''df_gdp'') ''tail'') [])]"

definition nb06_cell50 :: "stmt list" where
  "nb06_cell50 =
     [Assign (Name ''ax'')
        (Call Seaborn (Attr (Name ''sns'') ''lineplot'') [Kw ''data'' (Name ''df_gdp'')])]"

definition nb06_cell51 :: "stmt list" where
  "nb06_cell51 =
     [Assign (Name ''ax'')
        (Call Seaborn (Attr (Name ''sns'') ''lineplot'')
           [Kw ''data''
              (Subscript (Attr (Name ''df_gdp'') ''loc'')
                 (Op '':'' [Lit ''1900'', Lit ''1950'']))])]"

definition nb06_cell52 :: "stmt list" where
  "nb06_cell52 =
     [Assign (Name ''ax'')
        (Call Seaborn (Attr (Name ''sns'') ''lineplot'')
           [Kw ''data''
              (Subscript (Attr (Name ''df_gdp'') ''loc'')
                 (Display ''tuple''
                    [Op '':'' [Lit ''1900'', Lit ''1950''],
                     Display ''list'' [Str ''GBR'', Str ''USA'']]))])]"

definition nb06_cell53 :: "stmt list" where
  "nb06_cell53 =
     [Assign (Name ''ax'')
        (Call Seaborn (Attr (Name ''sns'') ''lineplot'')
           [Kw ''data''
              (Subscript (Attr (Name ''df_gdp'') ''loc'')
                 (Display ''tuple''
                    [Op '':'' [Lit ''1900'', Lit ''1950''],
                     Display ''list'' [Str ''GBR'', Str ''USA'']])),
            Kw ''dashes'' (Lit ''False''),
            Kw ''palette'' (Display ''list'' [Str ''steelblue'', Str ''chocolate''])]),
      ExprStmt (Call Matplotlib (Attr (Name ''ax'') ''set_xlim'') [Lit ''1900'', Lit ''1950'']),
      ExprStmt (Call Matplotlib (Attr (Name ''ax'') ''set_ylim'') [Lit ''5000'', Lit ''17000'']),
      ExprStmt (Call Matplotlib (Attr (Name ''ax'') ''set_xlabel'') [Str '''']),
      ExprStmt
        (Call Matplotlib (Attr (Name ''ax'') ''set_ylabel'')
           [Str ''Real GDP per capita (2011 USD)'']),
      ExprStmt
        (Call Matplotlib (Attr (Name ''ax'') ''set_title'') [Str ''Per capita GDP, 1900-1950'']),
      ExprStmt
        (Call Matplotlib
           (Attr (Call Matplotlib (Attr (Name ''ax'') ''get_figure'') []) ''savefig'')
           [Str ''country-gdp-lineplot.png'',
            Kw ''dpi'' (Lit ''600''),
            Kw ''bbox_inches'' (Str ''tight'')])]"

definition nb06_cell56 :: "stmt list" where
  "nb06_cell56 =
     [ExprStmt
        (Call Seaborn (Attr (Name ''sns'') ''palplot'')
           [Call Seaborn (Attr (Name ''sns'') ''color_palette'') []])]"

definition nb06_cell57 :: "stmt list" where
  "nb06_cell57 =
     [ExprStmt
        (Call Seaborn (Attr (Name ''sns'') ''palplot'')
           [Call Seaborn (Attr (Name ''sns'') ''color_palette'')
              [Str ''Blues'', Kw ''n_colors'' (Lit ''5'')]])]"

definition nb06_cell58 :: "stmt list" where
  "nb06_cell58 =
     [ExprStmt
        (Call Seaborn (Attr (Name ''sns'') ''palplot'')
           [Call Seaborn (Attr (Name ''sns'') ''color_palette'')
              [Str ''plasma'', Kw ''n_colors'' (Lit ''5'')]])]"

definition nb06 :: "stmt list list" where
  "nb06 =
    [nb06_cell1, nb06_cell2, nb06_cell4, nb06_cell5, nb06_cell6, nb06_cell8, nb06_cell9,
     nb06_cell10, nb06_cell12, nb06_cell14, nb06_cell15, nb06_cell16, nb06_cell18, nb06_cell21,
     nb06_cell22, nb06_cell24, nb06_cell25, nb06_cell26, nb06_cell30, nb06_cell31, nb06_cell32,
     nb06_cell35, nb06_cell36, nb06_cell38, nb06_cell39, nb06_cell40, nb06_cell42, nb06_cell43,
     nb06_cell44, nb06_cell45, nb06_cell46, nb06_cell48, nb06_cell49, nb06_cell50, nb06_cell51,
     nb06_cell52, nb06_cell53, nb06_cell56, nb06_cell57, nb06_cell58]"

subsection \<open>\<^verbatim>\<open>modules/07-spatial-data/lecture.ipynb\<close>\<close>

definition nb07_cell1 :: "stmt list" where
  "nb07_cell1 =
     [Shell ''pip install geopandas mapclassify pandas shapely'']"

definition nb07_cell2 :: "stmt list" where
  "nb07_cell2 =
     [Import ''geopandas'' ''gpd'',
      Import ''pandas'' ''pd'',
      ImportFrom ''shapely.geometry'' ''Point'']"

definition nb07_cell5 :: "stmt list" where
  "nb07_cell5 =
     [Assign (Name ''gdf'')
        (Call GeoPandas (Attr (Name ''gpd'') ''read_file'')
           [Str
              ''https://raw.githubusercontent.com/gboeing/ppd534/main/data/tl_2017_06_tract/tl_2017_06_tract.shp'']),
      ExprStmt (Attr (Name ''gdf'') ''shape'')]"

definition nb07_cell6 :: "stmt list" where
  "nb07_cell6 =
     [ExprStmt (Call Pandas (Attr (Name ''gdf'') ''head'') [])]"

definition nb07_cell7 :: "stmt list" where
  "nb07_cell7 =
     [Assign (Name ''ax'') (Call GeoPandas (Attr (Name ''gdf'') ''plot'') [])]"

definition nb07_cell8 :: "stmt list" where
  "nb07_cell8 =
     [Assign (Name ''counties'') (Display ''list'' [Str ''037'', Str ''059'', Str ''111'']),
      Assign (Name ''gdf_tracts'')
        (Subscript (Name ''gdf'')
           (Call Pandas (Attr (Subscript (Name ''gdf'') (Str ''COUNTYFP'')) ''isin'')
              [Name ''counties''])),
      ExprStmt (Attr (Name ''gdf_tracts'') ''shape'')]"

definition nb07_cell9 :: "stmt list" where
  "nb07_cell9 =
     [ExprStmt (Attr (Name ''gdf_tracts'') ''crs'')]"

definition nb07_cell11 :: "stmt list" where
  "nb07_cell11 =
     [Assign (Name ''df'')
        (Call Pandas (Attr (Name ''pd'') ''read_csv'')
           [Str
              ''https://raw.githubusercontent.com/gboeing/ppd534/main/data/listings-la_oc_vc.csv'']),
      ExprStmt (Attr (Name ''df'') ''shape'')]"

definition nb07_cell12 :: "stmt list" where
  "nb07_cell12 =
     [ExprStmt (Call Pandas (Attr (Name ''df'') ''head'') [])]"

definition nb07_cell14 :: "stmt list" where
  "nb07_cell14 =
     [Assign (Name ''gdf_listings'')
        (Call GeoPandas (Attr (Name ''gpd'') ''GeoDataFrame'') [Name ''df'']),
      ExprStmt (Attr (Name ''gdf_listings'') ''shape'')]"

definition nb07_cell15 :: "stmt list" where
  "nb07_cell15 =
     [Assign (Name ''geometry'')
        (Call GeoPandas (Attr (Name ''gpd'') ''points_from_xy'')
           [Kw ''x'' (Subscript (Name ''gdf_listings'') (Str ''longitude'')),
            Kw ''y'' (Subscript (Name ''gdf_listings'') (Str ''latitude''))]),
      Assign (Subscript (Name ''gdf_listings'') (Str ''geometry'')) (Name ''geometry''),
      Assign (Attr (Name ''gdf_listings'') ''crs'') (Str ''epsg:4326''),
      ExprStmt (Attr (Name ''gdf_listings'') ''shape'')]"

definition nb07_cell16 :: "stmt list" where
  "nb07_cell16 =
     [ExprStmt (Call Pandas (Attr (Name ''gdf_listings'') ''head'') [])]"

definition nb07_cell17 :: "stmt list" where
  "nb07_cell17 =
     [ExprStmt (Attr (Name ''gdf_listings'') ''crs'')]"

definition nb07_cell19 :: "stmt list" where
  "nb07_cell19 =
     [ExprStmt
        (Op ''=='' [Attr (Name ''gdf_tracts'') ''crs'', Attr (Name ''gdf_listings'') ''crs''])]"

definition nb07_cell20 :: "stmt list" where
  "nb07_cell20 =
     [Assign (Name ''gdf_tracts'')
        (Call GeoPandas (Attr (Name ''gdf_tracts'') ''to_crs'')
           [Attr (Name ''gdf_listings'') ''crs'']),
      ExprStmt
        (Op ''=='' [Attr (Name ''gdf_tracts'') ''crs'', Attr (Name ''gdf_listings'') ''crs''])]"

definition nb07_cell24 :: "stmt list" where
  "nb07_cell24 =
     [Assign (Name ''unified_listings'')
        (Attr (Subscript (Name ''gdf_listings'') (Str ''geometry'')) ''unary_union''),
      ExprStmt (Call Builtin (Name ''type'') [Name ''unified_listings''])]"

definition nb07_cell25 :: "stmt list" where
  "nb07_cell25 =
     [ExprStmt (Name ''unified_listings'')]"

definition nb07_cell26 :: "stmt list" where
  "nb07_cell26 =
     [Assign (Name ''mask'')
        (Call GeoPandas (Attr (Name ''gdf_tracts'') ''intersects'') [Name ''unified_listings'']),
      ExprStmt (Attr (Subscript (Name ''gdf_tracts'') (Name ''mask'')) ''shape'')]"

definition nb07_cell27 :: "stmt list" where
  "nb07_cell27 =
     [ExprStmt (Attr (Subscript (Name ''gdf_tracts'') (Op ''~'' [Name ''mask''])) ''shape'')]"

definition nb07_cell29 :: "stmt list" where
  "nb07_cell29 =
     [ExprStmt (Call Pandas (Attr (Name ''gdf_tracts'') ''head'') [])]"

definition nb07_cell30 :: "stmt list" where
  "nb07_cell30 =
     [Assign (Name ''gdf_counties'')
        (Call GeoPandas (Attr (Name ''gdf_tracts'') ''dissolve'')
           [Str ''COUNTYFP'', Kw ''aggfunc'' (Str ''sum'')]),
      ExprStmt (Name ''gdf_counties'')]"

definition nb07_cell31 :: "stmt list" where
  "nb07_cell31 =
     [Assign (Name ''ax'')
        (Call GeoPandas (Attr (Name ''gdf_counties'') ''plot'') [Kw ''cmap'' (Str ''plasma'')])]"

definition nb07_cell33 :: "stmt list" where
  "nb07_cell33 =
     [Assign (Name ''oc_geometry'')
        (Subscript (Attr (Name ''gdf_counties'') ''loc'')
           (Display ''tuple'' [Str ''059'', Str ''geometry''])),
      ExprStmt (Call Builtin (Name ''type'') [Name ''oc_geometry''])]"

definition nb07_cell34 :: "stmt list" where
  "nb07_cell34 =
     [ExprStmt (Name ''oc_geometry'')]"

definition nb07_cell35 :: "stmt list" where
  "nb07_cell35 =
     [Assign (Name ''mask'')
        (Call GeoPandas (Attr (Name ''gdf_listings'') ''within'') [Name ''oc_geometry'']),
      Assign (Name ''oc_listings'') (Subscript (Name ''gdf_listings'') (Name ''mask'')),
      ExprStmt (Attr (Name ''oc_listings'') ''shape'')]"

definition nb07_cell37 :: "stmt list" where
  "nb07_cell37 =
     [Assign (Name ''ax'') (Call GeoPandas (Attr (Name ''oc_listings'') ''plot'') [])]"

definition nb07_cell38 :: "stmt list" where
  "nb07_cell38 =
     [ExprStmt (Call Pandas (Attr (Name ''oc_listings'') ''head'') [])]"

definition nb07_cell39 :: "stmt list" where
  "nb07_cell39 =
     [Assign (Name ''oc_listings_buffered'')
        (Call GeoPandas (Attr (Name ''oc_listings'') ''buffer'') [Kw ''distance'' (Lit ''0.1'')]),
      ExprStmt (Call Pandas (Attr (Name ''oc_listings_buffered'') ''head'') [])]"

definition nb07_cell40 :: "stmt list" where
  "nb07_cell40 =
     [Assign (Name ''ax'')
        (Call GeoPandas (Attr (Name ''oc_listings_buffered'') ''plot'')
           [Kw ''edgecolor'' (Str ''k''), Kw ''alpha'' (Lit ''0.3'')])]"

definition nb07_cell42 :: "stmt list" where
  "nb07_cell42 =
     [Assign (Name ''ax'') (Call GeoPandas (Attr (Name ''gdf_tracts'') ''plot'') []),
      Assign (Name ''ax'')
        (Call GeoPandas (Attr (Name ''gdf_listings'') ''plot'')
           [Kw ''ax'' (Name ''ax''), Kw ''c'' (Str ''r''), Kw ''markersize'' (Lit ''1'')])]"

definition nb07_cell43 :: "stmt list" where
  "nb07_cell43 =
     [Assign (Name ''usa_crs'') (Str ''epsg:2163''),
      Assign (Name ''gdf_tracts'')
        (Call GeoPandas (Attr (Name ''gdf_tracts'') ''to_crs'') [Name ''usa_crs'']),
      Assign (Name ''gdf_listings'')
        (Call GeoPandas (Attr (Name ''gdf_listings'') ''to_crs'') [Name ''usa_crs''])]"

definition nb07_cell44 :: "stmt list" where
  "nb07_cell44 =
     [Assign (Name ''ax'') (Call GeoPandas (Attr (Name ''gdf_tracts'') ''plot'') []),
      Assign (Name ''ax'')
        (Call GeoPandas (Attr (Name ''gdf_listings'') ''plot'')
           [Kw ''ax'' (Name ''ax''), Kw ''c'' (Str ''r''), Kw ''markersize'' (Lit ''1'')])]"

definition nb07_cell45 :: "stmt list" where
  "nb07_cell45 =
     [Assign (Name ''utm_11'')
        (Str ''+proj=utm +zone=11 +ellps=WGS84 +datum=WGS84 +units=m +no_defs''),
      Assign (Name ''gdf_tracts'')
        (Call GeoPandas (Attr (Name ''gdf_tracts'') ''to_crs'') [Name ''utm_11'']),
      Assign (Name ''gdf_listings'')
        (Call GeoPandas (Attr (Name ''gdf_listings'') ''to_crs'') [Name ''utm_11''])]"

definition nb07_cell46 :: "stmt list" where
  "nb07_cell46 =
     [Assign (Name ''ax'') (Call GeoPandas (Attr (Name ''gdf_tracts'') ''plot'') []),
      Assign (Name ''ax'')
        (Call GeoPandas (Attr (Name ''gdf_listings'') ''plot'')
           [Kw ''ax'' (Name ''ax''), Kw ''c'' (Str ''r''), Kw ''markersize'' (Lit ''1'')])]"

definition nb07_cell47 :: "stmt list" where
  "nb07_cell47 =
     [Assign (Name ''ax'') (Call GeoPandas (Attr (Name ''gdf_tracts'') ''plot'') []),
      Assign (Name ''ax'')
        (Call GeoPandas
           (Attr (Call GeoPandas (Attr (Name ''gdf_listings'') ''buffer'') [Lit ''5000''])
              ''plot'')
           [Kw ''ax'' (Name ''ax''), Kw ''fc'' (Str ''r'')])]"

definition nb07_cell50 :: "stmt list" where
  "nb07_cell50 =
     [Assign (Name ''tract_indicators'')
        (Call Pandas (Attr (Name ''pd'') ''read_csv'')
           [Str
              ''https://raw.githubusercontent.com/gboeing/ppd534/main/data/census_tracts_data_ca.csv'',
            Kw ''dtype'' (Display ''dict'' [Str ''GEOID10'', Name ''str''])]),
      ExprStmt (Attr (Name ''tract_indicators'') ''shape'')]"

definition nb07_cell51 :: "stmt list" where
  "nb07_cell51 =
     [ExprStmt (Call Pandas (Attr (Name ''tract_indicators'') ''head'') [])]"

definition nb07_cell52 :: "stmt list" where
  "nb07_cell52 =
     [ExprStmt (Call Pandas (Attr (Name ''gdf_tracts'') ''head'') [])]"

definition nb07_cell53 :: "stmt list" where
  "nb07_cell53 =
     [Assign (Name ''gdf_tracts_ind'')
        (Call Pandas (Attr (Name ''pd'') ''merge'')
           [Kw ''left'' (Name ''gdf_tracts''),
            Kw ''right'' (Name ''tract_indicators''),
            Kw ''how'' (Str ''left''),
            Kw ''left_on'' (Str ''GEOID''),
            Kw ''right_on'' (Str ''GEOID10'')]),
      ExprStmt (Call Pandas (Attr (Name ''gdf_tracts_ind'') ''head'') [])]"

definition nb07_cell54 :: "stmt list" where
  "nb07_cell54 =
     [ExprStmt (Attr (Name ''gdf_tracts_ind'') ''crs'')]"

definition nb07_cell56 :: "stmt list" where
  "nb07_cell56 =
     [ExprStmt
        (Op ''=='' [Attr (Name ''gdf_listings'') ''crs'', Attr (Name ''gdf_counties'') ''crs''])]"

definition nb07_cell57 :: "stmt list" where
  "nb07_cell57 =
     [Assign (Name ''gdf_counties'')
        (Call GeoPandas (Attr (Name ''gdf_counties'') ''to_crs'')
           [Attr (Name ''gdf_listings'') ''crs'']),
      ExprStmt
        (Op ''=='' [Attr (Name ''gdf_listings'') ''crs'', Attr (Name ''gdf_counties'') ''crs''])]"

definition nb07_cell58 :: "stmt list" where
  "nb07_cell58 =
     [Assign (Name ''gdf_listings_counties'')
        (Call GeoPandas (Attr (Name ''gpd'') ''sjoin'')
           [Name ''gdf_listings'',
            Name ''gdf_counties'',
            Kw ''how'' (Str ''left''),
            Kw ''op'' (Str ''within'')]),
      ExprStmt (Attr (Name ''gdf_listings_counties'') ''shape'')]"

definition nb07_cell59 :: "stmt list" where
  "nb07_cell59 =
     [ExprStmt (Call Pandas (Attr (Name ''gdf_listings_counties'') ''head'') [])]"

definition nb07_cell60 :: "stmt list" where
  "nb07_cell60 =
     [Assign (Name ''gdf_listings_counties'')
        (Call Pandas (Attr (Name ''gdf_listings_counties'') ''rename'')
           [Kw ''columns'' (Display ''dict'' [Str ''index_right'', Str ''county''])]),
      ExprStmt (Call Pandas (Attr (Name ''gdf_listings_counties'') ''head'') [])]"

definition nb07_cell61 :: "stmt list" where
  "nb07_cell61 =
     [Assign (Name ''groups'')
        (Call Pandas (Attr (Name ''gdf_listings_counties'') ''groupby'') [Str ''county''])]"

definition nb07_cell62 :: "stmt list" where
  "nb07_cell62 =
     [ExprStmt
        (Call Pandas
           (Attr (Call Pandas (Attr (Subscript (Name ''groups'') (Str ''rent'')) ''median'') [])
              ''sort_values'')
           [Kw ''ascending'' (Lit ''False'')])]"

definition nb07_cell63 :: "stmt list" where
  "nb07_cell63 =
     [ExprStmt
        (Call Pandas
           (Attr
              (Call Pandas (Attr (Subscript (Name ''groups'') (Str ''bedrooms'')) ''mean'') [])
              ''sort_values'')
           [Kw ''ascending'' (Lit ''False'')])]"

definition nb07_cell64 :: "stmt list" where
  "nb07_cell64 =
     [ExprStmt
        (Call Pandas
           (Attr
              (Call Pandas (Attr (Subscript (Name ''groups'') (Str ''geometry'')) ''count'') [])
              ''sort_values'')
           [Kw ''ascending'' (Lit ''False'')])]"

definition nb07_cell65 :: "stmt list" where
  "nb07_cell65 =
     [Assign (Name ''oc_listings'')
        (Subscript (Name ''gdf_listings_counties'')
           (Op ''=='' [Subscript (Name ''gdf_listings_counties'') (Str ''county''), Str ''059''])),
      ExprStmt (Attr (Name ''oc_listings'') ''shape'')]"

definition nb07_cell67 :: "stmt list" where
  "nb07_cell67 =
     [Assign (Name ''oc_tracts_ind'')
        (Subscript (Name ''gdf_tracts_ind'')
           (Op ''=='' [Subscript (Name ''gdf_tracts_ind'') (Str ''COUNTYFP''), Str ''059''])),
      ExprStmt (Call Pandas (Attr (Name ''oc_tracts_ind'') ''head'') [])]"

definition nb07_cell68 :: "stmt list" where
  "nb07_cell68 =
     [Assign (Name ''oc_tracts_ind'')
        (Subscript (Name ''oc_tracts_ind'')
           (Op ''>'' [Subscript (Name ''oc_tracts_ind'') (Str ''ALAND''), Lit ''0'']))]"

definition nb07_cell69 :: "stmt list" where
  "nb07_cell69 =
     [Assign (Name ''ax'')
        (Call GeoPandas (Attr (Name ''oc_tracts_ind'') ''plot'')
           [Kw ''column'' (Str ''med_household_income''),
            Kw ''cmap'' (Str ''plasma''),
            Kw ''edgecolor'' (Str ''k''),
            Kw ''lw'' (Lit ''0.2''),
            Kw ''figsize'' (Display ''tuple'' [Lit ''9'', Lit ''6'']),
            Kw ''legend'' (Lit ''True'')]),
      ExprStmt (Call Matplotlib (Attr (Name ''ax'') ''axis'') [Str ''off'']),
      ExprStmt
        (Call Matplotlib
           (Attr (Call Matplotlib (Attr (Name ''ax'') ''get_figure'') []) ''savefig'')
           [Str ''oc-income.png'', Kw ''dpi'' (Lit ''300''), Kw ''bbox_inches'' (Str ''tight'')])]"

definition nb07_cell70 :: "stmt list" where
  "nb07_cell70 =
     [Assign (Name ''ax'')
        (Call GeoPandas (Attr (Name ''oc_tracts_ind'') ''plot'')
           [Kw ''column'' (Str ''pct_english_only''),
            Kw ''cmap'' (Str ''plasma''),
            Kw ''edgecolor'' (Str ''k''),
            Kw ''lw'' (Lit ''0.2''),
            Kw ''figsize'' (Display ''tuple'' [Lit ''9'', Lit ''6'']),
            Kw ''legend'' (Lit ''True'')]),
      ExprStmt (Call Matplotlib (Attr (Name ''ax'') ''axis'') [Str ''off'']),
      ExprStmt
        (Call Matplotlib
           (Attr (Call Matplotlib (Attr (Name ''ax'') ''get_figure'') []) ''savefig'')
           [Str ''oc-language.png'',
            Kw ''dpi'' (Lit ''300''),
            Kw ''bbox_inches'' (Str ''tight'')])]"

definition nb07_cell71 :: "stmt list" where
  "nb07_cell71 =
     [Assign (Name ''ax'')
        (Call GeoPandas (Attr (Name ''oc_tracts_ind'') ''plot'')
           [Kw ''facecolor'' (Str ''#aaaaaa''),
            Kw ''edgecolor'' (Str ''w''),
            Kw ''lw'' (Lit ''0.5''),
            Kw ''figsize'' (Display ''tuple'' [Lit ''12'', Lit ''9'']),
            Kw ''legend'' (Lit ''False'')]),
      Assign (Name ''ax'')
        (Call GeoPandas
           (Attr (Call Pandas (Attr (Name ''oc_listings'') ''dropna'') []) ''plot'')
           [Kw ''ax'' (Name ''ax''),
            Kw ''markersize'' (Lit ''10''),
            Kw ''legend'' (Lit ''True''),
            Kw ''cmap'' (Str ''plasma''),
            Kw ''column'' (Str ''rent''),
            Kw ''scheme'' (Str ''Quantiles'')]),
      ExprStmt (Call Matplotlib (Attr (Name ''ax'') ''axis'') [Str ''off'']),
      ExprStmt
        (Call Matplotlib (Attr (Name ''ax'') ''set_title'')
           [Str ''Apartment Listings in Orange County by Asking Rent (USD)'']),
      ExprStmt
        (Call Matplotlib
           (Attr (Call Matplotlib (Attr (Name ''ax'') ''get_figure'') []) ''savefig'')
           [Str ''oc-listings.png'',
            Kw ''dpi'' (Lit ''300''),
            Kw ''bbox_inches'' (Str ''tight'')])]"

definition nb07 :: "stmt list list" where
  "nb07 =
    [nb07_cell1, nb07_cell2, nb07_cell5, nb07_cell6, nb07_cell7, nb07_cell8, nb07_cell9,
     nb07_cell11, nb07_cell12, nb07_cell14, nb07_cell15, nb07_cell16, nb07_cell17, nb07_cell19,
     nb07_cell20, nb07_cell24, nb07_cell25, nb07_cell26, nb07_cell27, nb07_cell29, nb07_cell30,
     nb07_cell31, nb07_cell33, nb07_cell34, nb07_cell35, nb07_cell37, nb07_cell38, nb07_cell39,
     nb07_cell40, nb07_cell42, nb07_cell43, nb07_cell44, nb07_cell45, nb07_cell46, nb07_cell47,
     nb07_cell50, nb07_cell51, nb07_cell52, nb07_cell53, nb07_cell54, nb07_cell56, nb07_cell57,
     nb07_cell58, nb07_cell59, nb07_cell60, nb07_cell61, nb07_cell62, nb07_cell63, nb07_cell64,
     nb07_cell65, nb07_cell67, nb07_cell68, nb07_cell69, nb07_cell70, nb07_cell71]"

subsection \<open>\<^verbatim>\<open>modules/12-statistical-models/lecture.ipynb\<close>\<close>

definition nb12_cell1 :: "stmt list" where
  "nb12_cell1 =
     [Shell ''pip install geopandas numpy pandas seaborn statsmodels'']"

definition nb12_cell2 :: "stmt list" where
  "nb12_cell2 =
     [Import ''geopandas'' ''gpd'',
      Import ''numpy'' ''np'',
      Import ''pandas'' ''pd'',
      Import ''seaborn'' ''sns'',
      Import ''statsmodels.api'' ''sm'']"

definition nb12_cell4 :: "stmt list" where
  "nb12_cell4 =
     [Assign (Name ''gdf_tracts'')
        (Call GeoPandas (Attr (Name ''gpd'') ''read_file'')
           [Str
              ''https://raw.githubusercontent.com/gboeing/ppd534/main/data/tl_2017_06_tract/tl_2017_06_tract.shp'']),
      ExprStmt (Attr (Name ''gdf_tracts'') ''shape'')]"

definition nb12_cell5 :: "stmt list" where
  "nb12_cell5 =
     [Assign (Name ''df_tracts'')
        (Call Pandas (Attr (Name ''pd'') ''read_csv'')
           [Str
              ''https://raw.githubusercontent.com/gboeing/ppd534/main/data/census_tracts_data_ca.csv'',
            Kw ''dtype''
              (Display ''dict''
                 [Str ''GEOID10'',
                  Name ''str'',
                  Str ''state'',
                  Name ''str'',
                  Str ''county'',
                  Name ''str''])]),
      ExprStmt (Attr (Name ''df_tracts'') ''shape'')]"

definition nb12_cell6 :: "stmt list" where
  "nb12_cell6 =
     [Assign (Name ''gdf_tracts_data'')
        (Call Pandas (Attr (Name ''pd'') ''merge'')
           [Kw ''left'' (Name ''gdf_tracts''),
            Kw ''right'' (Name ''df_tracts''),
            Kw ''left_on'' (Str ''GEOID''),
            Kw ''right_on'' (Str ''GEOID10''),
            Kw ''how'' (Str ''left'')]),
      ExprStmt (Attr (Name ''gdf_tracts_data'') ''shape'')]"

definition nb12_cell8 :: "stmt list" where
  "nb12_cell8 =
     [Assign (Name ''df_listings'')
        (Call Pandas (Attr (Name ''pd'') ''read_csv'')
           [Str
              ''https://raw.githubusercontent.com/gboeing/ppd534/main/data/listings-la_oc_vc.csv'']),
      Assign (Subscript (Name ''df_listings'') (Str ''geometry''))
        (Call GeoPandas (Attr (Name ''gpd'') ''points_from_xy'')
           [Kw ''x'' (Subscript (Name ''df_listings'') (Str ''longitude'')),
            Kw ''y'' (Subscript (Name ''df_listings'') (Str ''latitude''))]),
      Assign (Name ''gdf_listings'')
        (Call GeoPandas (Attr (Name ''gpd'') ''GeoDataFrame'')
           [Name ''df_listings'', Kw ''crs'' (Str ''epsg:4326'')]),
      ExprStmt (Attr (Name ''gdf_listings'') ''shape'')]"

definition nb12_cell9 :: "stmt list" where
  "nb12_cell9 =
     [ExprStmt
        (Op ''==''
           [Attr (Name ''gdf_tracts_data'') ''crs'', Attr (Name ''gdf_listings'') ''crs''])]"

definition nb12_cell10 :: "stmt list" where
  "nb12_cell10 =
     [Assign (Name ''gdf_listings'')
        (Call GeoPandas (Attr (Name ''gdf_listings'') ''to_crs'')
           [Attr (Name ''gdf_tracts_data'') ''crs''])]"

definition nb12_cell11 :: "stmt list" where
  "nb12_cell11 =
     [Assign (Name ''gdf'')
        (Call GeoPandas (Attr (Name ''gpd'') ''sjoin'')
           [Name ''gdf_listings'',
            Name ''gdf_tracts_data'',
            Kw ''how'' (Str ''inner''),
            Kw ''op'' (Str ''within'')]),
      ExprStmt (Attr (Name ''gdf'') ''shape'')]"

definition nb12_cell12 :: "stmt list" where
  "nb12_cell12 =
     [ExprStmt (Attr (Name ''gdf'') ''columns'')]"

definition nb12_cell14 :: "stmt list" where
  "nb12_cell14 =
     [Assign (Name ''response'') (Str ''rent''), Assign (Name ''predictor'') (Str ''sqft'')]"

definition nb12_cell15 :: "stmt list" where
  "nb12_cell15 =
     [Assign (Name ''data'')
        (Call Pandas
           (Attr
              (Subscript (Name ''gdf'')
                 (Display ''list'' [Name ''response'', Name ''predictor'']))
              ''dropna'')
           []),
      ExprStmt (Call Builtin (Name ''print'') [Attr (Name ''data'') ''shape'']),
      Assign (Name ''X'') (Subscript (Name ''data'') (Name ''predictor'')),
      Assign (Name ''y'') (Subscript (Name ''data'') (Name ''response''))]"

definition nb12_cell16 :: "stmt list" where
  "nb12_cell16 =
     [Assign (Name ''model'')
        (Call Statsmodels (Attr (Name ''sm'') ''OLS'')
           [Name ''y'', Call Statsmodels (Attr (Name ''sm'') ''add_constant'') [Name ''X'']]),
      Assign (Name ''result'') (Call Statsmodels (Attr (Name ''model'') ''fit'') []),
      ExprStmt
        (Call Builtin (Name ''print'')
           [Call Statsmodels (Attr (Name ''result'') ''summary'') []])]"

definition nb12_cell18 :: "stmt list" where
  "nb12_cell18 =
     [Assign (Name ''ax'')
        (Call Seaborn (Attr (Name ''sns'') ''regplot'')
           [Kw ''x'' (Name ''X''), Kw ''y'' (Name ''y'')])]"

definition nb12_cell20 :: "stmt list" where
  "nb12_cell20 =
     [Assign (Name ''response'') (Str ''rent''),
      Assign (Name ''predictors'') (Display ''list'' [Str ''bedrooms'', Str ''sqft'']),
      Assign (Name ''data'')
        (Call Pandas
           (Attr
              (Subscript (Name ''gdf'')
                 (Op ''+'' [Display ''list'' [Name ''response''], Name ''predictors'']))
              ''dropna'')
           []),
      Assign (Name ''X'') (Subscript (Name ''data'') (Name ''predictors'')),
      Assign (Name ''y'') (Subscript (Name ''data'') (Name ''response'')),
      Assign (Name ''model'')
        (Call Statsmodels (Attr (Name ''sm'') ''OLS'')
           [Name ''y'', Call Statsmodels (Attr (Name ''sm'') ''add_constant'') [Name ''X'']]),
      Assign (Name ''result'') (Call Statsmodels (Attr (Name ''model'') ''fit'') []),
      ExprStmt
        (Call Builtin (Name ''print'')
           [Call Statsmodels (Attr (Name ''result'') ''summary'') []])]"

definition nb12_cell22 :: "stmt list" where
  "nb12_cell22 =
     [Assign (Name ''response'') (Str ''rent''),
      Assign (Name ''predictors'')
        (Display ''list''
           [Str ''bedrooms'', Str ''sqft'', Str ''med_home_value'', Str ''mean_commute_time'']),
      Assign (Name ''data'')
        (Call Pandas
           (Attr
              (Subscript (Name ''gdf'')
                 (Op ''+'' [Display ''list'' [Name ''response''], Name ''predictors'']))
              ''dropna'')
           []),
      Assign (Name ''X'') (Subscript (Name ''data'') (Name ''predictors'')),
      Assign (Name ''y'') (Subscript (Name ''data'') (Name ''response'')),
      Assign (Name ''model'')
        (Call Statsmodels (Attr (Name ''sm'') ''OLS'')
           [Name ''y'', Call Statsmodels (Attr (Name ''sm'') ''add_constant'') [Name ''X'']]),
      Assign (Name ''result'') (Call Statsmodels (Attr (Name ''model'') ''fit'') []),
      ExprStmt
        (Call Builtin (Name ''print'')
           [Call Statsmodels (Attr (Name ''result'') ''summary'') []])]"

definition nb12_cell25 :: "stmt list" where
  "nb12_cell25 =
     [Assign (Subscript (Name ''gdf'') (Str ''majority_white''))
        (Call Pandas
           (Attr (Op ''>'' [Subscript (Name ''gdf'') (Str ''pct_white''), Lit ''50''])
              ''astype'')
           [Name ''int''])]"

definition nb12_cell26 :: "stmt list" where
  "nb12_cell26 =
     [Assign (Name ''response'') (Str ''rent''),
      Assign (Name ''predictors'')
        (Display ''list''
           [Str ''bedrooms'',
            Str ''sqft'',
            Str ''med_home_value'',
            Str ''mean_commute_time'',
            Str ''majority_white'']),
      Assign (Name ''data'')
        (Call Pandas
           (Attr
              (Subscript (Name ''gdf'')
                 (Op ''+'' [Display ''list'' [Name ''response''], Name ''predictors'']))
              ''dropna'')
           []),
      Assign (Name ''X'') (Subscript (Name ''data'') (Name ''predictors'')),
      Assign (Name ''y'') (Subscript (Name ''data'') (Name ''response'')),
      Assign (Name ''model'')
        (Call Statsmodels (Attr (Name ''sm'') ''OLS'')
           [Name ''y'', Call Statsmodels (Attr (Name ''sm'') ''add_constant'') [Name ''X'']]),
      Assign (Name ''result'') (Call Statsmodels (Attr (Name ''model'') ''fit'') []),
      ExprStmt
        (Call Builtin (Name ''print'')
           [Call Statsmodels (Attr (Name ''result'') ''summary'') []])]"

definition nb12_cell28 :: "stmt list" where
  "nb12_cell28 =
     [Assign (Name ''variables'')
        (Display ''list''
           [Str ''rent'',
            Str ''bedrooms'',
            Str ''sqft'',
            Str ''med_home_value'',
            Str ''mean_commute_time'']),
      Assign (Name ''correlations'')
        (Call Pandas
           (Attr
              (Call Pandas (Attr (Subscript (Name ''gdf'') (Name ''variables'')) ''corr'') [])
              ''round'')
           [Lit ''2'']),
      ExprStmt (Name ''correlations'')]"

definition nb12_cell29 :: "stmt list" where
  "nb12_cell29 =
     [Assign (Name ''ax'')
        (Call Seaborn (Attr (Name ''sns'') ''heatmap'')
           [Name ''correlations'',
            Kw ''vmin'' (Op ''-'' [Lit ''1'']),
            Kw ''vmax'' (Lit ''1''),
            Kw ''center'' (Lit ''0''),
            Kw ''cmap'' (Str ''coolwarm''),
            Kw ''square'' (Lit ''True''),
            Kw ''linewidths'' (Lit ''1'')])]"

definition nb12_cell30 :: "stmt list" where
  "nb12_cell30 =
     [Assign (Name ''grid'')
        (Call Seaborn (Attr (Name ''sns'') ''pairplot'')
           [Call Pandas (Attr (Subscript (Name ''gdf'') (Name ''variables'')) ''dropna'') [],
            Kw ''markers'' (Str ''.'')])]"

definition nb12_cell31 :: "stmt list" where
  "nb12_cell31 =
     [Assign (Subscript (Name ''gdf'') (Str ''rent_log''))
        (Call NumPy (Attr (Name ''np'') ''log'') [Subscript (Name ''gdf'') (Str ''rent'')])]"

definition nb12_cell32 :: "stmt list" where
  "nb12_cell32 =
     [Assign (Name ''variables'')
        (Display ''list''
           [Str ''rent_log'',
            Str ''bedrooms'',
            Str ''sqft'',
            Str ''med_home_value'',
            Str ''mean_commute_time'']),
      Assign (Name ''correlations'')
        (Call Pandas
           (Attr
              (Call Pandas (Attr (Subscript (Name ''gdf'') (Name ''variables'')) ''corr'') [])
              ''round'')
           [Lit ''2'']),
      ExprStmt (Name ''correlations'')]"

definition nb12_cell33 :: "stmt list" where
  "nb12_cell33 =
     [Assign (Name ''response'') (Str ''rent_log''),
      Assign (Name ''predictors'')
        (Display ''list''
           [Str ''bedrooms'', Str ''sqft'', Str ''med_home_value'', Str ''mean_commute_time'']),
      Assign (Name ''data'')
        (Call Pandas
           (Attr
              (Subscript (Name ''gdf'')
                 (Op ''+'' [Display ''list'' [Name ''response''], Name ''predictors'']))
              ''dropna'')
           []),
      Assign (Name ''X'') (Subscript (Name ''data'') (Name ''predictors'')),
      Assign (Name ''y'') (Subscript (Name ''data'') (Name ''response'')),
      Assign (Name ''model'')
        (Call Statsmodels (Attr (Name ''sm'') ''OLS'')
           [Name ''y'', Call Statsmodels (Attr (Name ''sm'') ''add_constant'') [Name ''X'']]),
      Assign (Name ''result'') (Call Statsmodels (Attr (Name ''model'') ''fit'') []),
      ExprStmt
        (Call Builtin (Name ''print'')
           [Call Statsmodels (Attr (Name ''result'') ''summary'') []])]"

definition nb12 :: "stmt list list" where
  "nb12 =
    [nb12_cell1, nb12_cell2, nb12_cell4, nb12_cell5, nb12_cell6, nb12_cell8, nb12_cell9,
     nb12_cell10, nb12_cell11, nb12_cell12, nb12_cell14, nb12_cell15, nb12_cell16, nb12_cell18,
     nb12_cell20, nb12_cell22, nb12_cell25, nb12_cell26, nb12_cell28, nb12_cell29, nb12_cell30,
     nb12_cell31, nb12_cell32, nb12_cell33]"

section \<open>What the cells do to the world outside the kernel\<close>

text \<open>
  The functions of Python and of the libraries in use that read a file or a URL, and those
  that write a file; the location is their first argument. A statement's effects are the
  reads and writes of its calls; a shell line is an effect of its own, whatever the
  command does.
\<close>

definition reader_names :: "string list" where
  "reader_names =
     [''read_csv'', ''read_file'', ''read_table'', ''read_excel'', ''read_json'', ''read_pickle'',
      ''read_parquet'', ''read_feather'', ''read_hdf'', ''read_html'', ''read_sql'', ''read_stata'',
      ''read_fwf'', ''read_xml'', ''read_postgis'', ''open'', ''load'', ''loadtxt'',
      ''genfromtxt'', ''fromfile'', ''imread'']"

definition writer_names :: "string list" where
  "writer_names =
     [''savefig'', ''to_csv'', ''to_file'', ''to_excel'', ''to_json'', ''to_pickle'',
      ''to_parquet'', ''to_feather'', ''to_hdf'', ''to_html'', ''to_sql'', ''to_stata'',
      ''to_xml'', ''to_latex'', ''to_markdown'', ''to_postgis'', ''save'', ''savez'', ''savetxt'',
      ''tofile'', ''dump'', ''write'', ''writelines'', ''imsave'']"

datatype effect = Fetch expr | Write string expr | RunShell string

fun first_arg :: "expr list \<Rightarrow> expr" where
  "first_arg [] = Lit ''''"
| "first_arg (a # as) = a"

fun io_of_call :: "library \<times> string \<times> expr list \<Rightarrow> effect list" where
  "io_of_call (l, f, es) =
     (if f \<in> set reader_names then [Fetch (first_arg es)]
      else if f \<in> set writer_names then [Write f (first_arg es)]
      else [])"

fun effects_of_stmt :: "stmt \<Rightarrow> effect list" where
  "effects_of_stmt (Shell c) = [RunShell c]"
| "effects_of_stmt s =
     concat (map io_of_call (concat (map call_of (concat (map subexprs (own_exprs s))))))"

definition effects :: "stmt list list \<Rightarrow> effect list" where
  "effects nb = concat (map effects_of_stmt (statements nb))"

text \<open>
  A read is remote when its location is a string literal under
  \<^verbatim>\<open>https://raw.githubusercontent.com/\<close>; a write is a picture when it is a \<^verbatim>\<open>savefig\<close> to a
  string literal ending in \<^verbatim>\<open>.png\<close>.
\<close>

definition is_remote :: "string \<Rightarrow> bool" where
  "is_remote place \<longleftrightarrow> take 34 place = ''https://raw.githubusercontent.com/''"

definition is_png :: "string \<Rightarrow> bool" where
  "is_png path \<longleftrightarrow> 4 < length path \<and> drop (length path - 4) path = ''.png''"

fun remote_read_or_png_write :: "effect \<Rightarrow> bool" where
  "remote_read_or_png_write (Fetch (Str place)) = is_remote place"
| "remote_read_or_png_write (Write f (Str path)) = (f = ''savefig'' \<and> is_png path)"
| "remote_read_or_png_write e = False"

fun pip_install :: "effect \<Rightarrow> bool" where
  "pip_install (RunShell c) = (take 12 c = ''pip install '')"
| "pip_install e = False"

text \<open>The modules a notebook imports.\<close>

fun import_of :: "stmt \<Rightarrow> string list" where
  "import_of (Import m a) = [m]"
| "import_of (ImportFrom m n) = [m]"
| "import_of s = []"

definition imports_of :: "stmt list list \<Rightarrow> string list" where
  "imports_of nb = concat (map import_of (statements nb))"


section \<open>Running a notebook against the world\<close>




























section \<open>Exceptions while a notebook runs\<close>

text \<open>
  What a statement does to the kernel's state \<open>'e\<close> is the interpreter's and the
  libraries' (\<open>eff\<close>): it returns the new state, or raises an exception and leaves a
  state. Statements run in order. Only a \<^verbatim>\<open>try\<close> statement handles an exception: when its
  body raises, its handlers run from the state the body left.
\<close>

fun exec :: "(stmt \<Rightarrow> 'e \<Rightarrow> error \<times> 'e + 'e) \<Rightarrow> stmt \<Rightarrow> 'e \<Rightarrow> error \<times> 'e + 'e"
  and exec_block :: "(stmt \<Rightarrow> 'e \<Rightarrow> error \<times> 'e + 'e) \<Rightarrow> stmt list \<Rightarrow> 'e \<Rightarrow> error \<times> 'e + 'e" where
  "exec eff (Try body handlers final) env =
     (case exec_block eff body env of
        Inr env1 \<Rightarrow> exec_block eff final env1
      | Inl (e, env1) \<Rightarrow>
          (case exec_block eff handlers env1 of
             Inr env2 \<Rightarrow> exec_block eff final env2
           | Inl x \<Rightarrow> Inl x))"
| "exec eff s env = eff s env"
| "exec_block eff [] env = Inr env"
| "exec_block eff (s # ss) env =
     (case exec eff s env of Inl x \<Rightarrow> Inl x | Inr env1 \<Rightarrow> exec_block eff ss env1)"


section \<open>What a notebook does, by the calls it makes\<close>

definition calls_any :: "library \<Rightarrow> string list \<Rightarrow> stmt list list \<Rightarrow> bool" where
  "calls_any l fs nb = list_ex (\<lambda>f. f \<in> set fs) (called l nb)"

definition loads_tabular :: "stmt list list \<Rightarrow> bool" where
  "loads_tabular nb = calls_any Pandas [''read_csv''] nb"

definition loads_spatial :: "stmt list list \<Rightarrow> bool" where
  "loads_spatial nb = calls_any GeoPandas [''read_file''] nb"

definition merges_or_joins :: "stmt list list \<Rightarrow> bool" where
  "merges_or_joins nb = (calls_any Pandas [''merge''] nb \<or> calls_any GeoPandas [''sjoin''] nb)"

definition computes_descriptive_statistics :: "stmt list list \<Rightarrow> bool" where
  "computes_descriptive_statistics nb =
     calls_any Pandas [''describe'', ''mean'', ''median'', ''count'', ''value_counts'', ''corr''] nb"

definition visualizes :: "stmt list list \<Rightarrow> bool" where
  "visualizes nb =
     (calls_any Seaborn [''boxplot'', ''histplot'', ''scatterplot'', ''pairplot'', ''heatmap'',
        ''regplot'', ''countplot'', ''barplot'', ''lineplot''] nb
      \<or> calls_any GeoPandas [''plot''] nb)"

definition fits_ols :: "stmt list list \<Rightarrow> bool" where
  "fits_ols nb = (calls_any Statsmodels [''OLS''] nb \<and> calls_any Statsmodels [''fit''] nb)"

definition does_all_five :: "stmt list list \<Rightarrow> bool" where
  "does_all_five nb =
     ((loads_tabular nb \<and> loads_spatial nb) \<and> merges_or_joins nb
      \<and> computes_descriptive_statistics nb \<and> visualizes nb \<and> fits_ols nb)"

section \<open>A small frame and stand-ins for the libraries\<close>

text \<open>
  Three listings, the second without \<^verbatim>\<open>sqft\<close> and the third in a tract without
  \<^verbatim>\<open>pct_white\<close>; and a stand-in for statsmodels whose \<^verbatim>\<open>OLS\<close> and \<^verbatim>\<open>fit\<close> return
  their arguments.
\<close>

definition gdf_example :: frame where
  "gdf_example =
     \<lparr>columns = [''rent'', ''bedrooms'', ''sqft'', ''med_home_value'', ''mean_commute_time'',
                 ''pct_white''],
      rows =
        [[''rent'' \<mapsto> Num 2500, ''bedrooms'' \<mapsto> Num 2, ''sqft'' \<mapsto> Num 900,
          ''med_home_value'' \<mapsto> Num 600000, ''mean_commute_time'' \<mapsto> Num 30,
          ''pct_white'' \<mapsto> Num 62.5],
         [''rent'' \<mapsto> Num 1800, ''bedrooms'' \<mapsto> Num 1,
          ''med_home_value'' \<mapsto> Num 450000, ''mean_commute_time'' \<mapsto> Num 35,
          ''pct_white'' \<mapsto> Num 20],
         [''rent'' \<mapsto> Num 3200, ''bedrooms'' \<mapsto> Num 3, ''sqft'' \<mapsto> Num 1400,
          ''med_home_value'' \<mapsto> Num 800000, ''mean_commute_time'' \<mapsto> Num 25]]\<rparr>"

text \<open>
  Two listings, both in tracts where \<^verbatim>\<open>pct_white\<close> is above 50, so that
  \<^verbatim>\<open>majority_white\<close> is 1 in every row.
\<close>

definition gdf_majority_white :: frame where
  "gdf_majority_white =
     \<lparr>columns = [''rent'', ''bedrooms'', ''sqft'', ''med_home_value'', ''mean_commute_time'',
                 ''pct_white''],
      rows =
        [[''rent'' \<mapsto> Num 2500, ''bedrooms'' \<mapsto> Num 2, ''sqft'' \<mapsto> Num 900,
          ''med_home_value'' \<mapsto> Num 600000, ''mean_commute_time'' \<mapsto> Num 30,
          ''pct_white'' \<mapsto> Num 62.5],
         [''rent'' \<mapsto> Num 3200, ''bedrooms'' \<mapsto> Num 3, ''sqft'' \<mapsto> Num 1400,
          ''med_home_value'' \<mapsto> Num 800000, ''mean_commute_time'' \<mapsto> Num 25,
          ''pct_white'' \<mapsto> Num 80]]\<rparr>"

definition statlibs_example :: "(series \<times> frame, series \<times> frame) statlibs" where
  "statlibs_example =
     \<lparr>OLS = (\<lambda>y design. Inr (y, design)),
      fit = (\<lambda>model. Inr model),
      np_log = ln\<rparr>"

text \<open>
  A stand-in for the geospatial libraries: a CRS is the string that denotes it; the tract
  file comes in \<^verbatim>\<open>epsg:4269\<close>; reprojecting, merging, dissolving and joining return the
  table they are given; every predicate holds of every row.
\<close>

definition tracts_example :: "string geoframe" where
  "tracts_example =
     \<lparr>table = \<lparr>columns = [''GEOID'', ''COUNTYFP'', ''geometry''],
                rows = [[''GEOID'' \<mapsto> Obj ''06059001100'', ''COUNTYFP'' \<mapsto> Obj ''059'',
                         ''geometry'' \<mapsto> Obj ''POLYGON''],
                        [''GEOID'' \<mapsto> Obj ''06001400100'', ''COUNTYFP'' \<mapsto> Obj ''001'',
                         ''geometry'' \<mapsto> Obj ''POLYGON'']]\<rparr>,
      crs = Some ''epsg:4269''\<rparr>"

definition listings_example :: frame where
  "listings_example =
     \<lparr>columns = [''rent'', ''longitude'', ''latitude''],
      rows = [[''rent'' \<mapsto> Num 2500, ''longitude'' \<mapsto> Num (-117.9), ''latitude'' \<mapsto> Num 33.7]]\<rparr>"

definition census_example :: frame where
  "census_example =
     \<lparr>columns = [''GEOID10'', ''pct_white''],
      rows = [[''GEOID10'' \<mapsto> Obj ''06059001100'', ''pct_white'' \<mapsto> Num 62.5]]\<rparr>"

definition geolib_example :: "string geolib" where
  "geolib_example =
     \<lparr>read_csv = (\<lambda>url dtype. if url = url_listings then Inr listings_example
                               else if url = url_census then Inr census_example
                               else Inl (LibraryError ''HTTP Error 404'')),
      read_file = (\<lambda>url. if url = url_tracts then Inr tracts_example
                          else Inl (LibraryError ''HTTP Error 404'')),
      crs_from_user_input = (\<lambda>s. Inr s),
      transform = (\<lambda>src dst t. Inr t),
      points_from_xy = (\<lambda>xs ys. Inr (map (\<lambda>x. Some (Obj ''POINT'')) xs)),
      merge_tables = (\<lambda>left right how left_on right_on. Inr left),
      sjoin_tables = (\<lambda>left right how op. Inr left),
      dissolve_table = (\<lambda>t by_col aggfunc. Inr t),
      unary_union = (\<lambda>s. Inr (Obj ''MULTIPOINT'')),
      intersects = (\<lambda>t g. Inr (map (\<lambda>r. True) (rows t))),
      within_geometry = (\<lambda>t g. Inr (map (\<lambda>r. True) (rows t))),
      buffer = (\<lambda>t d. Inr (map (\<lambda>r. Some (Obj ''POLYGON'')) (rows t))),
      loc = (\<lambda>t label col. Inr (Obj ''POLYGON''))\<rparr>"

text \<open>
  An interpreter in which every \<^verbatim>\<open>import\<close> fails and every other statement returns, and
  geospatial libraries that cannot reach the tract file.
\<close>

definition eff_example :: "stmt \<Rightarrow> unit \<Rightarrow> error \<times> unit + unit" where
  "eff_example s env =
     (case s of Import m a \<Rightarrow> Inl (LibraryError ''ModuleNotFoundError'', env) | _ \<Rightarrow> Inr env)"

definition geolib_offline :: "string geolib" where
  "geolib_offline = geolib_example\<lparr>read_file := (\<lambda>url. Inl (LibraryError ''URLError''))\<rparr>"


section \<open>Sequencing of fallible steps\<close>

lemma and_then_Inl [simp]: "and_then (Inl e) k = Inl e"
  by (simp add: and_then_def)

lemma and_then_Inr [simp]: "and_then (Inr v) k = k v"
  by (simp add: and_then_def)

lemma and_then_eq_Inr: "and_then r k = Inr y \<longleftrightarrow> (\<exists>v. r = Inr v \<and> k v = Inr y)"
  by (cases r) simp_all

lemma and_then_eq_Inl:
  "and_then r k = Inl e \<longleftrightarrow> r = Inl e \<or> (\<exists>v. r = Inr v \<and> k v = Inl e)"
  by (cases r) simp_all

lemma and_then_InrE:
  assumes "and_then r k = Inr y"
  obtains v where "r = Inr v" and "k v = Inr y"
  using assms by (auto simp: and_then_eq_Inr)


section \<open>Module 03: the three conversions agree\<close>


lemma loop_conversion_from_map:
  "loop_conversion_from acc il = acc @ map py_str il"
  by (induction il arbitrary: acc) (simp_all add: list_append_def)

lemma loop_is_comprehension: "loop_conversion il = comprehension_conversion il"
  by (simp add: loop_conversion_def comprehension_conversion_def loop_conversion_from_map)

lemma comprehension_int_list:
  "comprehension_conversion int_list = [''2'', ''4'', ''6'', ''8'', ''10'']"
  by (simp add: comprehension_conversion_def int_list_def py_str_def str_nat.simps
      digit_char_def)

lemma manual_int_list:
  "manual_conversion int_list = Inr [''2'', ''4'', ''6'', ''8'', ''10'']"
  by (simp add: manual_conversion_def append_str_of_def getitem_def int_list_def
      str_list_init_def list_append_def py_str_def str_nat.simps digit_char_def)

text \<open>
  C9. On the five-element \<^verbatim>\<open>int_list\<close> the five explicit appends, the for loop and the
  list comprehension produce the same list of strings, \<^verbatim>\<open>['2', '4', '6', '8', '10']\<close>; and
  the loop and the comprehension agree on every list of integers.
\<close>

theorem C9_conversions_agree:
  "manual_conversion int_list = Inr (loop_conversion int_list)
   \<and> loop_conversion int_list = comprehension_conversion int_list
   \<and> comprehension_conversion int_list = [''2'', ''4'', ''6'', ''8'', ''10'']
   \<and> (\<forall>il. loop_conversion il = comprehension_conversion il)"
  using manual_int_list comprehension_int_list loop_is_comprehension by simp


section \<open>Facts about frames\<close>

lemma collect_eq_Inr: "collect rs = Inr vs \<longleftrightarrow> rs = map Inr vs"
proof (induction rs arbitrary: vs)
  case Nil
  then show ?case by auto
next
  case (Cons r rs)
  then show ?case
    by (cases r; cases vs) (auto simp: and_then_eq_Inr)
qed

lemma column_eq_Inr:
  "column df n = Inr s \<longleftrightarrow> n \<in> set (columns df) \<and> s = map (\<lambda>r. r n) (rows df)"
  by (auto simp: column_def)

lemma select_columns_eq_Inr:
  "select_columns df ns = Inr X \<longleftrightarrow>
     set ns \<subseteq> set (columns df) \<and> X = \<lparr>columns = ns, rows = map (\<lambda>r. r |` set ns) (rows df)\<rparr>"
  by (auto simp: select_columns_def list_all_iff)

lemma rows_dropna_notnull: "list_all (notnull_row (columns (dropna df))) (rows (dropna df))"
  by (simp add: dropna_def list_all_iff)

lemma dropna_idem: "dropna (dropna df) = dropna df"
  by (simp add: dropna_def)

lemma series_gt_eq_Inr:
  "series_gt s t = Inr flags \<longleftrightarrow> map (\<lambda>c. gt c t) s = map Inr flags"
  by (simp add: series_gt_def collect_eq_Inr)

lemma rows_setitem_column:
  "i < length (rows df) \<Longrightarrow>
   rows (setitem_column df n s) ! i = (rows df ! i)(n := (if i < length s then s ! i else None))"
  by (simp add: setitem_column_def nth_enumerate_eq)

lemma length_rows_setitem_column: "length (rows (setitem_column df n s)) = length (rows df)"
  by (simp add: setitem_column_def)


section \<open>Module 12: the dummy variable\<close>

text \<open>
  C10. When the cell that creates \<^verbatim>\<open>majority_white\<close> returns, every row of \<^verbatim>\<open>gdf\<close> has
  \<^verbatim>\<open>majority_white\<close> equal to 1 if its \<^verbatim>\<open>pct_white\<close> is greater than 50 and to 0 otherwise
  (a missing \<^verbatim>\<open>pct_white\<close> compares false and gives 0): the value is one of 0 and 1, and
  never both.
\<close>

theorem C10_majority_white_dummy:
  assumes "add_majority_white gdf = Inr gdf'"
  shows "length (rows gdf') = length (rows gdf)
    \<and> (\<forall>i < length (rows gdf).
         (rows gdf' ! i) ''majority_white''
           = Some (Num (if gt ((rows gdf ! i) ''pct_white'') 50 = Inr True then 1 else 0))
       \<and> ((rows gdf' ! i) ''majority_white'' = Some (Num 1)) \<noteq>
         ((rows gdf' ! i) ''majority_white'' = Some (Num 0))
       \<and> (\<forall>x. (rows gdf ! i) ''pct_white'' = Some (Num x) \<longrightarrow>
            (rows gdf' ! i) ''majority_white'' = Some (Num (if 50 < x then 1 else 0)))
       \<and> ((rows gdf ! i) ''pct_white'' = None \<longrightarrow>
            (rows gdf' ! i) ''majority_white'' = Some (Num 0)))"
proof -
  from assms obtain flags where
    col: "''pct_white'' \<in> set (columns gdf)" and
    flags: "map (\<lambda>c. gt c 50) (map (\<lambda>r. r ''pct_white'') (rows gdf)) = map Inr flags" and
    gdf': "gdf' = setitem_column gdf ''majority_white'' (astype_int flags)"
    by (auto simp: add_majority_white_def and_then_eq_Inr column_eq_Inr series_gt_eq_Inr)
  have len: "length flags = length (rows gdf)"
    using arg_cong [OF flags, of length] by simp
  have nth: "gt ((rows gdf ! i) ''pct_white'') 50 = Inr (flags ! i)" if "i < length (rows gdf)" for i
    using arg_cong [OF flags, of "\<lambda>xs. xs ! i"] that len by simp
  have val: "(rows gdf' ! i) ''majority_white'' = Some (Num (if flags ! i then 1 else 0))"
    if "i < length (rows gdf)" for i
    using that len by (simp add: gdf' rows_setitem_column astype_int_def)
  show ?thesis
  proof (intro conjI allI impI)
    show "length (rows gdf') = length (rows gdf)"
      by (simp add: gdf' length_rows_setitem_column)
  next
    fix i assume i: "i < length (rows gdf)"
    show "(rows gdf' ! i) ''majority_white''
           = Some (Num (if gt ((rows gdf ! i) ''pct_white'') 50 = Inr True then 1 else 0))"
      using val [OF i] nth [OF i] by simp
    show "((rows gdf' ! i) ''majority_white'' = Some (Num 1)) \<noteq>
         ((rows gdf' ! i) ''majority_white'' = Some (Num 0))"
      using val [OF i] by simp
    show "(rows gdf' ! i) ''majority_white'' = Some (Num (if 50 < x then 1 else 0))"
      if "(rows gdf ! i) ''pct_white'' = Some (Num x)" for x
      using val [OF i] nth [OF i] that by auto
    show "(rows gdf' ! i) ''majority_white'' = Some (Num 0)"
      if "(rows gdf ! i) ''pct_white'' = None"
      using val [OF i] nth [OF i] that by auto
  qed
qed

lemma add_majority_white_example:
  "\<exists>gdf'. add_majority_white gdf_example = Inr gdf'"
  by (simp add: add_majority_white_def gdf_example_def column_def series_gt_def)

theorem C10_majority_white_dummy_witness:
  "\<exists>gdf'. add_majority_white gdf_example = Inr gdf'
     \<and> length (rows gdf') = 3
     \<and> (rows gdf' ! 0) ''majority_white'' = Some (Num 1)
     \<and> (rows gdf' ! 1) ''majority_white'' = Some (Num 0)
     \<and> (rows gdf' ! 2) ''majority_white'' = Some (Num 0)"
proof -
  obtain gdf' where run: "add_majority_white gdf_example = Inr gdf'"
    using add_majority_white_example by blast
  have rows: "length (rows gdf_example) = 3"
    "(rows gdf_example ! 0) ''pct_white'' = Some (Num 62.5)"
    "(rows gdf_example ! 1) ''pct_white'' = Some (Num 20)"
    "(rows gdf_example ! 2) ''pct_white'' = None"
    by (simp_all add: gdf_example_def)
  from C10_majority_white_dummy [OF run] rows
  have "length (rows gdf') = 3
     \<and> (rows gdf' ! 0) ''majority_white'' = Some (Num 1)
     \<and> (rows gdf' ! 1) ''majority_white'' = Some (Num 0)
     \<and> (rows gdf' ! 2) ''majority_white'' = Some (Num 0)"
    by simp
  with run show ?thesis by blast
qed


section \<open>Module 12: the inputs of the fitted models\<close>

lemma is_nonzero_constant_iff:
  "is_nonzero_constant s \<longleftrightarrow> s \<noteq> [] \<and> (\<exists>x. x \<noteq> 0 \<and> (\<forall>c \<in> set s. c = Some (Num x)))"
  by (cases s rule: is_nonzero_constant.cases) (auto simp: list_all_iff)

lemma add_constant_skip:
  "constant_columns (exog_frame X) \<noteq> [] \<Longrightarrow> add_constant X = exog_frame X"
  by (simp add: add_constant_def)

lemma add_constant_added:
  assumes "constant_columns (exog_frame X) = []"
  shows "columns (add_constant X) = ''const'' # columns (exog_frame X)"
    and "\<forall>r \<in> set (rows (add_constant X)). r ''const'' = Some (Num 1)"
  using assms by (simp_all add: add_constant_def)

lemma length_rows_add_constant: "length (rows (add_constant X)) = exog_nrows X"
  by (cases X) (simp_all add: add_constant_def)

lemma add_constant_constant_column:
  "\<exists>c \<in> set (columns (add_constant X)).
     \<exists>x. x \<noteq> 0 \<and> (\<forall>r \<in> set (rows (add_constant X)). r c = Some (Num x))"
proof (cases "constant_columns (exog_frame X) = []")
  case True
  have "''const'' \<in> set (columns (add_constant X))"
    using add_constant_added(1) [OF True] by simp
  moreover have "(1::real) \<noteq> 0 \<and> (\<forall>r \<in> set (rows (add_constant X)). r ''const'' = Some (Num 1))"
    using add_constant_added(2) [OF True] by simp
  ultimately show ?thesis by blast
next
  case False
  then obtain c where "c \<in> set (constant_columns (exog_frame X))"
    by (cases "constant_columns (exog_frame X)") auto
  then have c: "c \<in> set (columns (exog_frame X))"
    and "is_nonzero_constant (map (\<lambda>r. r c) (rows (exog_frame X)))"
    by (simp_all add: constant_columns_def)
  then obtain x where "x \<noteq> 0" "\<forall>r \<in> set (rows (exog_frame X)). r c = Some (Num x)"
    by (auto simp: is_nonzero_constant_iff)
  with c show ?thesis
    unfolding add_constant_skip [OF False] by blast
qed

lemma simple_regression_ok:
  assumes "simple_regression L gdf response predictor = Inr m"
  shows "ols_inputs_ok L m" and "columns (exog_frame (r_X m)) = [predictor]"
proof -
  from assms obtain sel X y model result where
    sel: "select_columns gdf [response, predictor] = Inr sel" and
    X: "column (dropna sel) predictor = Inr X" and
    y: "column (dropna sel) response = Inr y" and
    mo: "OLS L y (add_constant (ExogSeries predictor X)) = Inr model" and
    fi: "fit L model = Inr result" and
    m: "m = \<lparr>r_data = dropna sel, r_X = ExogSeries predictor X, r_y = y,
          r_design = add_constant (ExogSeries predictor X), r_result = result\<rparr>"
    unfolding simple_regression_def
    by (elim and_then_InrE) (simp add: and_then_def)
  have cols: "columns (dropna sel) = [response, predictor]"
    using sel by (simp add: select_columns_eq_Inr dropna_def)
  have nn: "list_all (notnull_row [response, predictor]) (rows (dropna sel))"
    using rows_dropna_notnull [of sel] cols by simp
  show "ols_inputs_ok L m"
    unfolding ols_inputs_ok_def
    using X y mo fi nn cols
    by (auto simp: m dropna_idem column_eq_Inr list_all_iff notnull_row_def)
  show "columns (exog_frame (r_X m)) = [predictor]"
    by (simp add: m)
qed

lemma multiple_regression_ok:
  assumes "multiple_regression L gdf response predictors = Inr m"
  shows "ols_inputs_ok L m" and "columns (exog_frame (r_X m)) = predictors"
proof -
  from assms obtain sel X y model result where
    sel: "select_columns gdf ([response] @ predictors) = Inr sel" and
    X: "select_columns (dropna sel) predictors = Inr X" and
    y: "column (dropna sel) response = Inr y" and
    mo: "OLS L y (add_constant (ExogFrame X)) = Inr model" and
    fi: "fit L model = Inr result" and
    m: "m = \<lparr>r_data = dropna sel, r_X = ExogFrame X, r_y = y,
          r_design = add_constant (ExogFrame X), r_result = result\<rparr>"
    unfolding multiple_regression_def
    by (elim and_then_InrE) (simp add: and_then_def)
  have cols: "columns (dropna sel) = response # predictors"
    using sel by (simp add: select_columns_eq_Inr dropna_def)
  have nn: "list_all (notnull_row (response # predictors)) (rows (dropna sel))"
    using rows_dropna_notnull [of sel] cols by simp
  have colsX: "columns X = predictors"
    using X by (simp add: select_columns_eq_Inr)
  have rowsX: "rows X = map (\<lambda>r. r |` set predictors) (rows (dropna sel))"
    using X by (simp add: select_columns_eq_Inr)
  have nnX: "list_all (notnull_row predictors) (rows X)"
    using nn unfolding rowsX
    by (auto simp: list_all_iff notnull_row_def)
  show "ols_inputs_ok L m"
    unfolding ols_inputs_ok_def
    using X y mo fi nn cols nnX colsX rowsX
    by (auto simp: m dropna_idem column_eq_Inr list_all_iff notnull_row_def)
  show "columns (exog_frame (r_X m)) = predictors"
    by (simp add: m colsX)
qed

lemma nb12_regressions_models:
  assumes "nb12_regressions L gdf = Inr models"
  shows "length models = 5"
    and "\<forall>m \<in> set models. ols_inputs_ok L m"
    and "\<forall>m \<in> set models. ''const'' \<notin> set (columns (exog_frame (r_X m)))"
proof -
  from assms obtain m1 m2 m3 m4 m5 gdf1 gdf2 where
    m1: "simple_regression L gdf ''rent'' ''sqft'' = Inr m1" and
    m2: "multiple_regression L gdf ''rent'' [''bedrooms'', ''sqft''] = Inr m2" and
    m3: "multiple_regression L gdf ''rent''
        [''bedrooms'', ''sqft'', ''med_home_value'', ''mean_commute_time''] = Inr m3" and
    m4: "multiple_regression L gdf1 ''rent''
        [''bedrooms'', ''sqft'', ''med_home_value'', ''mean_commute_time'',
         ''majority_white''] = Inr m4" and
    m5: "multiple_regression L gdf2 ''rent_log''
        [''bedrooms'', ''sqft'', ''med_home_value'', ''mean_commute_time''] = Inr m5"
    and models: "models = [m1, m2, m3, m4, m5]"
    unfolding nb12_regressions_def
    by (elim and_then_InrE) simp
  show "length models = 5"
    by (simp add: models)
  show "\<forall>m \<in> set models. ols_inputs_ok L m"
    using simple_regression_ok(1) [OF m1] multiple_regression_ok(1) [OF m2]
      multiple_regression_ok(1) [OF m3] multiple_regression_ok(1) [OF m4]
      multiple_regression_ok(1) [OF m5]
    by (simp add: models)
  show "\<forall>m \<in> set models. ''const'' \<notin> set (columns (exog_frame (r_X m)))"
    using simple_regression_ok(2) [OF m1] multiple_regression_ok(2) [OF m2]
      multiple_regression_ok(2) [OF m3] multiple_regression_ok(2) [OF m4]
      multiple_regression_ok(2) [OF m5]
    by (simp add: models)
qed

text \<open>
  C8, as the spec states it, fails when the predictors already hold a non-zero constant
  column. With two listings that both lie in majority-white tracts, \<^verbatim>\<open>majority_white\<close>
  is 1 in every row of the fourth model's \<open>X\<close>, and \<^verbatim>\<open>sm.add_constant(X)\<close> (default
  \<^verbatim>\<open>has_constant='skip'\<close>) returns \<open>X\<close> as it is: the design matrix of that model has no
  column that \<^verbatim>\<open>sm.add_constant\<close> added. The other four get their \<^verbatim>\<open>const\<close> column.
\<close>

theorem C8_constant_not_added_counterexample:
  "map_sum id (map (\<lambda>m. columns (r_design m)))
     (nb12_regressions statlibs_example gdf_majority_white) =
   Inr [[''const'', ''sqft''],
        [''const'', ''bedrooms'', ''sqft''],
        [''const'', ''bedrooms'', ''sqft'', ''med_home_value'', ''mean_commute_time''],
        [''bedrooms'', ''sqft'', ''med_home_value'', ''mean_commute_time'', ''majority_white''],
        [''const'', ''bedrooms'', ''sqft'', ''med_home_value'', ''mean_commute_time'']]
   \<and> map_sum id (map (\<lambda>m. r_design m = exog_frame (r_X m)))
     (nb12_regressions statlibs_example gdf_majority_white) =
   Inr [False, False, False, True, False]"
  by (simp add: nb12_regressions_def simple_regression_def multiple_regression_def
      add_majority_white_def add_rent_log_def statlibs_example_def gdf_majority_white_def
      select_columns_def column_def dropna_def series_gt_def series_log_def setitem_column_def
      astype_int_def enumerate_eq_zip add_constant_def constant_columns_def notnull_row_def
      restrict_map_def)

text \<open>
  C8, amended. For each of the five models the notebook fits: the design matrix passed to
  \<^verbatim>\<open>sm.OLS\<close> is \<^verbatim>\<open>sm.add_constant(X)\<close> and has a column whose cells all hold one number
  that is not zero, so every model has an intercept. That column is the column of ones
  labelled \<^verbatim>\<open>const\<close> that \<^verbatim>\<open>sm.add_constant\<close> puts in front of the columns of \<open>X\<close> (none of
  which is labelled \<^verbatim>\<open>const\<close>), unless \<open>X\<close> already has a non-zero constant column: then
  the design matrix is \<open>X\<close> itself. The design matrix has as many rows as \<open>y\<close>; \<open>X\<close> and
  \<open>y\<close> are column slices of the same frame \<open>data\<close>, which \<^verbatim>\<open>dropna\<close> has filtered, so they
  have the same number of rows; and no cell of \<open>X\<close> or \<open>y\<close> is missing.
\<close>

theorem C8_ols_inputs_and_intercept:
  assumes "nb12_regressions L gdf = Inr models"
  shows "length models = 5 \<and> (\<forall>m \<in> set models.
       r_design m = add_constant (r_X m)
     \<and> (\<exists>model. OLS L (r_y m) (r_design m) = Inr model \<and> fit L model = Inr (r_result m))
     \<and> (\<exists>c \<in> set (columns (r_design m)).
          \<exists>x. x \<noteq> 0 \<and> (\<forall>r \<in> set (rows (r_design m)). r c = Some (Num x)))
     \<and> ''const'' \<notin> set (columns (exog_frame (r_X m)))
     \<and> (if constant_columns (exog_frame (r_X m)) = []
        then columns (r_design m) = ''const'' # columns (exog_frame (r_X m))
           \<and> (\<forall>r \<in> set (rows (r_design m)). r ''const'' = Some (Num 1))
        else r_design m = exog_frame (r_X m))
     \<and> length (rows (r_design m)) = length (r_y m)
     \<and> dropna (r_data m) = r_data m
     \<and> is_slice_of (r_data m) (r_X m)
     \<and> (\<exists>name. is_slice_of (r_data m) (ExogSeries name (r_y m)))
     \<and> exog_nrows (r_X m) = length (r_y m)
     \<and> exog_notnull (r_X m)
     \<and> list_all (\<lambda>c. c \<noteq> None) (r_y m))"
proof (intro conjI ballI)
  show "length models = 5"
    using nb12_regressions_models(1) [OF assms] .
next
  fix m assume m: "m \<in> set models"
  have ok: "ols_inputs_ok L m"
    using nb12_regressions_models(2) [OF assms] m by blast
  then have design: "r_design m = add_constant (r_X m)"
    and rows: "exog_nrows (r_X m) = length (r_y m)"
    unfolding ols_inputs_ok_def by blast+
  show "r_design m = add_constant (r_X m)"
    using design .
  show "\<exists>model. OLS L (r_y m) (r_design m) = Inr model \<and> fit L model = Inr (r_result m)"
    using ok unfolding ols_inputs_ok_def by blast
  show "\<exists>c \<in> set (columns (r_design m)).
          \<exists>x. x \<noteq> 0 \<and> (\<forall>r \<in> set (rows (r_design m)). r c = Some (Num x))"
    unfolding design by (rule add_constant_constant_column)
  show "''const'' \<notin> set (columns (exog_frame (r_X m)))"
    using nb12_regressions_models(3) [OF assms] m by blast
  show "if constant_columns (exog_frame (r_X m)) = []
        then columns (r_design m) = ''const'' # columns (exog_frame (r_X m))
           \<and> (\<forall>r \<in> set (rows (r_design m)). r ''const'' = Some (Num 1))
        else r_design m = exog_frame (r_X m)"
    unfolding design using add_constant_added [of "r_X m"] add_constant_skip [of "r_X m"]
    by simp
  show "length (rows (r_design m)) = length (r_y m)"
    unfolding design using rows by (simp add: length_rows_add_constant)
  show "dropna (r_data m) = r_data m"
    using ok unfolding ols_inputs_ok_def by blast
  show "is_slice_of (r_data m) (r_X m)"
    using ok unfolding ols_inputs_ok_def by blast
  show "\<exists>name. is_slice_of (r_data m) (ExogSeries name (r_y m))"
    using ok unfolding ols_inputs_ok_def by blast
  show "exog_nrows (r_X m) = length (r_y m)"
    using rows .
  show "exog_notnull (r_X m)"
    using ok unfolding ols_inputs_ok_def by blast
  show "list_all (\<lambda>c. c \<noteq> None) (r_y m)"
    using ok unfolding ols_inputs_ok_def by blast
qed

lemma nb12_regressions_example:
  "map_sum id (map (\<lambda>m. columns (r_design m)))
     (nb12_regressions statlibs_example gdf_example) =
   Inr [[''const'', ''sqft''],
        [''const'', ''bedrooms'', ''sqft''],
        [''const'', ''bedrooms'', ''sqft'', ''med_home_value'', ''mean_commute_time''],
        [''const'', ''bedrooms'', ''sqft'', ''med_home_value'', ''mean_commute_time'',
         ''majority_white''],
        [''const'', ''bedrooms'', ''sqft'', ''med_home_value'', ''mean_commute_time'']]"
  by (simp add: nb12_regressions_def simple_regression_def multiple_regression_def
      add_majority_white_def add_rent_log_def statlibs_example_def gdf_example_def
      select_columns_def column_def dropna_def series_gt_def series_log_def setitem_column_def
      astype_int_def enumerate_eq_zip add_constant_def constant_columns_def notnull_row_def
      restrict_map_def)

theorem C8_ols_inputs_and_intercept_witness:
  "\<exists>models. nb12_regressions statlibs_example gdf_example = Inr models
     \<and> length models = 5
     \<and> map (\<lambda>m. columns (r_design m)) models =
         [[''const'', ''sqft''],
          [''const'', ''bedrooms'', ''sqft''],
          [''const'', ''bedrooms'', ''sqft'', ''med_home_value'', ''mean_commute_time''],
          [''const'', ''bedrooms'', ''sqft'', ''med_home_value'', ''mean_commute_time'',
           ''majority_white''],
          [''const'', ''bedrooms'', ''sqft'', ''med_home_value'', ''mean_commute_time'']]
     \<and> list_all (\<lambda>m. r_design m = add_constant (r_X m)
          \<and> length (rows (r_design m)) = length (r_y m)
          \<and> exog_nrows (r_X m) = length (r_y m) \<and> exog_notnull (r_X m)) models"
proof -
  obtain models where run: "nb12_regressions statlibs_example gdf_example = Inr models"
    and cols: "map (\<lambda>m. columns (r_design m)) models =
         [[''const'', ''sqft''],
          [''const'', ''bedrooms'', ''sqft''],
          [''const'', ''bedrooms'', ''sqft'', ''med_home_value'', ''mean_commute_time''],
          [''const'', ''bedrooms'', ''sqft'', ''med_home_value'', ''mean_commute_time'',
           ''majority_white''],
          [''const'', ''bedrooms'', ''sqft'', ''med_home_value'', ''mean_commute_time'']]"
    using nb12_regressions_example
    by (cases "nb12_regressions statlibs_example gdf_example") simp_all
  note main = C8_ols_inputs_and_intercept [OF run]
  have len: "length models = 5"
    using main by (rule conjunct1)
  have "list_all (\<lambda>m. r_design m = add_constant (r_X m)
          \<and> length (rows (r_design m)) = length (r_y m)
          \<and> exog_nrows (r_X m) = length (r_y m) \<and> exog_notnull (r_X m)) models"
    unfolding list_all_iff
  proof
    fix m assume "m \<in> set models"
    with main [THEN conjunct2] show "r_design m = add_constant (r_X m)
          \<and> length (rows (r_design m)) = length (r_y m)
          \<and> exog_nrows (r_X m) = length (r_y m) \<and> exog_notnull (r_X m)"
      by fast
  qed
  with run cols len show ?thesis
    by (intro exI conjI)
qed

section \<open>The coordinate reference systems at the spatial joins\<close>

lemma to_crs_Inr:
  assumes "to_crs G gdf target = Inr gdf'"
  shows "crs gdf \<noteq> None \<and> (\<exists>dst. resolve_crs G target = Inr dst \<and> crs gdf' = Some dst)"
  using assms unfolding to_crs_def
  by (cases "crs gdf") (auto elim!: and_then_InrE)

lemma to_crs_attr_Inr:
  assumes "to_crs G gdf (CrsAttr c) = Inr gdf'"
  shows "crs gdf' = c \<and> c \<noteq> None"
  using to_crs_Inr [OF assms] by (cases c) auto

lemma nb12_sjoin_arguments_crs:
  assumes "nb12_sjoin_arguments G = Inr (gdf_listings, gdf_tracts_data)"
  shows "crs gdf_listings = crs gdf_tracts_data \<and> crs gdf_listings \<noteq> None"
  using assms unfolding nb12_sjoin_arguments_def
  by (elim and_then_InrE) (auto dest: to_crs_attr_Inr)

lemma nb07_sjoin_arguments_crs:
  assumes "nb07_sjoin_arguments G = Inr (gdf_listings, gdf_counties)"
  shows "crs gdf_listings = crs gdf_counties \<and> crs gdf_listings \<noteq> None"
  using assms unfolding nb07_sjoin_arguments_def
  by (auto elim!: and_then_InrE dest!: to_crs_attr_Inr split: prod.splits)

lemma nb12_reprojection_precedes:
  assumes "nb12_sjoin_arguments G = Inr (gdf_listings, gdf_tracts_data)"
  shows "\<exists>before. to_crs G before (CrsAttr (crs gdf_tracts_data)) = Inr gdf_listings"
  using assms unfolding nb12_sjoin_arguments_def
  by (elim and_then_InrE) auto

lemma nb07_reprojection_precedes:
  assumes "nb07_sjoin_arguments G = Inr (gdf_listings, gdf_counties)"
  shows "\<exists>before. nb07_before_reprojection G = Inr (gdf_listings, before)
           \<and> to_crs G before (CrsAttr (crs gdf_listings)) = Inr gdf_counties"
  using assms unfolding nb07_sjoin_arguments_def
  by (auto elim!: and_then_InrE split: prod.splits)

lemma gpd_sjoin_ignores_right_crs:
  "gpd_sjoin G left (right\<lparr>crs := c\<rparr>) how op = gpd_sjoin G left right how op"
  by (simp add: gpd_sjoin_def)

text \<open>
  C4. At the two spatial joins of the notebooks (the left join of listings to counties in
  module 07, the inner join of listings to tracts in module 12), whenever the run reaches
  the call, its two arguments have the same CRS, and one: the second argument (module 07)
  or the first (module 12) is the result of a \<^verbatim>\<open>to_crs\<close> to the CRS of the other. Each join
  is \<^verbatim>\<open>gpd.sjoin\<close> applied to these arguments, and \<^verbatim>\<open>gpd.sjoin\<close> itself does not look at the
  CRS of its right argument: nothing but the reprojection step makes them agree.
\<close>

theorem C4_crs_equal_at_sjoin:
  "(nb07_sjoin_arguments G = Inr (listings07, counties07) \<longrightarrow>
      crs listings07 = crs counties07 \<and> crs listings07 \<noteq> None
      \<and> (\<exists>before. nb07_before_reprojection G = Inr (listings07, before)
            \<and> to_crs G before (CrsAttr (crs listings07)) = Inr counties07))
   \<and> (nb12_sjoin_arguments G = Inr (listings12, tracts12) \<longrightarrow>
      crs listings12 = crs tracts12 \<and> crs listings12 \<noteq> None
      \<and> (\<exists>before. to_crs G before (CrsAttr (crs tracts12)) = Inr listings12))
   \<and> nb07_gdf_listings_counties G =
       and_then (nb07_sjoin_arguments G) (\<lambda>(gdf_listings, gdf_counties).
         gpd_sjoin G gdf_listings gdf_counties ''left'' ''within'')
   \<and> nb12_gdf G =
       and_then (nb12_sjoin_arguments G) (\<lambda>(gdf_listings, gdf_tracts_data).
         gpd_sjoin G gdf_listings gdf_tracts_data ''inner'' ''within'')
   \<and> (\<forall>left right c how op.
         gpd_sjoin G left (right\<lparr>crs := c\<rparr>) how op = gpd_sjoin G left right how op)"
proof (intro conjI impI allI)
  assume a: "nb07_sjoin_arguments G = Inr (listings07, counties07)"
  show "crs listings07 = crs counties07" and "crs listings07 \<noteq> None"
    using nb07_sjoin_arguments_crs [OF a] by blast+
  show "\<exists>before. nb07_before_reprojection G = Inr (listings07, before)
          \<and> to_crs G before (CrsAttr (crs listings07)) = Inr counties07"
    using nb07_reprojection_precedes [OF a] .
next
  assume a: "nb12_sjoin_arguments G = Inr (listings12, tracts12)"
  show "crs listings12 = crs tracts12" and "crs listings12 \<noteq> None"
    using nb12_sjoin_arguments_crs [OF a] by blast+
  show "\<exists>before. to_crs G before (CrsAttr (crs tracts12)) = Inr listings12"
    using nb12_reprojection_precedes [OF a] .
next
  show "nb07_gdf_listings_counties G =
       and_then (nb07_sjoin_arguments G) (\<lambda>(gdf_listings, gdf_counties).
         gpd_sjoin G gdf_listings gdf_counties ''left'' ''within'')"
    by (rule nb07_gdf_listings_counties_def)
  show "nb12_gdf G =
       and_then (nb12_sjoin_arguments G) (\<lambda>(gdf_listings, gdf_tracts_data).
         gpd_sjoin G gdf_listings gdf_tracts_data ''inner'' ''within'')"
    by (rule nb12_gdf_def)
  show "gpd_sjoin G left (right\<lparr>crs := c\<rparr>) how op = gpd_sjoin G left right how op"
    for left right c how op
    by (rule gpd_sjoin_ignores_right_crs)
qed

lemma urls_differ:
  "url_listings \<noteq> url_census" "url_census \<noteq> url_listings"
  "url_tracts \<noteq> url_census" "url_tracts \<noteq> url_listings"
  by (simp_all add: url_listings_def url_census_def url_tracts_def)

lemma nb12_example:
  "\<exists>l r. nb12_sjoin_arguments geolib_example = Inr (l, r) \<and> crs r = Some ''epsg:4269''"
  by (simp add: nb12_sjoin_arguments_def geolib_example_def urls_differ pd_merge_def
      tracts_example_def listings_example_def column_def set_crs_def GeoDataFrame_def
      to_crs_def)

lemma nb07_example:
  "\<exists>l c. nb07_before_reprojection geolib_example = Inr (l, c)
     \<and> crs l = Some utm_11 \<and> crs c = Some ''epsg:4326''"
  by (simp add: nb07_before_reprojection_def geolib_example_def urls_differ pd_merge_def
      tracts_example_def listings_example_def column_def set_crs_def GeoDataFrame_def
      to_crs_def dissolve_def subset_rows_def isin_def setitem_column_def)

lemma nb07_example_args:
  "\<exists>l r. nb07_sjoin_arguments geolib_example = Inr (l, r)"
proof -
  obtain l c where b: "nb07_before_reprojection geolib_example = Inr (l, c)"
    and "crs l = Some utm_11" "crs c = Some ''epsg:4326''"
    using nb07_example by blast
  then show ?thesis
    by (simp add: nb07_sjoin_arguments_def to_crs_def geolib_example_def)
qed

theorem C4_crs_equal_at_sjoin_witness:
  "(\<exists>l r. nb07_sjoin_arguments geolib_example = Inr (l, r) \<and> crs l = crs r \<and> crs l \<noteq> None)
   \<and> (\<exists>l c. nb07_before_reprojection geolib_example = Inr (l, c) \<and> crs l \<noteq> crs c)
   \<and> (\<exists>l r. nb12_sjoin_arguments geolib_example = Inr (l, r) \<and> crs l = crs r
         \<and> crs l \<noteq> None)"
proof -
  obtain l7 r7 where a7: "nb07_sjoin_arguments geolib_example = Inr (l7, r7)"
    using nb07_example_args by blast
  obtain l12 r12 where a12: "nb12_sjoin_arguments geolib_example = Inr (l12, r12)"
    using nb12_example by blast
  from C4_crs_equal_at_sjoin [of geolib_example l7 r7 l12 r12] a7 a12
  have "crs l7 = crs r7 \<and> crs l7 \<noteq> None" and "crs l12 = crs r12 \<and> crs l12 \<noteq> None"
    by blast+
  moreover have "\<exists>l c. nb07_before_reprojection geolib_example = Inr (l, c) \<and> crs l \<noteq> crs c"
    using nb07_example by (auto simp: utm_11_def)
  ultimately show ?thesis using a7 a12 by blast
qed


section \<open>The inventory of each cell\<close>

text \<open>
  The heads of the calls, the effects, the compound statements, the comprehensions and
  the imports of every cell, computed from the cell by rewriting; the inventory of a
  notebook is the concatenation of those of its cells.
\<close>

lemmas cell_defs = heads_def calls_def expressions_def statements_def effects_def compound_def
  comprehensions_def imports_of_def reader_names_def writer_names_def

lemma inventory_Cons:
  assumes "cs \<noteq> []"
  shows "heads (c # cs) = heads [c] @ heads cs"
    and "effects (c # cs) = effects [c] @ effects cs"
    and "compound (c # cs) = compound [c] @ compound cs"
    and "comprehensions (c # cs) = comprehensions [c] @ comprehensions cs"
    and "imports_of (c # cs) = imports_of [c] @ imports_of cs"
  by (simp_all add: heads_def calls_def expressions_def statements_def effects_def compound_def
      comprehensions_def imports_of_def)

lemma nb03_cell5_inventory:
  "heads [nb03_cell5] = [(Builtin, ''print'')]"
  "effects [nb03_cell5] = []"
  "compound [nb03_cell5] = []"
  "comprehensions [nb03_cell5] = []"
  "imports_of [nb03_cell5] = []"
  by (simp_all add: nb03_cell5_def cell_defs)

lemma nb03_cell9_inventory:
  "heads [nb03_cell9] = []"
  "effects [nb03_cell9] = []"
  "compound [nb03_cell9] = []"
  "comprehensions [nb03_cell9] = []"
  "imports_of [nb03_cell9] = []"
  by (simp_all add: nb03_cell9_def cell_defs)

lemma nb03_cell10_inventory:
  "heads [nb03_cell10] = []"
  "effects [nb03_cell10] = []"
  "compound [nb03_cell10] = []"
  "comprehensions [nb03_cell10] = []"
  "imports_of [nb03_cell10] = []"
  by (simp_all add: nb03_cell10_def cell_defs)

lemma nb03_cell11_inventory:
  "heads [nb03_cell11] = []"
  "effects [nb03_cell11] = []"
  "compound [nb03_cell11] = []"
  "comprehensions [nb03_cell11] = []"
  "imports_of [nb03_cell11] = []"
  by (simp_all add: nb03_cell11_def cell_defs)

lemma nb03_cell12_inventory:
  "heads [nb03_cell12] = []"
  "effects [nb03_cell12] = []"
  "compound [nb03_cell12] = []"
  "comprehensions [nb03_cell12] = []"
  "imports_of [nb03_cell12] = []"
  by (simp_all add: nb03_cell12_def cell_defs)

lemma nb03_cell13_inventory:
  "heads [nb03_cell13] = []"
  "effects [nb03_cell13] = []"
  "compound [nb03_cell13] = []"
  "comprehensions [nb03_cell13] = []"
  "imports_of [nb03_cell13] = []"
  by (simp_all add: nb03_cell13_def cell_defs)

lemma nb03_cell14_inventory:
  "heads [nb03_cell14] = []"
  "effects [nb03_cell14] = []"
  "compound [nb03_cell14] = []"
  "comprehensions [nb03_cell14] = []"
  "imports_of [nb03_cell14] = []"
  by (simp_all add: nb03_cell14_def cell_defs)

lemma nb03_cell17_inventory:
  "heads [nb03_cell17] = []"
  "effects [nb03_cell17] = []"
  "compound [nb03_cell17] = []"
  "comprehensions [nb03_cell17] = []"
  "imports_of [nb03_cell17] = []"
  by (simp_all add: nb03_cell17_def cell_defs)

lemma nb03_cell18_inventory:
  "heads [nb03_cell18] = []"
  "effects [nb03_cell18] = []"
  "compound [nb03_cell18] = []"
  "comprehensions [nb03_cell18] = []"
  "imports_of [nb03_cell18] = []"
  by (simp_all add: nb03_cell18_def cell_defs)

lemma nb03_cell19_inventory:
  "heads [nb03_cell19] = []"
  "effects [nb03_cell19] = []"
  "compound [nb03_cell19] = []"
  "comprehensions [nb03_cell19] = []"
  "imports_of [nb03_cell19] = []"
  by (simp_all add: nb03_cell19_def cell_defs)

lemma nb03_cell20_inventory:
  "heads [nb03_cell20] = []"
  "effects [nb03_cell20] = []"
  "compound [nb03_cell20] = []"
  "comprehensions [nb03_cell20] = []"
  "imports_of [nb03_cell20] = []"
  by (simp_all add: nb03_cell20_def cell_defs)

lemma nb03_cell21_inventory:
  "heads [nb03_cell21] = []"
  "effects [nb03_cell21] = []"
  "compound [nb03_cell21] = []"
  "comprehensions [nb03_cell21] = []"
  "imports_of [nb03_cell21] = []"
  by (simp_all add: nb03_cell21_def cell_defs)

lemma nb03_cell22_inventory:
  "heads [nb03_cell22] = []"
  "effects [nb03_cell22] = []"
  "compound [nb03_cell22] = []"
  "comprehensions [nb03_cell22] = []"
  "imports_of [nb03_cell22] = []"
  by (simp_all add: nb03_cell22_def cell_defs)

lemma nb03_cell23_inventory:
  "heads [nb03_cell23] = []"
  "effects [nb03_cell23] = []"
  "compound [nb03_cell23] = []"
  "comprehensions [nb03_cell23] = []"
  "imports_of [nb03_cell23] = []"
  by (simp_all add: nb03_cell23_def cell_defs)

lemma nb03_cell24_inventory:
  "heads [nb03_cell24] = []"
  "effects [nb03_cell24] = []"
  "compound [nb03_cell24] = []"
  "comprehensions [nb03_cell24] = []"
  "imports_of [nb03_cell24] = []"
  by (simp_all add: nb03_cell24_def cell_defs)

lemma nb03_cell25_inventory:
  "heads [nb03_cell25] = [(Builtin, ''print''), (Builtin, ''print'')]"
  "effects [nb03_cell25] = []"
  "compound [nb03_cell25] = []"
  "comprehensions [nb03_cell25] = []"
  "imports_of [nb03_cell25] = []"
  by (simp_all add: nb03_cell25_def cell_defs)

lemma nb03_cell26_inventory:
  "heads [nb03_cell26] = [(Builtin, ''print'')]"
  "effects [nb03_cell26] = []"
  "compound [nb03_cell26] = []"
  "comprehensions [nb03_cell26] = []"
  "imports_of [nb03_cell26] = []"
  by (simp_all add: nb03_cell26_def cell_defs)

lemma nb03_cell27_inventory:
  "heads [nb03_cell27] = [(Builtin, ''print'')]"
  "effects [nb03_cell27] = []"
  "compound [nb03_cell27] = []"
  "comprehensions [nb03_cell27] = []"
  "imports_of [nb03_cell27] = []"
  by (simp_all add: nb03_cell27_def cell_defs)

lemma nb03_cell30_inventory:
  "heads [nb03_cell30] = []"
  "effects [nb03_cell30] = []"
  "compound [nb03_cell30] = []"
  "comprehensions [nb03_cell30] = []"
  "imports_of [nb03_cell30] = []"
  by (simp_all add: nb03_cell30_def cell_defs)

lemma nb03_cell31_inventory:
  "heads [nb03_cell31] = []"
  "effects [nb03_cell31] = []"
  "compound [nb03_cell31] = []"
  "comprehensions [nb03_cell31] = []"
  "imports_of [nb03_cell31] = []"
  by (simp_all add: nb03_cell31_def cell_defs)

lemma nb03_cell32_inventory:
  "heads [nb03_cell32] = []"
  "effects [nb03_cell32] = []"
  "compound [nb03_cell32] = []"
  "comprehensions [nb03_cell32] = []"
  "imports_of [nb03_cell32] = []"
  by (simp_all add: nb03_cell32_def cell_defs)

lemma nb03_cell33_inventory:
  "heads [nb03_cell33] = []"
  "effects [nb03_cell33] = []"
  "compound [nb03_cell33] = []"
  "comprehensions [nb03_cell33] = []"
  "imports_of [nb03_cell33] = []"
  by (simp_all add: nb03_cell33_def cell_defs)

lemma nb03_cell34_inventory:
  "heads [nb03_cell34] = []"
  "effects [nb03_cell34] = []"
  "compound [nb03_cell34] = []"
  "comprehensions [nb03_cell34] = []"
  "imports_of [nb03_cell34] = []"
  by (simp_all add: nb03_cell34_def cell_defs)

lemma nb03_cell38_inventory:
  "heads [nb03_cell38] = [(Builtin, ''type'')]"
  "effects [nb03_cell38] = []"
  "compound [nb03_cell38] = []"
  "comprehensions [nb03_cell38] = []"
  "imports_of [nb03_cell38] = []"
  by (simp_all add: nb03_cell38_def cell_defs)

lemma nb03_cell39_inventory:
  "heads [nb03_cell39] = [(Builtin, ''type'')]"
  "effects [nb03_cell39] = []"
  "compound [nb03_cell39] = []"
  "comprehensions [nb03_cell39] = []"
  "imports_of [nb03_cell39] = []"
  by (simp_all add: nb03_cell39_def cell_defs)

lemma nb03_cell40_inventory:
  "heads [nb03_cell40] = [(Builtin, ''isinstance'')]"
  "effects [nb03_cell40] = []"
  "compound [nb03_cell40] = []"
  "comprehensions [nb03_cell40] = []"
  "imports_of [nb03_cell40] = []"
  by (simp_all add: nb03_cell40_def cell_defs)

lemma nb03_cell41_inventory:
  "heads [nb03_cell41] = [(Builtin, ''type'')]"
  "effects [nb03_cell41] = []"
  "compound [nb03_cell41] = []"
  "comprehensions [nb03_cell41] = []"
  "imports_of [nb03_cell41] = []"
  by (simp_all add: nb03_cell41_def cell_defs)

lemma nb03_cell42_inventory:
  "heads [nb03_cell42] = [(Builtin, ''isinstance'')]"
  "effects [nb03_cell42] = []"
  "compound [nb03_cell42] = []"
  "comprehensions [nb03_cell42] = []"
  "imports_of [nb03_cell42] = []"
  by (simp_all add: nb03_cell42_def cell_defs)

lemma nb03_cell43_inventory:
  "heads [nb03_cell43] = [(Builtin, ''isinstance'')]"
  "effects [nb03_cell43] = []"
  "compound [nb03_cell43] = []"
  "comprehensions [nb03_cell43] = []"
  "imports_of [nb03_cell43] = []"
  by (simp_all add: nb03_cell43_def cell_defs)

lemma nb03_cell44_inventory:
  "heads [nb03_cell44] = [(Builtin, ''type'')]"
  "effects [nb03_cell44] = []"
  "compound [nb03_cell44] = []"
  "comprehensions [nb03_cell44] = []"
  "imports_of [nb03_cell44] = []"
  by (simp_all add: nb03_cell44_def cell_defs)

lemma nb03_cell45_inventory:
  "heads [nb03_cell45] = []"
  "effects [nb03_cell45] = []"
  "compound [nb03_cell45] = []"
  "comprehensions [nb03_cell45] = []"
  "imports_of [nb03_cell45] = []"
  by (simp_all add: nb03_cell45_def cell_defs)

lemma nb03_cell46_inventory:
  "heads [nb03_cell46] = [(Builtin, ''type'')]"
  "effects [nb03_cell46] = []"
  "compound [nb03_cell46] = []"
  "comprehensions [nb03_cell46] = []"
  "imports_of [nb03_cell46] = []"
  by (simp_all add: nb03_cell46_def cell_defs)

lemma nb03_cell47_inventory:
  "heads [nb03_cell47] = []"
  "effects [nb03_cell47] = []"
  "compound [nb03_cell47] = []"
  "comprehensions [nb03_cell47] = []"
  "imports_of [nb03_cell47] = []"
  by (simp_all add: nb03_cell47_def cell_defs)

lemma nb03_cell48_inventory:
  "heads [nb03_cell48] = [(Builtin, ''type'')]"
  "effects [nb03_cell48] = []"
  "compound [nb03_cell48] = []"
  "comprehensions [nb03_cell48] = []"
  "imports_of [nb03_cell48] = []"
  by (simp_all add: nb03_cell48_def cell_defs)

lemma nb03_cell51_inventory:
  "heads [nb03_cell51] = []"
  "effects [nb03_cell51] = []"
  "compound [nb03_cell51] = []"
  "comprehensions [nb03_cell51] = []"
  "imports_of [nb03_cell51] = []"
  by (simp_all add: nb03_cell51_def cell_defs)

lemma nb03_cell52_inventory:
  "heads [nb03_cell52] = []"
  "effects [nb03_cell52] = []"
  "compound [nb03_cell52] = []"
  "comprehensions [nb03_cell52] = []"
  "imports_of [nb03_cell52] = []"
  by (simp_all add: nb03_cell52_def cell_defs)

lemma nb03_cell53_inventory:
  "heads [nb03_cell53] =
       [(Builtin, ''print''), (Builtin, ''type''), (Builtin, ''print''), (Builtin, ''type''),
        (Builtin, ''print''), (Builtin, ''type'')]"
  "effects [nb03_cell53] = []"
  "compound [nb03_cell53] = []"
  "comprehensions [nb03_cell53] = []"
  "imports_of [nb03_cell53] = []"
  by (simp_all add: nb03_cell53_def cell_defs)

lemma nb03_cell55_inventory:
  "heads [nb03_cell55] = [(Builtin, ''print'')]"
  "effects [nb03_cell55] = []"
  "compound [nb03_cell55] = []"
  "comprehensions [nb03_cell55] = []"
  "imports_of [nb03_cell55] = []"
  by (simp_all add: nb03_cell55_def cell_defs)

lemma nb03_cell56_inventory:
  "heads [nb03_cell56] = []"
  "effects [nb03_cell56] = []"
  "compound [nb03_cell56] = []"
  "comprehensions [nb03_cell56] = []"
  "imports_of [nb03_cell56] = []"
  by (simp_all add: nb03_cell56_def cell_defs)

lemma nb03_cell57_inventory:
  "heads [nb03_cell57] = []"
  "effects [nb03_cell57] = []"
  "compound [nb03_cell57] = []"
  "comprehensions [nb03_cell57] = []"
  "imports_of [nb03_cell57] = []"
  by (simp_all add: nb03_cell57_def cell_defs)

lemma nb03_cell58_inventory:
  "heads [nb03_cell58] = []"
  "effects [nb03_cell58] = []"
  "compound [nb03_cell58] = []"
  "comprehensions [nb03_cell58] = []"
  "imports_of [nb03_cell58] = []"
  by (simp_all add: nb03_cell58_def cell_defs)

lemma nb03_cell59_inventory:
  "heads [nb03_cell59] = [(Builtin, ''print'')]"
  "effects [nb03_cell59] = []"
  "compound [nb03_cell59] = []"
  "comprehensions [nb03_cell59] = []"
  "imports_of [nb03_cell59] = []"
  by (simp_all add: nb03_cell59_def cell_defs)

lemma nb03_cell60_inventory:
  "heads [nb03_cell60] = [(Builtin, ''print''), (Builtin, ''print''), (Builtin, ''print'')]"
  "effects [nb03_cell60] = []"
  "compound [nb03_cell60] = []"
  "comprehensions [nb03_cell60] = []"
  "imports_of [nb03_cell60] = []"
  by (simp_all add: nb03_cell60_def cell_defs)

lemma nb03_cell61_inventory:
  "heads [nb03_cell61] = [(Builtin, ''len'')]"
  "effects [nb03_cell61] = []"
  "compound [nb03_cell61] = []"
  "comprehensions [nb03_cell61] = []"
  "imports_of [nb03_cell61] = []"
  by (simp_all add: nb03_cell61_def cell_defs)

lemma nb03_cell62_inventory:
  "heads [nb03_cell62] = []"
  "effects [nb03_cell62] = []"
  "compound [nb03_cell62] = []"
  "comprehensions [nb03_cell62] = []"
  "imports_of [nb03_cell62] = []"
  by (simp_all add: nb03_cell62_def cell_defs)

lemma nb03_cell63_inventory:
  "heads [nb03_cell63] = []"
  "effects [nb03_cell63] = []"
  "compound [nb03_cell63] = []"
  "comprehensions [nb03_cell63] = []"
  "imports_of [nb03_cell63] = []"
  by (simp_all add: nb03_cell63_def cell_defs)

lemma nb03_cell64_inventory:
  "heads [nb03_cell64] = []"
  "effects [nb03_cell64] = []"
  "compound [nb03_cell64] = []"
  "comprehensions [nb03_cell64] = []"
  "imports_of [nb03_cell64] = []"
  by (simp_all add: nb03_cell64_def cell_defs)

lemma nb03_cell65_inventory:
  "heads [nb03_cell65] = []"
  "effects [nb03_cell65] = []"
  "compound [nb03_cell65] = []"
  "comprehensions [nb03_cell65] = []"
  "imports_of [nb03_cell65] = []"
  by (simp_all add: nb03_cell65_def cell_defs)

lemma nb03_cell66_inventory:
  "heads [nb03_cell66] = [(Builtin, ''replace'')]"
  "effects [nb03_cell66] = []"
  "compound [nb03_cell66] = []"
  "comprehensions [nb03_cell66] = []"
  "imports_of [nb03_cell66] = []"
  by (simp_all add: nb03_cell66_def cell_defs)

lemma nb03_cell69_inventory:
  "heads [nb03_cell69] = []"
  "effects [nb03_cell69] = []"
  "compound [nb03_cell69] = []"
  "comprehensions [nb03_cell69] = []"
  "imports_of [nb03_cell69] = []"
  by (simp_all add: nb03_cell69_def cell_defs)

lemma nb03_cell70_inventory:
  "heads [nb03_cell70] = [(Builtin, ''type'')]"
  "effects [nb03_cell70] = []"
  "compound [nb03_cell70] = []"
  "comprehensions [nb03_cell70] = []"
  "imports_of [nb03_cell70] = []"
  by (simp_all add: nb03_cell70_def cell_defs)

lemma nb03_cell71_inventory:
  "heads [nb03_cell71] = [(Builtin, ''int'')]"
  "effects [nb03_cell71] = []"
  "compound [nb03_cell71] = []"
  "comprehensions [nb03_cell71] = []"
  "imports_of [nb03_cell71] = []"
  by (simp_all add: nb03_cell71_def cell_defs)

lemma nb03_cell72_inventory:
  "heads [nb03_cell72] = [(Builtin, ''type'')]"
  "effects [nb03_cell72] = []"
  "compound [nb03_cell72] = []"
  "comprehensions [nb03_cell72] = []"
  "imports_of [nb03_cell72] = []"
  by (simp_all add: nb03_cell72_def cell_defs)

lemma nb03_cell73_inventory:
  "heads [nb03_cell73] = []"
  "effects [nb03_cell73] = []"
  "compound [nb03_cell73] = []"
  "comprehensions [nb03_cell73] = []"
  "imports_of [nb03_cell73] = []"
  by (simp_all add: nb03_cell73_def cell_defs)

lemma nb03_cell74_inventory:
  "heads [nb03_cell74] = [(Builtin, ''print''), (Builtin, ''str''), (Builtin, ''print'')]"
  "effects [nb03_cell74] = []"
  "compound [nb03_cell74] = []"
  "comprehensions [nb03_cell74] = []"
  "imports_of [nb03_cell74] = []"
  by (simp_all add: nb03_cell74_def cell_defs)

lemma nb03_cell75_inventory:
  "heads [nb03_cell75] = [(Builtin, ''int'')]"
  "effects [nb03_cell75] = []"
  "compound [nb03_cell75] = []"
  "comprehensions [nb03_cell75] = []"
  "imports_of [nb03_cell75] = []"
  by (simp_all add: nb03_cell75_def cell_defs)

lemma nb03_cell76_inventory:
  "heads [nb03_cell76] = [(Builtin, ''int''), (Builtin, ''float'')]"
  "effects [nb03_cell76] = []"
  "compound [nb03_cell76] = []"
  "comprehensions [nb03_cell76] = []"
  "imports_of [nb03_cell76] = []"
  by (simp_all add: nb03_cell76_def cell_defs)

lemma nb03_cell77_inventory:
  "heads [nb03_cell77] = []"
  "effects [nb03_cell77] = []"
  "compound [nb03_cell77] = []"
  "comprehensions [nb03_cell77] = []"
  "imports_of [nb03_cell77] = []"
  by (simp_all add: nb03_cell77_def cell_defs)

lemma nb03_cell78_inventory:
  "heads [nb03_cell78] = [(Builtin, ''str'')]"
  "effects [nb03_cell78] = []"
  "compound [nb03_cell78] = []"
  "comprehensions [nb03_cell78] = []"
  "imports_of [nb03_cell78] = []"
  by (simp_all add: nb03_cell78_def cell_defs)

lemma nb03_cell81_inventory:
  "heads [nb03_cell81] = []"
  "effects [nb03_cell81] = []"
  "compound [nb03_cell81] = []"
  "comprehensions [nb03_cell81] = []"
  "imports_of [nb03_cell81] = []"
  by (simp_all add: nb03_cell81_def cell_defs)

lemma nb03_cell82_inventory:
  "heads [nb03_cell82] = [(Builtin, ''sum'')]"
  "effects [nb03_cell82] = []"
  "compound [nb03_cell82] = []"
  "comprehensions [nb03_cell82] = []"
  "imports_of [nb03_cell82] = []"
  by (simp_all add: nb03_cell82_def cell_defs)

lemma nb03_cell83_inventory:
  "heads [nb03_cell83] = [(Builtin, ''set'')]"
  "effects [nb03_cell83] = []"
  "compound [nb03_cell83] = []"
  "comprehensions [nb03_cell83] = []"
  "imports_of [nb03_cell83] = []"
  by (simp_all add: nb03_cell83_def cell_defs)

lemma nb03_cell84_inventory:
  "heads [nb03_cell84] = []"
  "effects [nb03_cell84] = []"
  "compound [nb03_cell84] = []"
  "comprehensions [nb03_cell84] = []"
  "imports_of [nb03_cell84] = []"
  by (simp_all add: nb03_cell84_def cell_defs)

lemma nb03_cell85_inventory:
  "heads [nb03_cell85] = [(Builtin, ''len'')]"
  "effects [nb03_cell85] = []"
  "compound [nb03_cell85] = []"
  "comprehensions [nb03_cell85] = []"
  "imports_of [nb03_cell85] = []"
  by (simp_all add: nb03_cell85_def cell_defs)

lemma nb03_cell86_inventory:
  "heads [nb03_cell86] = []"
  "effects [nb03_cell86] = []"
  "compound [nb03_cell86] = []"
  "comprehensions [nb03_cell86] = []"
  "imports_of [nb03_cell86] = []"
  by (simp_all add: nb03_cell86_def cell_defs)

lemma nb03_cell87_inventory:
  "heads [nb03_cell87] = []"
  "effects [nb03_cell87] = []"
  "compound [nb03_cell87] = []"
  "comprehensions [nb03_cell87] = []"
  "imports_of [nb03_cell87] = []"
  by (simp_all add: nb03_cell87_def cell_defs)

lemma nb03_cell88_inventory:
  "heads [nb03_cell88] = [(Builtin, ''append'')]"
  "effects [nb03_cell88] = []"
  "compound [nb03_cell88] = []"
  "comprehensions [nb03_cell88] = []"
  "imports_of [nb03_cell88] = []"
  by (simp_all add: nb03_cell88_def cell_defs)

lemma nb03_cell89_inventory:
  "heads [nb03_cell89] = []"
  "effects [nb03_cell89] = []"
  "compound [nb03_cell89] = []"
  "comprehensions [nb03_cell89] = []"
  "imports_of [nb03_cell89] = []"
  by (simp_all add: nb03_cell89_def cell_defs)

lemma nb03_cell91_inventory:
  "heads [nb03_cell91] = []"
  "effects [nb03_cell91] = []"
  "compound [nb03_cell91] = []"
  "comprehensions [nb03_cell91] = []"
  "imports_of [nb03_cell91] = []"
  by (simp_all add: nb03_cell91_def cell_defs)

lemma nb03_cell92_inventory:
  "heads [nb03_cell92] = [(Builtin, ''len'')]"
  "effects [nb03_cell92] = []"
  "compound [nb03_cell92] = []"
  "comprehensions [nb03_cell92] = []"
  "imports_of [nb03_cell92] = []"
  by (simp_all add: nb03_cell92_def cell_defs)

lemma nb03_cell93_inventory:
  "heads [nb03_cell93] = []"
  "effects [nb03_cell93] = []"
  "compound [nb03_cell93] = []"
  "comprehensions [nb03_cell93] = []"
  "imports_of [nb03_cell93] = []"
  by (simp_all add: nb03_cell93_def cell_defs)

lemma nb03_cell94_inventory:
  "heads [nb03_cell94] = [(Builtin, ''type'')]"
  "effects [nb03_cell94] = []"
  "compound [nb03_cell94] = []"
  "comprehensions [nb03_cell94] = []"
  "imports_of [nb03_cell94] = []"
  by (simp_all add: nb03_cell94_def cell_defs)

lemma nb03_cell95_inventory:
  "heads [nb03_cell95] = [(Builtin, ''str'')]"
  "effects [nb03_cell95] = []"
  "compound [nb03_cell95] = []"
  "comprehensions [nb03_cell95] = []"
  "imports_of [nb03_cell95] = []"
  by (simp_all add: nb03_cell95_def cell_defs)

lemma nb03_cell96_inventory:
  "heads [nb03_cell96] = [(Builtin, ''type''), (Builtin, ''str'')]"
  "effects [nb03_cell96] = []"
  "compound [nb03_cell96] = []"
  "comprehensions [nb03_cell96] = []"
  "imports_of [nb03_cell96] = []"
  by (simp_all add: nb03_cell96_def cell_defs)

lemma nb03_cell97_inventory:
  "heads [nb03_cell97] = []"
  "effects [nb03_cell97] = []"
  "compound [nb03_cell97] = []"
  "comprehensions [nb03_cell97] = []"
  "imports_of [nb03_cell97] = []"
  by (simp_all add: nb03_cell97_def cell_defs)

lemma nb03_cell98_inventory:
  "heads [nb03_cell98] = [(Builtin, ''append''), (Builtin, ''str'')]"
  "effects [nb03_cell98] = []"
  "compound [nb03_cell98] = []"
  "comprehensions [nb03_cell98] = []"
  "imports_of [nb03_cell98] = []"
  by (simp_all add: nb03_cell98_def cell_defs)

lemma nb03_cell99_inventory:
  "heads [nb03_cell99] = []"
  "effects [nb03_cell99] = []"
  "compound [nb03_cell99] = []"
  "comprehensions [nb03_cell99] = []"
  "imports_of [nb03_cell99] = []"
  by (simp_all add: nb03_cell99_def cell_defs)

lemma nb03_cell100_inventory:
  "heads [nb03_cell100] =
       [(Builtin, ''append''), (Builtin, ''str''), (Builtin, ''append''), (Builtin, ''str''),
        (Builtin, ''append''), (Builtin, ''str''), (Builtin, ''append''), (Builtin, ''str'')]"
  "effects [nb03_cell100] = []"
  "compound [nb03_cell100] = []"
  "comprehensions [nb03_cell100] = []"
  "imports_of [nb03_cell100] = []"
  by (simp_all add: nb03_cell100_def cell_defs)

lemma nb03_cell101_inventory:
  "heads [nb03_cell101] = []"
  "effects [nb03_cell101] = []"
  "compound [nb03_cell101] = []"
  "comprehensions [nb03_cell101] = []"
  "imports_of [nb03_cell101] = []"
  by (simp_all add: nb03_cell101_def cell_defs)

lemma nb03_cell102_inventory:
  "heads [nb03_cell102] = []"
  "effects [nb03_cell102] = []"
  "compound [nb03_cell102] = []"
  "comprehensions [nb03_cell102] = []"
  "imports_of [nb03_cell102] = []"
  by (simp_all add: nb03_cell102_def cell_defs)

lemma nb03_cell103_inventory:
  "heads [nb03_cell103] = [(Builtin, ''append''), (Builtin, ''str'')]"
  "effects [nb03_cell103] = []"
  "compound [nb03_cell103] =
       [For (Name ''value'') (Name ''int_list'')
          [ExprStmt
             (Call Builtin (Attr (Name ''new_list'') ''append'')
                [Call Builtin (Name ''str'') [Name ''value'']])]]"
  "comprehensions [nb03_cell103] = []"
  "imports_of [nb03_cell103] = []"
  by (simp_all add: nb03_cell103_def cell_defs)

lemma nb03_cell104_inventory:
  "heads [nb03_cell104] = [(Builtin, ''str'')]"
  "effects [nb03_cell104] = []"
  "compound [nb03_cell104] = []"
  "comprehensions [nb03_cell104] =
       [ListComp (Call Builtin (Name ''str'') [Name ''value'']) (Name ''value'')
          (Name ''int_list'')]"
  "imports_of [nb03_cell104] = []"
  by (simp_all add: nb03_cell104_def cell_defs)

lemma nb03_cell108_inventory:
  "heads [nb03_cell108] = []"
  "effects [nb03_cell108] = []"
  "compound [nb03_cell108] = []"
  "comprehensions [nb03_cell108] = []"
  "imports_of [nb03_cell108] = []"
  by (simp_all add: nb03_cell108_def cell_defs)

lemma nb03_cell109_inventory:
  "heads [nb03_cell109] = []"
  "effects [nb03_cell109] = []"
  "compound [nb03_cell109] = []"
  "comprehensions [nb03_cell109] = []"
  "imports_of [nb03_cell109] = []"
  by (simp_all add: nb03_cell109_def cell_defs)

lemma nb03_cell110_inventory:
  "heads [nb03_cell110] = []"
  "effects [nb03_cell110] = []"
  "compound [nb03_cell110] = []"
  "comprehensions [nb03_cell110] = []"
  "imports_of [nb03_cell110] = []"
  by (simp_all add: nb03_cell110_def cell_defs)

lemma nb03_cell111_inventory:
  "heads [nb03_cell111] = [(Builtin, ''keys'')]"
  "effects [nb03_cell111] = []"
  "compound [nb03_cell111] = []"
  "comprehensions [nb03_cell111] = []"
  "imports_of [nb03_cell111] = []"
  by (simp_all add: nb03_cell111_def cell_defs)

lemma nb03_cell112_inventory:
  "heads [nb03_cell112] = [(Builtin, ''values'')]"
  "effects [nb03_cell112] = []"
  "compound [nb03_cell112] = []"
  "comprehensions [nb03_cell112] = []"
  "imports_of [nb03_cell112] = []"
  by (simp_all add: nb03_cell112_def cell_defs)

lemma nb03_cell113_inventory:
  "heads [nb03_cell113] = [(Builtin, ''items'')]"
  "effects [nb03_cell113] = []"
  "compound [nb03_cell113] = []"
  "comprehensions [nb03_cell113] = []"
  "imports_of [nb03_cell113] = []"
  by (simp_all add: nb03_cell113_def cell_defs)

lemmas nb03_inventory = nb03_cell5_inventory nb03_cell9_inventory nb03_cell10_inventory
  nb03_cell11_inventory nb03_cell12_inventory nb03_cell13_inventory nb03_cell14_inventory
  nb03_cell17_inventory nb03_cell18_inventory nb03_cell19_inventory nb03_cell20_inventory
  nb03_cell21_inventory nb03_cell22_inventory nb03_cell23_inventory nb03_cell24_inventory
  nb03_cell25_inventory nb03_cell26_inventory nb03_cell27_inventory nb03_cell30_inventory
  nb03_cell31_inventory nb03_cell32_inventory nb03_cell33_inventory nb03_cell34_inventory
  nb03_cell38_inventory nb03_cell39_inventory nb03_cell40_inventory nb03_cell41_inventory
  nb03_cell42_inventory nb03_cell43_inventory nb03_cell44_inventory nb03_cell45_inventory
  nb03_cell46_inventory nb03_cell47_inventory nb03_cell48_inventory nb03_cell51_inventory
  nb03_cell52_inventory nb03_cell53_inventory nb03_cell55_inventory nb03_cell56_inventory
  nb03_cell57_inventory nb03_cell58_inventory nb03_cell59_inventory nb03_cell60_inventory
  nb03_cell61_inventory nb03_cell62_inventory nb03_cell63_inventory nb03_cell64_inventory
  nb03_cell65_inventory nb03_cell66_inventory nb03_cell69_inventory nb03_cell70_inventory
  nb03_cell71_inventory nb03_cell72_inventory nb03_cell73_inventory nb03_cell74_inventory
  nb03_cell75_inventory nb03_cell76_inventory nb03_cell77_inventory nb03_cell78_inventory
  nb03_cell81_inventory nb03_cell82_inventory nb03_cell83_inventory nb03_cell84_inventory
  nb03_cell85_inventory nb03_cell86_inventory nb03_cell87_inventory nb03_cell88_inventory
  nb03_cell89_inventory nb03_cell91_inventory nb03_cell92_inventory nb03_cell93_inventory
  nb03_cell94_inventory nb03_cell95_inventory nb03_cell96_inventory nb03_cell97_inventory
  nb03_cell98_inventory nb03_cell99_inventory nb03_cell100_inventory nb03_cell101_inventory
  nb03_cell102_inventory nb03_cell103_inventory nb03_cell104_inventory nb03_cell108_inventory
  nb03_cell109_inventory nb03_cell110_inventory nb03_cell111_inventory nb03_cell112_inventory
  nb03_cell113_inventory

lemma nb06_cell1_inventory:
  "heads [nb06_cell1] = []"
  "effects [nb06_cell1] = [RunShell ''pip install numpy pandas seaborn'']"
  "compound [nb06_cell1] = []"
  "comprehensions [nb06_cell1] = []"
  "imports_of [nb06_cell1] = []"
  by (simp_all add: nb06_cell1_def cell_defs)

lemma nb06_cell2_inventory:
  "heads [nb06_cell2] = []"
  "effects [nb06_cell2] = []"
  "compound [nb06_cell2] = []"
  "comprehensions [nb06_cell2] = []"
  "imports_of [nb06_cell2] = [''numpy'', ''pandas'', ''seaborn'']"
  by (simp_all add: nb06_cell2_def cell_defs)

lemma nb06_cell4_inventory:
  "heads [nb06_cell4] = [(Pandas, ''read_csv'')]"
  "effects [nb06_cell4] =
       [Fetch
          (Str
             ''https://raw.githubusercontent.com/gboeing/ppd534/main/data/census_tracts_data_ca.csv'')]"
  "compound [nb06_cell4] = []"
  "comprehensions [nb06_cell4] = []"
  "imports_of [nb06_cell4] = []"
  by (simp_all add: nb06_cell4_def cell_defs)

lemma nb06_cell5_inventory:
  "heads [nb06_cell5] = []"
  "effects [nb06_cell5] = []"
  "compound [nb06_cell5] = []"
  "comprehensions [nb06_cell5] = []"
  "imports_of [nb06_cell5] = []"
  by (simp_all add: nb06_cell5_def cell_defs)

lemma nb06_cell6_inventory:
  "heads [nb06_cell6] = [(Pandas, ''set_index''), (Pandas, ''head'')]"
  "effects [nb06_cell6] = []"
  "compound [nb06_cell6] = []"
  "comprehensions [nb06_cell6] = []"
  "imports_of [nb06_cell6] = []"
  by (simp_all add: nb06_cell6_def cell_defs)

lemma nb06_cell8_inventory:
  "heads [nb06_cell8] = [(Pandas, ''isin'')]"
  "effects [nb06_cell8] = []"
  "compound [nb06_cell8] = []"
  "comprehensions [nb06_cell8] = []"
  "imports_of [nb06_cell8] = []"
  by (simp_all add: nb06_cell8_def cell_defs)

lemma nb06_cell9_inventory:
  "heads [nb06_cell9] = [(Pandas, ''describe'')]"
  "effects [nb06_cell9] = []"
  "compound [nb06_cell9] = []"
  "comprehensions [nb06_cell9] = []"
  "imports_of [nb06_cell9] = []"
  by (simp_all add: nb06_cell9_def cell_defs)

lemma nb06_cell10_inventory:
  "heads [nb06_cell10] = [(Pandas, ''astype''), (Pandas, ''describe''), (Pandas, ''groupby'')]"
  "effects [nb06_cell10] = []"
  "compound [nb06_cell10] = []"
  "comprehensions [nb06_cell10] = []"
  "imports_of [nb06_cell10] = []"
  by (simp_all add: nb06_cell10_def cell_defs)

lemma nb06_cell12_inventory:
  "heads [nb06_cell12] = [(Seaborn, ''boxplot'')]"
  "effects [nb06_cell12] = []"
  "compound [nb06_cell12] = []"
  "comprehensions [nb06_cell12] = []"
  "imports_of [nb06_cell12] = []"
  by (simp_all add: nb06_cell12_def cell_defs)

lemma nb06_cell14_inventory:
  "heads [nb06_cell14] = [(Builtin, ''type'')]"
  "effects [nb06_cell14] = []"
  "compound [nb06_cell14] = []"
  "comprehensions [nb06_cell14] = []"
  "imports_of [nb06_cell14] = []"
  by (simp_all add: nb06_cell14_def cell_defs)

lemma nb06_cell15_inventory:
  "heads [nb06_cell15] = [(Matplotlib, ''get_figure''), (Builtin, ''type'')]"
  "effects [nb06_cell15] = []"
  "compound [nb06_cell15] = []"
  "comprehensions [nb06_cell15] = []"
  "imports_of [nb06_cell15] = []"
  by (simp_all add: nb06_cell15_def cell_defs)

lemma nb06_cell16_inventory:
  "heads [nb06_cell16] = [(Matplotlib, ''get_figure''), (Matplotlib, ''set_size_inches'')]"
  "effects [nb06_cell16] = []"
  "compound [nb06_cell16] = []"
  "comprehensions [nb06_cell16] = []"
  "imports_of [nb06_cell16] = []"
  by (simp_all add: nb06_cell16_def cell_defs)

lemma nb06_cell18_inventory:
  "heads [nb06_cell18] =
       [(Seaborn, ''set_style''), (Seaborn, ''set_context''), (Seaborn, ''boxplot''),
        (Matplotlib, ''set_xlim''), (Matplotlib, ''set_title''), (Matplotlib, ''set_xlabel''),
        (Matplotlib, ''set_ylabel''), (Matplotlib, ''savefig''), (Matplotlib, ''get_figure'')]"
  "effects [nb06_cell18] = [Write ''savefig'' (Str ''figure-income-boxplot.png'')]"
  "compound [nb06_cell18] = []"
  "comprehensions [nb06_cell18] = []"
  "imports_of [nb06_cell18] = []"
  by (simp_all add: nb06_cell18_def cell_defs)

lemma nb06_cell21_inventory:
  "heads [nb06_cell21] = [(Seaborn, ''histplot''), (Pandas, ''dropna'')]"
  "effects [nb06_cell21] = []"
  "compound [nb06_cell21] = []"
  "comprehensions [nb06_cell21] = []"
  "imports_of [nb06_cell21] = []"
  by (simp_all add: nb06_cell21_def cell_defs)

lemma nb06_cell22_inventory:
  "heads [nb06_cell22] = [(Seaborn, ''histplot''), (Pandas, ''dropna'')]"
  "effects [nb06_cell22] = []"
  "compound [nb06_cell22] = []"
  "comprehensions [nb06_cell22] = []"
  "imports_of [nb06_cell22] = []"
  by (simp_all add: nb06_cell22_def cell_defs)

lemma nb06_cell24_inventory:
  "heads [nb06_cell24] = []"
  "effects [nb06_cell24] = []"
  "compound [nb06_cell24] = []"
  "comprehensions [nb06_cell24] = []"
  "imports_of [nb06_cell24] = []"
  by (simp_all add: nb06_cell24_def cell_defs)

lemma nb06_cell25_inventory:
  "heads [nb06_cell25] =
       [(Seaborn, ''histplot''), (Pandas, ''dropna''), (Seaborn, ''histplot''),
        (Pandas, ''dropna'')]"
  "effects [nb06_cell25] = []"
  "compound [nb06_cell25] = []"
  "comprehensions [nb06_cell25] = []"
  "imports_of [nb06_cell25] = []"
  by (simp_all add: nb06_cell25_def cell_defs)

lemma nb06_cell26_inventory:
  "heads [nb06_cell26] =
       [(Seaborn, ''histplot''), (Pandas, ''dropna''), (Seaborn, ''histplot''),
        (Pandas, ''dropna''), (Matplotlib, ''legend''), (Matplotlib, ''set_xlim''),
        (Matplotlib, ''set_xlabel''), (Matplotlib, ''savefig''), (Matplotlib, ''get_figure'')]"
  "effects [nb06_cell26] = [Write ''savefig'' (Str ''figure-age-distributions.png'')]"
  "compound [nb06_cell26] = []"
  "comprehensions [nb06_cell26] = []"
  "imports_of [nb06_cell26] = []"
  by (simp_all add: nb06_cell26_def cell_defs)

lemma nb06_cell30_inventory:
  "heads [nb06_cell30] = [(Seaborn, ''scatterplot'')]"
  "effects [nb06_cell30] = []"
  "compound [nb06_cell30] = []"
  "comprehensions [nb06_cell30] = []"
  "imports_of [nb06_cell30] = []"
  by (simp_all add: nb06_cell30_def cell_defs)

lemma nb06_cell31_inventory:
  "heads [nb06_cell31] = [(Pandas, ''isin''), (Seaborn, ''scatterplot'')]"
  "effects [nb06_cell31] = []"
  "compound [nb06_cell31] = []"
  "comprehensions [nb06_cell31] = []"
  "imports_of [nb06_cell31] = []"
  by (simp_all add: nb06_cell31_def cell_defs)

lemma nb06_cell32_inventory:
  "heads [nb06_cell32] =
       [(Pandas, ''isin''), (Seaborn, ''scatterplot''),
        (Matplotlib, ''get_legend_handles_labels''), (Matplotlib, ''legend''),
        (Matplotlib, ''set_xlim''), (Matplotlib, ''set_ylim''), (Matplotlib, ''set_xlabel''),
        (Matplotlib, ''set_ylabel''), (Matplotlib, ''savefig''), (Matplotlib, ''get_figure'')]"
  "effects [nb06_cell32] = [Write ''savefig'' (Str ''figure-income-degree.png'')]"
  "compound [nb06_cell32] = []"
  "comprehensions [nb06_cell32] = []"
  "imports_of [nb06_cell32] = []"
  by (simp_all add: nb06_cell32_def cell_defs)

lemma nb06_cell35_inventory:
  "heads [nb06_cell35] = [(Pandas, ''head'')]"
  "effects [nb06_cell35] = []"
  "compound [nb06_cell35] = []"
  "comprehensions [nb06_cell35] = []"
  "imports_of [nb06_cell35] = []"
  by (simp_all add: nb06_cell35_def cell_defs)

lemma nb06_cell36_inventory:
  "heads [nb06_cell36] = [(Seaborn, ''pairplot''), (Pandas, ''dropna'')]"
  "effects [nb06_cell36] = []"
  "compound [nb06_cell36] = []"
  "comprehensions [nb06_cell36] = []"
  "imports_of [nb06_cell36] = []"
  by (simp_all add: nb06_cell36_def cell_defs)

lemma nb06_cell38_inventory:
  "heads [nb06_cell38] = [(Pandas, ''corr''), (Pandas, ''round'')]"
  "effects [nb06_cell38] = []"
  "compound [nb06_cell38] = []"
  "comprehensions [nb06_cell38] = []"
  "imports_of [nb06_cell38] = []"
  by (simp_all add: nb06_cell38_def cell_defs)

lemma nb06_cell39_inventory:
  "heads [nb06_cell39] = [(Seaborn, ''heatmap'')]"
  "effects [nb06_cell39] = []"
  "compound [nb06_cell39] = []"
  "comprehensions [nb06_cell39] = []"
  "imports_of [nb06_cell39] = []"
  by (simp_all add: nb06_cell39_def cell_defs)

lemma nb06_cell40_inventory:
  "heads [nb06_cell40] =
       [(Seaborn, ''regplot''), (Matplotlib, ''set_size_inches''), (Matplotlib, ''get_figure'')]"
  "effects [nb06_cell40] = []"
  "compound [nb06_cell40] = []"
  "comprehensions [nb06_cell40] = []"
  "imports_of [nb06_cell40] = []"
  by (simp_all add: nb06_cell40_def cell_defs)

lemma nb06_cell42_inventory:
  "heads [nb06_cell42] = [(Pandas, ''sort_index''), (Pandas, ''value_counts'')]"
  "effects [nb06_cell42] = []"
  "compound [nb06_cell42] = []"
  "comprehensions [nb06_cell42] = []"
  "imports_of [nb06_cell42] = []"
  by (simp_all add: nb06_cell42_def cell_defs)

lemma nb06_cell43_inventory:
  "heads [nb06_cell43] = [(Seaborn, ''countplot'')]"
  "effects [nb06_cell43] = []"
  "compound [nb06_cell43] = []"
  "comprehensions [nb06_cell43] = []"
  "imports_of [nb06_cell43] = []"
  by (simp_all add: nb06_cell43_def cell_defs)

lemma nb06_cell44_inventory:
  "heads [nb06_cell44] =
       [(Pandas, ''value_counts''), (Seaborn, ''countplot''), (Matplotlib, ''set_xticklabels''),
        (Matplotlib, ''get_xticklabels''), (Matplotlib, ''set_xlabel''),
        (Matplotlib, ''set_ylabel''), (Matplotlib, ''savefig''), (Matplotlib, ''get_figure'')]"
  "effects [nb06_cell44] = [Write ''savefig'' (Str ''county-tracts-countplot.png'')]"
  "compound [nb06_cell44] = []"
  "comprehensions [nb06_cell44] = []"
  "imports_of [nb06_cell44] = []"
  by (simp_all add: nb06_cell44_def cell_defs)

lemma nb06_cell45_inventory:
  "heads [nb06_cell45] = [(Seaborn, ''barplot'')]"
  "effects [nb06_cell45] = []"
  "compound [nb06_cell45] = []"
  "comprehensions [nb06_cell45] = []"
  "imports_of [nb06_cell45] = []"
  by (simp_all add: nb06_cell45_def cell_defs)

lemma nb06_cell46_inventory:
  "heads [nb06_cell46] =
       [(Pandas, ''sort_values''), (Pandas, ''median''), (Pandas, ''groupby''),
        (Seaborn, ''barplot'')]"
  "effects [nb06_cell46] = []"
  "compound [nb06_cell46] = []"
  "comprehensions [nb06_cell46] = []"
  "imports_of [nb06_cell46] = []"
  by (simp_all add: nb06_cell46_def cell_defs)

lemma nb06_cell48_inventory:
  "heads [nb06_cell48] = [(Pandas, ''set_index''), (Pandas, ''read_csv'')]"
  "effects [nb06_cell48] =
       [Fetch (Str ''https://raw.githubusercontent.com/gboeing/ppd534/main/data/gdp.csv'')]"
  "compound [nb06_cell48] = []"
  "comprehensions [nb06_cell48] = []"
  "imports_of [nb06_cell48] = []"
  by (simp_all add: nb06_cell48_def cell_defs)

lemma nb06_cell49_inventory:
  "heads [nb06_cell49] = [(Pandas, ''tail'')]"
  "effects [nb06_cell49] = []"
  "compound [nb06_cell49] = []"
  "comprehensions [nb06_cell49] = []"
  "imports_of [nb06_cell49] = []"
  by (simp_all add: nb06_cell49_def cell_defs)

lemma nb06_cell50_inventory:
  "heads [nb06_cell50] = [(Seaborn, ''lineplot'')]"
  "effects [nb06_cell50] = []"
  "compound [nb06_cell50] = []"
  "comprehensions [nb06_cell50] = []"
  "imports_of [nb06_cell50] = []"
  by (simp_all add: nb06_cell50_def cell_defs)

lemma nb06_cell51_inventory:
  "heads [nb06_cell51] = [(Seaborn, ''lineplot'')]"
  "effects [nb06_cell51] = []"
  "compound [nb06_cell51] = []"
  "comprehensions [nb06_cell51] = []"
  "imports_of [nb06_cell51] = []"
  by (simp_all add: nb06_cell51_def cell_defs)

lemma nb06_cell52_inventory:
  "heads [nb06_cell52] = [(Seaborn, ''lineplot'')]"
  "effects [nb06_cell52] = []"
  "compound [nb06_cell52] = []"
  "comprehensions [nb06_cell52] = []"
  "imports_of [nb06_cell52] = []"
  by (simp_all add: nb06_cell52_def cell_defs)

lemma nb06_cell53_inventory:
  "heads [nb06_cell53] =
       [(Seaborn, ''lineplot''), (Matplotlib, ''set_xlim''), (Matplotlib, ''set_ylim''),
        (Matplotlib, ''set_xlabel''), (Matplotlib, ''set_ylabel''), (Matplotlib, ''set_title''),
        (Matplotlib, ''savefig''), (Matplotlib, ''get_figure'')]"
  "effects [nb06_cell53] = [Write ''savefig'' (Str ''country-gdp-lineplot.png'')]"
  "compound [nb06_cell53] = []"
  "comprehensions [nb06_cell53] = []"
  "imports_of [nb06_cell53] = []"
  by (simp_all add: nb06_cell53_def cell_defs)

lemma nb06_cell56_inventory:
  "heads [nb06_cell56] = [(Seaborn, ''palplot''), (Seaborn, ''color_palette'')]"
  "effects [nb06_cell56] = []"
  "compound [nb06_cell56] = []"
  "comprehensions [nb06_cell56] = []"
  "imports_of [nb06_cell56] = []"
  by (simp_all add: nb06_cell56_def cell_defs)

lemma nb06_cell57_inventory:
  "heads [nb06_cell57] = [(Seaborn, ''palplot''), (Seaborn, ''color_palette'')]"
  "effects [nb06_cell57] = []"
  "compound [nb06_cell57] = []"
  "comprehensions [nb06_cell57] = []"
  "imports_of [nb06_cell57] = []"
  by (simp_all add: nb06_cell57_def cell_defs)

lemma nb06_cell58_inventory:
  "heads [nb06_cell58] = [(Seaborn, ''palplot''), (Seaborn, ''color_palette'')]"
  "effects [nb06_cell58] = []"
  "compound [nb06_cell58] = []"
  "comprehensions [nb06_cell58] = []"
  "imports_of [nb06_cell58] = []"
  by (simp_all add: nb06_cell58_def cell_defs)

lemmas nb06_inventory = nb06_cell1_inventory nb06_cell2_inventory nb06_cell4_inventory
  nb06_cell5_inventory nb06_cell6_inventory nb06_cell8_inventory nb06_cell9_inventory
  nb06_cell10_inventory nb06_cell12_inventory nb06_cell14_inventory nb06_cell15_inventory
  nb06_cell16_inventory nb06_cell18_inventory nb06_cell21_inventory nb06_cell22_inventory
  nb06_cell24_inventory nb06_cell25_inventory nb06_cell26_inventory nb06_cell30_inventory
  nb06_cell31_inventory nb06_cell32_inventory nb06_cell35_inventory nb06_cell36_inventory
  nb06_cell38_inventory nb06_cell39_inventory nb06_cell40_inventory nb06_cell42_inventory
  nb06_cell43_inventory nb06_cell44_inventory nb06_cell45_inventory nb06_cell46_inventory
  nb06_cell48_inventory nb06_cell49_inventory nb06_cell50_inventory nb06_cell51_inventory
  nb06_cell52_inventory nb06_cell53_inventory nb06_cell56_inventory nb06_cell57_inventory
  nb06_cell58_inventory

lemma nb07_cell1_inventory:
  "heads [nb07_cell1] = []"
  "effects [nb07_cell1] = [RunShell ''pip install geopandas mapclassify pandas shapely'']"
  "compound [nb07_cell1] = []"
  "comprehensions [nb07_cell1] = []"
  "imports_of [nb07_cell1] = []"
  by (simp_all add: nb07_cell1_def cell_defs)

lemma nb07_cell2_inventory:
  "heads [nb07_cell2] = []"
  "effects [nb07_cell2] = []"
  "compound [nb07_cell2] = []"
  "comprehensions [nb07_cell2] = []"
  "imports_of [nb07_cell2] = [''geopandas'', ''pandas'', ''shapely.geometry'']"
  by (simp_all add: nb07_cell2_def cell_defs)

lemma nb07_cell5_inventory:
  "heads [nb07_cell5] = [(GeoPandas, ''read_file'')]"
  "effects [nb07_cell5] =
       [Fetch
          (Str
             ''https://raw.githubusercontent.com/gboeing/ppd534/main/data/tl_2017_06_tract/tl_2017_06_tract.shp'')]"
  "compound [nb07_cell5] = []"
  "comprehensions [nb07_cell5] = []"
  "imports_of [nb07_cell5] = []"
  by (simp_all add: nb07_cell5_def cell_defs)

lemma nb07_cell6_inventory:
  "heads [nb07_cell6] = [(Pandas, ''head'')]"
  "effects [nb07_cell6] = []"
  "compound [nb07_cell6] = []"
  "comprehensions [nb07_cell6] = []"
  "imports_of [nb07_cell6] = []"
  by (simp_all add: nb07_cell6_def cell_defs)

lemma nb07_cell7_inventory:
  "heads [nb07_cell7] = [(GeoPandas, ''plot'')]"
  "effects [nb07_cell7] = []"
  "compound [nb07_cell7] = []"
  "comprehensions [nb07_cell7] = []"
  "imports_of [nb07_cell7] = []"
  by (simp_all add: nb07_cell7_def cell_defs)

lemma nb07_cell8_inventory:
  "heads [nb07_cell8] = [(Pandas, ''isin'')]"
  "effects [nb07_cell8] = []"
  "compound [nb07_cell8] = []"
  "comprehensions [nb07_cell8] = []"
  "imports_of [nb07_cell8] = []"
  by (simp_all add: nb07_cell8_def cell_defs)

lemma nb07_cell9_inventory:
  "heads [nb07_cell9] = []"
  "effects [nb07_cell9] = []"
  "compound [nb07_cell9] = []"
  "comprehensions [nb07_cell9] = []"
  "imports_of [nb07_cell9] = []"
  by (simp_all add: nb07_cell9_def cell_defs)

lemma nb07_cell11_inventory:
  "heads [nb07_cell11] = [(Pandas, ''read_csv'')]"
  "effects [nb07_cell11] =
       [Fetch
          (Str
             ''https://raw.githubusercontent.com/gboeing/ppd534/main/data/listings-la_oc_vc.csv'')]"
  "compound [nb07_cell11] = []"
  "comprehensions [nb07_cell11] = []"
  "imports_of [nb07_cell11] = []"
  by (simp_all add: nb07_cell11_def cell_defs)

lemma nb07_cell12_inventory:
  "heads [nb07_cell12] = [(Pandas, ''head'')]"
  "effects [nb07_cell12] = []"
  "compound [nb07_cell12] = []"
  "comprehensions [nb07_cell12] = []"
  "imports_of [nb07_cell12] = []"
  by (simp_all add: nb07_cell12_def cell_defs)

lemma nb07_cell14_inventory:
  "heads [nb07_cell14] = [(GeoPandas, ''GeoDataFrame'')]"
  "effects [nb07_cell14] = []"
  "compound [nb07_cell14] = []"
  "comprehensions [nb07_cell14] = []"
  "imports_of [nb07_cell14] = []"
  by (simp_all add: nb07_cell14_def cell_defs)

lemma nb07_cell15_inventory:
  "heads [nb07_cell15] = [(GeoPandas, ''points_from_xy'')]"
  "effects [nb07_cell15] = []"
  "compound [nb07_cell15] = []"
  "comprehensions [nb07_cell15] = []"
  "imports_of [nb07_cell15] = []"
  by (simp_all add: nb07_cell15_def cell_defs)

lemma nb07_cell16_inventory:
  "heads [nb07_cell16] = [(Pandas, ''head'')]"
  "effects [nb07_cell16] = []"
  "compound [nb07_cell16] = []"
  "comprehensions [nb07_cell16] = []"
  "imports_of [nb07_cell16] = []"
  by (simp_all add: nb07_cell16_def cell_defs)

lemma nb07_cell17_inventory:
  "heads [nb07_cell17] = []"
  "effects [nb07_cell17] = []"
  "compound [nb07_cell17] = []"
  "comprehensions [nb07_cell17] = []"
  "imports_of [nb07_cell17] = []"
  by (simp_all add: nb07_cell17_def cell_defs)

lemma nb07_cell19_inventory:
  "heads [nb07_cell19] = []"
  "effects [nb07_cell19] = []"
  "compound [nb07_cell19] = []"
  "comprehensions [nb07_cell19] = []"
  "imports_of [nb07_cell19] = []"
  by (simp_all add: nb07_cell19_def cell_defs)

lemma nb07_cell20_inventory:
  "heads [nb07_cell20] = [(GeoPandas, ''to_crs'')]"
  "effects [nb07_cell20] = []"
  "compound [nb07_cell20] = []"
  "comprehensions [nb07_cell20] = []"
  "imports_of [nb07_cell20] = []"
  by (simp_all add: nb07_cell20_def cell_defs)

lemma nb07_cell24_inventory:
  "heads [nb07_cell24] = [(Builtin, ''type'')]"
  "effects [nb07_cell24] = []"
  "compound [nb07_cell24] = []"
  "comprehensions [nb07_cell24] = []"
  "imports_of [nb07_cell24] = []"
  by (simp_all add: nb07_cell24_def cell_defs)

lemma nb07_cell25_inventory:
  "heads [nb07_cell25] = []"
  "effects [nb07_cell25] = []"
  "compound [nb07_cell25] = []"
  "comprehensions [nb07_cell25] = []"
  "imports_of [nb07_cell25] = []"
  by (simp_all add: nb07_cell25_def cell_defs)

lemma nb07_cell26_inventory:
  "heads [nb07_cell26] = [(GeoPandas, ''intersects'')]"
  "effects [nb07_cell26] = []"
  "compound [nb07_cell26] = []"
  "comprehensions [nb07_cell26] = []"
  "imports_of [nb07_cell26] = []"
  by (simp_all add: nb07_cell26_def cell_defs)

lemma nb07_cell27_inventory:
  "heads [nb07_cell27] = []"
  "effects [nb07_cell27] = []"
  "compound [nb07_cell27] = []"
  "comprehensions [nb07_cell27] = []"
  "imports_of [nb07_cell27] = []"
  by (simp_all add: nb07_cell27_def cell_defs)

lemma nb07_cell29_inventory:
  "heads [nb07_cell29] = [(Pandas, ''head'')]"
  "effects [nb07_cell29] = []"
  "compound [nb07_cell29] = []"
  "comprehensions [nb07_cell29] = []"
  "imports_of [nb07_cell29] = []"
  by (simp_all add: nb07_cell29_def cell_defs)

lemma nb07_cell30_inventory:
  "heads [nb07_cell30] = [(GeoPandas, ''dissolve'')]"
  "effects [nb07_cell30] = []"
  "compound [nb07_cell30] = []"
  "comprehensions [nb07_cell30] = []"
  "imports_of [nb07_cell30] = []"
  by (simp_all add: nb07_cell30_def cell_defs)

lemma nb07_cell31_inventory:
  "heads [nb07_cell31] = [(GeoPandas, ''plot'')]"
  "effects [nb07_cell31] = []"
  "compound [nb07_cell31] = []"
  "comprehensions [nb07_cell31] = []"
  "imports_of [nb07_cell31] = []"
  by (simp_all add: nb07_cell31_def cell_defs)

lemma nb07_cell33_inventory:
  "heads [nb07_cell33] = [(Builtin, ''type'')]"
  "effects [nb07_cell33] = []"
  "compound [nb07_cell33] = []"
  "comprehensions [nb07_cell33] = []"
  "imports_of [nb07_cell33] = []"
  by (simp_all add: nb07_cell33_def cell_defs)

lemma nb07_cell34_inventory:
  "heads [nb07_cell34] = []"
  "effects [nb07_cell34] = []"
  "compound [nb07_cell34] = []"
  "comprehensions [nb07_cell34] = []"
  "imports_of [nb07_cell34] = []"
  by (simp_all add: nb07_cell34_def cell_defs)

lemma nb07_cell35_inventory:
  "heads [nb07_cell35] = [(GeoPandas, ''within'')]"
  "effects [nb07_cell35] = []"
  "compound [nb07_cell35] = []"
  "comprehensions [nb07_cell35] = []"
  "imports_of [nb07_cell35] = []"
  by (simp_all add: nb07_cell35_def cell_defs)

lemma nb07_cell37_inventory:
  "heads [nb07_cell37] = [(GeoPandas, ''plot'')]"
  "effects [nb07_cell37] = []"
  "compound [nb07_cell37] = []"
  "comprehensions [nb07_cell37] = []"
  "imports_of [nb07_cell37] = []"
  by (simp_all add: nb07_cell37_def cell_defs)

lemma nb07_cell38_inventory:
  "heads [nb07_cell38] = [(Pandas, ''head'')]"
  "effects [nb07_cell38] = []"
  "compound [nb07_cell38] = []"
  "comprehensions [nb07_cell38] = []"
  "imports_of [nb07_cell38] = []"
  by (simp_all add: nb07_cell38_def cell_defs)

lemma nb07_cell39_inventory:
  "heads [nb07_cell39] = [(GeoPandas, ''buffer''), (Pandas, ''head'')]"
  "effects [nb07_cell39] = []"
  "compound [nb07_cell39] = []"
  "comprehensions [nb07_cell39] = []"
  "imports_of [nb07_cell39] = []"
  by (simp_all add: nb07_cell39_def cell_defs)

lemma nb07_cell40_inventory:
  "heads [nb07_cell40] = [(GeoPandas, ''plot'')]"
  "effects [nb07_cell40] = []"
  "compound [nb07_cell40] = []"
  "comprehensions [nb07_cell40] = []"
  "imports_of [nb07_cell40] = []"
  by (simp_all add: nb07_cell40_def cell_defs)

lemma nb07_cell42_inventory:
  "heads [nb07_cell42] = [(GeoPandas, ''plot''), (GeoPandas, ''plot'')]"
  "effects [nb07_cell42] = []"
  "compound [nb07_cell42] = []"
  "comprehensions [nb07_cell42] = []"
  "imports_of [nb07_cell42] = []"
  by (simp_all add: nb07_cell42_def cell_defs)

lemma nb07_cell43_inventory:
  "heads [nb07_cell43] = [(GeoPandas, ''to_crs''), (GeoPandas, ''to_crs'')]"
  "effects [nb07_cell43] = []"
  "compound [nb07_cell43] = []"
  "comprehensions [nb07_cell43] = []"
  "imports_of [nb07_cell43] = []"
  by (simp_all add: nb07_cell43_def cell_defs)

lemma nb07_cell44_inventory:
  "heads [nb07_cell44] = [(GeoPandas, ''plot''), (GeoPandas, ''plot'')]"
  "effects [nb07_cell44] = []"
  "compound [nb07_cell44] = []"
  "comprehensions [nb07_cell44] = []"
  "imports_of [nb07_cell44] = []"
  by (simp_all add: nb07_cell44_def cell_defs)

lemma nb07_cell45_inventory:
  "heads [nb07_cell45] = [(GeoPandas, ''to_crs''), (GeoPandas, ''to_crs'')]"
  "effects [nb07_cell45] = []"
  "compound [nb07_cell45] = []"
  "comprehensions [nb07_cell45] = []"
  "imports_of [nb07_cell45] = []"
  by (simp_all add: nb07_cell45_def cell_defs)

lemma nb07_cell46_inventory:
  "heads [nb07_cell46] = [(GeoPandas, ''plot''), (GeoPandas, ''plot'')]"
  "effects [nb07_cell46] = []"
  "compound [nb07_cell46] = []"
  "comprehensions [nb07_cell46] = []"
  "imports_of [nb07_cell46] = []"
  by (simp_all add: nb07_cell46_def cell_defs)

lemma nb07_cell47_inventory:
  "heads [nb07_cell47] =
       [(GeoPandas, ''plot''), (GeoPandas, ''plot''), (GeoPandas, ''buffer'')]"
  "effects [nb07_cell47] = []"
  "compound [nb07_cell47] = []"
  "comprehensions [nb07_cell47] = []"
  "imports_of [nb07_cell47] = []"
  by (simp_all add: nb07_cell47_def cell_defs)

lemma nb07_cell50_inventory:
  "heads [nb07_cell50] = [(Pandas, ''read_csv'')]"
  "effects [nb07_cell50] =
       [Fetch
          (Str
             ''https://raw.githubusercontent.com/gboeing/ppd534/main/data/census_tracts_data_ca.csv'')]"
  "compound [nb07_cell50] = []"
  "comprehensions [nb07_cell50] = []"
  "imports_of [nb07_cell50] = []"
  by (simp_all add: nb07_cell50_def cell_defs)

lemma nb07_cell51_inventory:
  "heads [nb07_cell51] = [(Pandas, ''head'')]"
  "effects [nb07_cell51] = []"
  "compound [nb07_cell51] = []"
  "comprehensions [nb07_cell51] = []"
  "imports_of [nb07_cell51] = []"
  by (simp_all add: nb07_cell51_def cell_defs)

lemma nb07_cell52_inventory:
  "heads [nb07_cell52] = [(Pandas, ''head'')]"
  "effects [nb07_cell52] = []"
  "compound [nb07_cell52] = []"
  "comprehensions [nb07_cell52] = []"
  "imports_of [nb07_cell52] = []"
  by (simp_all add: nb07_cell52_def cell_defs)

lemma nb07_cell53_inventory:
  "heads [nb07_cell53] = [(Pandas, ''merge''), (Pandas, ''head'')]"
  "effects [nb07_cell53] = []"
  "compound [nb07_cell53] = []"
  "comprehensions [nb07_cell53] = []"
  "imports_of [nb07_cell53] = []"
  by (simp_all add: nb07_cell53_def cell_defs)

lemma nb07_cell54_inventory:
  "heads [nb07_cell54] = []"
  "effects [nb07_cell54] = []"
  "compound [nb07_cell54] = []"
  "comprehensions [nb07_cell54] = []"
  "imports_of [nb07_cell54] = []"
  by (simp_all add: nb07_cell54_def cell_defs)

lemma nb07_cell56_inventory:
  "heads [nb07_cell56] = []"
  "effects [nb07_cell56] = []"
  "compound [nb07_cell56] = []"
  "comprehensions [nb07_cell56] = []"
  "imports_of [nb07_cell56] = []"
  by (simp_all add: nb07_cell56_def cell_defs)

lemma nb07_cell57_inventory:
  "heads [nb07_cell57] = [(GeoPandas, ''to_crs'')]"
  "effects [nb07_cell57] = []"
  "compound [nb07_cell57] = []"
  "comprehensions [nb07_cell57] = []"
  "imports_of [nb07_cell57] = []"
  by (simp_all add: nb07_cell57_def cell_defs)

lemma nb07_cell58_inventory:
  "heads [nb07_cell58] = [(GeoPandas, ''sjoin'')]"
  "effects [nb07_cell58] = []"
  "compound [nb07_cell58] = []"
  "comprehensions [nb07_cell58] = []"
  "imports_of [nb07_cell58] = []"
  by (simp_all add: nb07_cell58_def cell_defs)

lemma nb07_cell59_inventory:
  "heads [nb07_cell59] = [(Pandas, ''head'')]"
  "effects [nb07_cell59] = []"
  "compound [nb07_cell59] = []"
  "comprehensions [nb07_cell59] = []"
  "imports_of [nb07_cell59] = []"
  by (simp_all add: nb07_cell59_def cell_defs)

lemma nb07_cell60_inventory:
  "heads [nb07_cell60] = [(Pandas, ''rename''), (Pandas, ''head'')]"
  "effects [nb07_cell60] = []"
  "compound [nb07_cell60] = []"
  "comprehensions [nb07_cell60] = []"
  "imports_of [nb07_cell60] = []"
  by (simp_all add: nb07_cell60_def cell_defs)

lemma nb07_cell61_inventory:
  "heads [nb07_cell61] = [(Pandas, ''groupby'')]"
  "effects [nb07_cell61] = []"
  "compound [nb07_cell61] = []"
  "comprehensions [nb07_cell61] = []"
  "imports_of [nb07_cell61] = []"
  by (simp_all add: nb07_cell61_def cell_defs)

lemma nb07_cell62_inventory:
  "heads [nb07_cell62] = [(Pandas, ''sort_values''), (Pandas, ''median'')]"
  "effects [nb07_cell62] = []"
  "compound [nb07_cell62] = []"
  "comprehensions [nb07_cell62] = []"
  "imports_of [nb07_cell62] = []"
  by (simp_all add: nb07_cell62_def cell_defs)

lemma nb07_cell63_inventory:
  "heads [nb07_cell63] = [(Pandas, ''sort_values''), (Pandas, ''mean'')]"
  "effects [nb07_cell63] = []"
  "compound [nb07_cell63] = []"
  "comprehensions [nb07_cell63] = []"
  "imports_of [nb07_cell63] = []"
  by (simp_all add: nb07_cell63_def cell_defs)

lemma nb07_cell64_inventory:
  "heads [nb07_cell64] = [(Pandas, ''sort_values''), (Pandas, ''count'')]"
  "effects [nb07_cell64] = []"
  "compound [nb07_cell64] = []"
  "comprehensions [nb07_cell64] = []"
  "imports_of [nb07_cell64] = []"
  by (simp_all add: nb07_cell64_def cell_defs)

lemma nb07_cell65_inventory:
  "heads [nb07_cell65] = []"
  "effects [nb07_cell65] = []"
  "compound [nb07_cell65] = []"
  "comprehensions [nb07_cell65] = []"
  "imports_of [nb07_cell65] = []"
  by (simp_all add: nb07_cell65_def cell_defs)

lemma nb07_cell67_inventory:
  "heads [nb07_cell67] = [(Pandas, ''head'')]"
  "effects [nb07_cell67] = []"
  "compound [nb07_cell67] = []"
  "comprehensions [nb07_cell67] = []"
  "imports_of [nb07_cell67] = []"
  by (simp_all add: nb07_cell67_def cell_defs)

lemma nb07_cell68_inventory:
  "heads [nb07_cell68] = []"
  "effects [nb07_cell68] = []"
  "compound [nb07_cell68] = []"
  "comprehensions [nb07_cell68] = []"
  "imports_of [nb07_cell68] = []"
  by (simp_all add: nb07_cell68_def cell_defs)

lemma nb07_cell69_inventory:
  "heads [nb07_cell69] =
       [(GeoPandas, ''plot''), (Matplotlib, ''axis''), (Matplotlib, ''savefig''),
        (Matplotlib, ''get_figure'')]"
  "effects [nb07_cell69] = [Write ''savefig'' (Str ''oc-income.png'')]"
  "compound [nb07_cell69] = []"
  "comprehensions [nb07_cell69] = []"
  "imports_of [nb07_cell69] = []"
  by (simp_all add: nb07_cell69_def cell_defs)

lemma nb07_cell70_inventory:
  "heads [nb07_cell70] =
       [(GeoPandas, ''plot''), (Matplotlib, ''axis''), (Matplotlib, ''savefig''),
        (Matplotlib, ''get_figure'')]"
  "effects [nb07_cell70] = [Write ''savefig'' (Str ''oc-language.png'')]"
  "compound [nb07_cell70] = []"
  "comprehensions [nb07_cell70] = []"
  "imports_of [nb07_cell70] = []"
  by (simp_all add: nb07_cell70_def cell_defs)

lemma nb07_cell71_inventory:
  "heads [nb07_cell71] =
       [(GeoPandas, ''plot''), (GeoPandas, ''plot''), (Pandas, ''dropna''),
        (Matplotlib, ''axis''), (Matplotlib, ''set_title''), (Matplotlib, ''savefig''),
        (Matplotlib, ''get_figure'')]"
  "effects [nb07_cell71] = [Write ''savefig'' (Str ''oc-listings.png'')]"
  "compound [nb07_cell71] = []"
  "comprehensions [nb07_cell71] = []"
  "imports_of [nb07_cell71] = []"
  by (simp_all add: nb07_cell71_def cell_defs)

lemmas nb07_inventory = nb07_cell1_inventory nb07_cell2_inventory nb07_cell5_inventory
  nb07_cell6_inventory nb07_cell7_inventory nb07_cell8_inventory nb07_cell9_inventory
  nb07_cell11_inventory nb07_cell12_inventory nb07_cell14_inventory nb07_cell15_inventory
  nb07_cell16_inventory nb07_cell17_inventory nb07_cell19_inventory nb07_cell20_inventory
  nb07_cell24_inventory nb07_cell25_inventory nb07_cell26_inventory nb07_cell27_inventory
  nb07_cell29_inventory nb07_cell30_inventory nb07_cell31_inventory nb07_cell33_inventory
  nb07_cell34_inventory nb07_cell35_inventory nb07_cell37_inventory nb07_cell38_inventory
  nb07_cell39_inventory nb07_cell40_inventory nb07_cell42_inventory nb07_cell43_inventory
  nb07_cell44_inventory nb07_cell45_inventory nb07_cell46_inventory nb07_cell47_inventory
  nb07_cell50_inventory nb07_cell51_inventory nb07_cell52_inventory nb07_cell53_inventory
  nb07_cell54_inventory nb07_cell56_inventory nb07_cell57_inventory nb07_cell58_inventory
  nb07_cell59_inventory nb07_cell60_inventory nb07_cell61_inventory nb07_cell62_inventory
  nb07_cell63_inventory nb07_cell64_inventory nb07_cell65_inventory nb07_cell67_inventory
  nb07_cell68_inventory nb07_cell69_inventory nb07_cell70_inventory nb07_cell71_inventory

lemma nb12_cell1_inventory:
  "heads [nb12_cell1] = []"
  "effects [nb12_cell1] = [RunShell ''pip install geopandas numpy pandas seaborn statsmodels'']"
  "compound [nb12_cell1] = []"
  "comprehensions [nb12_cell1] = []"
  "imports_of [nb12_cell1] = []"
  by (simp_all add: nb12_cell1_def cell_defs)

lemma nb12_cell2_inventory:
  "heads [nb12_cell2] = []"
  "effects [nb12_cell2] = []"
  "compound [nb12_cell2] = []"
  "comprehensions [nb12_cell2] = []"
  "imports_of [nb12_cell2] =
       [''geopandas'', ''numpy'', ''pandas'', ''seaborn'', ''statsmodels.api'']"
  by (simp_all add: nb12_cell2_def cell_defs)

lemma nb12_cell4_inventory:
  "heads [nb12_cell4] = [(GeoPandas, ''read_file'')]"
  "effects [nb12_cell4] =
       [Fetch
          (Str
             ''https://raw.githubusercontent.com/gboeing/ppd534/main/data/tl_2017_06_tract/tl_2017_06_tract.shp'')]"
  "compound [nb12_cell4] = []"
  "comprehensions [nb12_cell4] = []"
  "imports_of [nb12_cell4] = []"
  by (simp_all add: nb12_cell4_def cell_defs)

lemma nb12_cell5_inventory:
  "heads [nb12_cell5] = [(Pandas, ''read_csv'')]"
  "effects [nb12_cell5] =
       [Fetch
          (Str
             ''https://raw.githubusercontent.com/gboeing/ppd534/main/data/census_tracts_data_ca.csv'')]"
  "compound [nb12_cell5] = []"
  "comprehensions [nb12_cell5] = []"
  "imports_of [nb12_cell5] = []"
  by (simp_all add: nb12_cell5_def cell_defs)

lemma nb12_cell6_inventory:
  "heads [nb12_cell6] = [(Pandas, ''merge'')]"
  "effects [nb12_cell6] = []"
  "compound [nb12_cell6] = []"
  "comprehensions [nb12_cell6] = []"
  "imports_of [nb12_cell6] = []"
  by (simp_all add: nb12_cell6_def cell_defs)

lemma nb12_cell8_inventory:
  "heads [nb12_cell8] =
       [(Pandas, ''read_csv''), (GeoPandas, ''points_from_xy''), (GeoPandas, ''GeoDataFrame'')]"
  "effects [nb12_cell8] =
       [Fetch
          (Str
             ''https://raw.githubusercontent.com/gboeing/ppd534/main/data/listings-la_oc_vc.csv'')]"
  "compound [nb12_cell8] = []"
  "comprehensions [nb12_cell8] = []"
  "imports_of [nb12_cell8] = []"
  by (simp_all add: nb12_cell8_def cell_defs)

lemma nb12_cell9_inventory:
  "heads [nb12_cell9] = []"
  "effects [nb12_cell9] = []"
  "compound [nb12_cell9] = []"
  "comprehensions [nb12_cell9] = []"
  "imports_of [nb12_cell9] = []"
  by (simp_all add: nb12_cell9_def cell_defs)

lemma nb12_cell10_inventory:
  "heads [nb12_cell10] = [(GeoPandas, ''to_crs'')]"
  "effects [nb12_cell10] = []"
  "compound [nb12_cell10] = []"
  "comprehensions [nb12_cell10] = []"
  "imports_of [nb12_cell10] = []"
  by (simp_all add: nb12_cell10_def cell_defs)

lemma nb12_cell11_inventory:
  "heads [nb12_cell11] = [(GeoPandas, ''sjoin'')]"
  "effects [nb12_cell11] = []"
  "compound [nb12_cell11] = []"
  "comprehensions [nb12_cell11] = []"
  "imports_of [nb12_cell11] = []"
  by (simp_all add: nb12_cell11_def cell_defs)

lemma nb12_cell12_inventory:
  "heads [nb12_cell12] = []"
  "effects [nb12_cell12] = []"
  "compound [nb12_cell12] = []"
  "comprehensions [nb12_cell12] = []"
  "imports_of [nb12_cell12] = []"
  by (simp_all add: nb12_cell12_def cell_defs)

lemma nb12_cell14_inventory:
  "heads [nb12_cell14] = []"
  "effects [nb12_cell14] = []"
  "compound [nb12_cell14] = []"
  "comprehensions [nb12_cell14] = []"
  "imports_of [nb12_cell14] = []"
  by (simp_all add: nb12_cell14_def cell_defs)

lemma nb12_cell15_inventory:
  "heads [nb12_cell15] = [(Pandas, ''dropna''), (Builtin, ''print'')]"
  "effects [nb12_cell15] = []"
  "compound [nb12_cell15] = []"
  "comprehensions [nb12_cell15] = []"
  "imports_of [nb12_cell15] = []"
  by (simp_all add: nb12_cell15_def cell_defs)

lemma nb12_cell16_inventory:
  "heads [nb12_cell16] =
       [(Statsmodels, ''OLS''), (Statsmodels, ''add_constant''), (Statsmodels, ''fit''),
        (Builtin, ''print''), (Statsmodels, ''summary'')]"
  "effects [nb12_cell16] = []"
  "compound [nb12_cell16] = []"
  "comprehensions [nb12_cell16] = []"
  "imports_of [nb12_cell16] = []"
  by (simp_all add: nb12_cell16_def cell_defs)

lemma nb12_cell18_inventory:
  "heads [nb12_cell18] = [(Seaborn, ''regplot'')]"
  "effects [nb12_cell18] = []"
  "compound [nb12_cell18] = []"
  "comprehensions [nb12_cell18] = []"
  "imports_of [nb12_cell18] = []"
  by (simp_all add: nb12_cell18_def cell_defs)

lemma nb12_cell20_inventory:
  "heads [nb12_cell20] =
       [(Pandas, ''dropna''), (Statsmodels, ''OLS''), (Statsmodels, ''add_constant''),
        (Statsmodels, ''fit''), (Builtin, ''print''), (Statsmodels, ''summary'')]"
  "effects [nb12_cell20] = []"
  "compound [nb12_cell20] = []"
  "comprehensions [nb12_cell20] = []"
  "imports_of [nb12_cell20] = []"
  by (simp_all add: nb12_cell20_def cell_defs)

lemma nb12_cell22_inventory:
  "heads [nb12_cell22] =
       [(Pandas, ''dropna''), (Statsmodels, ''OLS''), (Statsmodels, ''add_constant''),
        (Statsmodels, ''fit''), (Builtin, ''print''), (Statsmodels, ''summary'')]"
  "effects [nb12_cell22] = []"
  "compound [nb12_cell22] = []"
  "comprehensions [nb12_cell22] = []"
  "imports_of [nb12_cell22] = []"
  by (simp_all add: nb12_cell22_def cell_defs)

lemma nb12_cell25_inventory:
  "heads [nb12_cell25] = [(Pandas, ''astype'')]"
  "effects [nb12_cell25] = []"
  "compound [nb12_cell25] = []"
  "comprehensions [nb12_cell25] = []"
  "imports_of [nb12_cell25] = []"
  by (simp_all add: nb12_cell25_def cell_defs)

lemma nb12_cell26_inventory:
  "heads [nb12_cell26] =
       [(Pandas, ''dropna''), (Statsmodels, ''OLS''), (Statsmodels, ''add_constant''),
        (Statsmodels, ''fit''), (Builtin, ''print''), (Statsmodels, ''summary'')]"
  "effects [nb12_cell26] = []"
  "compound [nb12_cell26] = []"
  "comprehensions [nb12_cell26] = []"
  "imports_of [nb12_cell26] = []"
  by (simp_all add: nb12_cell26_def cell_defs)

lemma nb12_cell28_inventory:
  "heads [nb12_cell28] = [(Pandas, ''round''), (Pandas, ''corr'')]"
  "effects [nb12_cell28] = []"
  "compound [nb12_cell28] = []"
  "comprehensions [nb12_cell28] = []"
  "imports_of [nb12_cell28] = []"
  by (simp_all add: nb12_cell28_def cell_defs)

lemma nb12_cell29_inventory:
  "heads [nb12_cell29] = [(Seaborn, ''heatmap'')]"
  "effects [nb12_cell29] = []"
  "compound [nb12_cell29] = []"
  "comprehensions [nb12_cell29] = []"
  "imports_of [nb12_cell29] = []"
  by (simp_all add: nb12_cell29_def cell_defs)

lemma nb12_cell30_inventory:
  "heads [nb12_cell30] = [(Seaborn, ''pairplot''), (Pandas, ''dropna'')]"
  "effects [nb12_cell30] = []"
  "compound [nb12_cell30] = []"
  "comprehensions [nb12_cell30] = []"
  "imports_of [nb12_cell30] = []"
  by (simp_all add: nb12_cell30_def cell_defs)

lemma nb12_cell31_inventory:
  "heads [nb12_cell31] = [(NumPy, ''log'')]"
  "effects [nb12_cell31] = []"
  "compound [nb12_cell31] = []"
  "comprehensions [nb12_cell31] = []"
  "imports_of [nb12_cell31] = []"
  by (simp_all add: nb12_cell31_def cell_defs)

lemma nb12_cell32_inventory:
  "heads [nb12_cell32] = [(Pandas, ''round''), (Pandas, ''corr'')]"
  "effects [nb12_cell32] = []"
  "compound [nb12_cell32] = []"
  "comprehensions [nb12_cell32] = []"
  "imports_of [nb12_cell32] = []"
  by (simp_all add: nb12_cell32_def cell_defs)

lemma nb12_cell33_inventory:
  "heads [nb12_cell33] =
       [(Pandas, ''dropna''), (Statsmodels, ''OLS''), (Statsmodels, ''add_constant''),
        (Statsmodels, ''fit''), (Builtin, ''print''), (Statsmodels, ''summary'')]"
  "effects [nb12_cell33] = []"
  "compound [nb12_cell33] = []"
  "comprehensions [nb12_cell33] = []"
  "imports_of [nb12_cell33] = []"
  by (simp_all add: nb12_cell33_def cell_defs)

lemmas nb12_inventory = nb12_cell1_inventory nb12_cell2_inventory nb12_cell4_inventory
  nb12_cell5_inventory nb12_cell6_inventory nb12_cell8_inventory nb12_cell9_inventory
  nb12_cell10_inventory nb12_cell11_inventory nb12_cell12_inventory nb12_cell14_inventory
  nb12_cell15_inventory nb12_cell16_inventory nb12_cell18_inventory nb12_cell20_inventory
  nb12_cell22_inventory nb12_cell25_inventory nb12_cell26_inventory nb12_cell28_inventory
  nb12_cell29_inventory nb12_cell30_inventory nb12_cell31_inventory nb12_cell32_inventory
  nb12_cell33_inventory


section \<open>The effects of the four notebooks\<close>

lemmas notebook_defs = called_def calls_named_def calls_any_def

lemma effects_nb03: "effects nb03 = []"
  by (simp add: nb03_def inventory_Cons nb03_inventory)

lemma effects_nb06:
  "effects nb06 =
      [RunShell ''pip install numpy pandas seaborn'',
       Fetch
         (Str
            ''https://raw.githubusercontent.com/gboeing/ppd534/main/data/census_tracts_data_ca.csv''),
       Write ''savefig'' (Str ''figure-income-boxplot.png''),
       Write ''savefig'' (Str ''figure-age-distributions.png''),
       Write ''savefig'' (Str ''figure-income-degree.png''),
       Write ''savefig'' (Str ''county-tracts-countplot.png''),
       Fetch (Str ''https://raw.githubusercontent.com/gboeing/ppd534/main/data/gdp.csv''),
       Write ''savefig'' (Str ''country-gdp-lineplot.png'')]"
  by (simp add: nb06_def inventory_Cons nb06_inventory)

lemma effects_nb07:
  "effects nb07 =
      [RunShell ''pip install geopandas mapclassify pandas shapely'',
       Fetch
         (Str
            ''https://raw.githubusercontent.com/gboeing/ppd534/main/data/tl_2017_06_tract/tl_2017_06_tract.shp''),
       Fetch
         (Str
            ''https://raw.githubusercontent.com/gboeing/ppd534/main/data/listings-la_oc_vc.csv''),
       Fetch
         (Str
            ''https://raw.githubusercontent.com/gboeing/ppd534/main/data/census_tracts_data_ca.csv''),
       Write ''savefig'' (Str ''oc-income.png''),
       Write ''savefig'' (Str ''oc-language.png''),
       Write ''savefig'' (Str ''oc-listings.png'')]"
  by (simp add: nb07_def inventory_Cons nb07_inventory)

lemma effects_nb12:
  "effects nb12 =
      [RunShell ''pip install geopandas numpy pandas seaborn statsmodels'',
       Fetch
         (Str
            ''https://raw.githubusercontent.com/gboeing/ppd534/main/data/tl_2017_06_tract/tl_2017_06_tract.shp''),
       Fetch
         (Str
            ''https://raw.githubusercontent.com/gboeing/ppd534/main/data/census_tracts_data_ca.csv''),
       Fetch
         (Str
            ''https://raw.githubusercontent.com/gboeing/ppd534/main/data/listings-la_oc_vc.csv'')]"
  by (simp add: nb12_def inventory_Cons nb12_inventory)

text \<open>
  C3, as stated, fails: the first code cell of modules 06, 07 and 12 is a shell line,
  \<^verbatim>\<open>!pip install ...\<close>, which is neither a fetch of a remote URL nor a \<^verbatim>\<open>savefig\<close> of a
  PNG: installing packages reads and writes local files.
\<close>

theorem C3_pip_install_counterexample:
  "\<not> list_all remote_read_or_png_write (effects nb06)
   \<and> \<not> list_all remote_read_or_png_write (effects nb07)
   \<and> \<not> list_all remote_read_or_png_write (effects nb12)"
  by (simp add: effects_nb06 effects_nb07 effects_nb12)

text \<open>
  C3, amended. The effects of the four notebooks are exactly these: module 03 has none;
  the others start with one \<^verbatim>\<open>pip install\<close> shell line, read their data by
  \<^verbatim>\<open>pd.read_csv\<close> or \<^verbatim>\<open>gpd.read_file\<close> from URLs under
  \<^verbatim>\<open>https://raw.githubusercontent.com/\<close> only, and write only PNG files, by \<^verbatim>\<open>savefig\<close>.
  No statement reads a local file and none writes a frame (\<^verbatim>\<open>to_csv\<close>, \<^verbatim>\<open>to_file\<close> and the
  other writers are never called).
\<close>

theorem C3_remote_reads_png_writes:
  "effects nb03 = []
   \<and> effects nb06 =
         [RunShell ''pip install numpy pandas seaborn'',
          Fetch
            (Str
               ''https://raw.githubusercontent.com/gboeing/ppd534/main/data/census_tracts_data_ca.csv''),
          Write ''savefig'' (Str ''figure-income-boxplot.png''),
          Write ''savefig'' (Str ''figure-age-distributions.png''),
          Write ''savefig'' (Str ''figure-income-degree.png''),
          Write ''savefig'' (Str ''county-tracts-countplot.png''),
          Fetch (Str ''https://raw.githubusercontent.com/gboeing/ppd534/main/data/gdp.csv''),
          Write ''savefig'' (Str ''country-gdp-lineplot.png'')]
   \<and> effects nb07 =
         [RunShell ''pip install geopandas mapclassify pandas shapely'',
          Fetch
            (Str
               ''https://raw.githubusercontent.com/gboeing/ppd534/main/data/tl_2017_06_tract/tl_2017_06_tract.shp''),
          Fetch
            (Str
               ''https://raw.githubusercontent.com/gboeing/ppd534/main/data/listings-la_oc_vc.csv''),
          Fetch
            (Str
               ''https://raw.githubusercontent.com/gboeing/ppd534/main/data/census_tracts_data_ca.csv''),
          Write ''savefig'' (Str ''oc-income.png''),
          Write ''savefig'' (Str ''oc-language.png''),
          Write ''savefig'' (Str ''oc-listings.png'')]
   \<and> effects nb12 =
         [RunShell ''pip install geopandas numpy pandas seaborn statsmodels'',
          Fetch
            (Str
               ''https://raw.githubusercontent.com/gboeing/ppd534/main/data/tl_2017_06_tract/tl_2017_06_tract.shp''),
          Fetch
            (Str
               ''https://raw.githubusercontent.com/gboeing/ppd534/main/data/census_tracts_data_ca.csv''),
          Fetch
            (Str
               ''https://raw.githubusercontent.com/gboeing/ppd534/main/data/listings-la_oc_vc.csv'')]
   \<and> list_all (\<lambda>e. remote_read_or_png_write e \<or> pip_install e)
         (effects nb03 @ effects nb06 @ effects nb07 @ effects nb12)
   \<and> list_all remote_read_or_png_write
         (filter (\<lambda>e. \<not> pip_install e) (effects nb03 @ effects nb06 @ effects nb07 @ effects nb12))"
  by (simp add: effects_nb03 effects_nb06 effects_nb07 effects_nb12 is_remote_def is_png_def)


section \<open>What is delegated to the libraries\<close>

lemma delegated_calls_nb12:
  "calls_named [''OLS'', ''fit'', ''sjoin'', ''within'', ''intersects'', ''to_crs''] nb12 =
     [(GeoPandas, ''to_crs''), (GeoPandas, ''sjoin''),
      (Statsmodels, ''OLS''), (Statsmodels, ''fit''),
      (Statsmodels, ''OLS''), (Statsmodels, ''fit''),
      (Statsmodels, ''OLS''), (Statsmodels, ''fit''),
      (Statsmodels, ''OLS''), (Statsmodels, ''fit''),
      (Statsmodels, ''OLS''), (Statsmodels, ''fit'')]"
  by (simp add: notebook_defs nb12_def inventory_Cons nb12_inventory)

lemma delegated_calls_nb07:
  "calls_named [''OLS'', ''fit'', ''sjoin'', ''within'', ''intersects'', ''to_crs''] nb07 =
     [(GeoPandas, ''to_crs''), (GeoPandas, ''intersects''), (GeoPandas, ''within''),
      (GeoPandas, ''to_crs''), (GeoPandas, ''to_crs''), (GeoPandas, ''to_crs''),
      (GeoPandas, ''to_crs''), (GeoPandas, ''to_crs''), (GeoPandas, ''sjoin'')]"
  by (simp add: notebook_defs nb07_def inventory_Cons nb07_inventory)

lemma delegated_calls_nb06:
  "calls_named [''OLS'', ''fit'', ''sjoin'', ''within'', ''intersects'', ''to_crs''] nb06 = []"
  by (simp add: notebook_defs nb06_def inventory_Cons nb06_inventory)

lemma delegated_calls_nb03:
  "calls_named [''OLS'', ''fit'', ''sjoin'', ''within'', ''intersects'', ''to_crs''] nb03 = []"
  by (simp add: notebook_defs nb03_def inventory_Cons nb03_inventory)

lemma straight_line_nb06:
  "compound (nb06) = []"
  "comprehensions (nb06) = []"
  by (simp_all add: notebook_defs nb06_def inventory_Cons nb06_inventory)

lemma straight_line_nb07:
  "compound (nb07) = []"
  "comprehensions (nb07) = []"
  by (simp_all add: notebook_defs nb07_def inventory_Cons nb07_inventory)

lemma straight_line_nb12:
  "compound (nb12) = []"
  "comprehensions (nb12) = []"
  by (simp_all add: notebook_defs nb12_def inventory_Cons nb12_inventory)

lemma loops_nb03:
  "compound (nb03) =
     [For (Name ''value'') (Name ''int_list'')
        [ExprStmt
           (Call Builtin (Attr (Name ''new_list'') ''append'')
              [Call Builtin (Name ''str'') [Name ''value'']])]]"
  "comprehensions (nb03) =
     [ListComp (Call Builtin (Name ''str'') [Name ''value'']) (Name ''value'')
        (Name ''int_list'')]"
  by (simp_all add: notebook_defs nb03_def inventory_Cons nb03_inventory)

lemma libraries_nb03:
  "filter (\<lambda>(l, f). l \<noteq> Builtin) (heads nb03) = []"
  "imports_of nb03 = []"
  by (simp_all add: notebook_defs nb03_def inventory_Cons nb03_inventory)


lemma builtin_calls_nb:
  "remdups (called Builtin nb06) = [''type'']"
  "remdups (called Builtin nb07) = [''type'']"
  "remdups (called Builtin nb12) = [''print'']"
  by (simp_all add: notebook_defs nb06_def nb07_def nb12_def inventory_Cons nb06_inventory
      nb07_inventory nb12_inventory)

text \<open>
  C1. Every OLS fit (\<^verbatim>\<open>sm.OLS\<close>, \<^verbatim>\<open>fit\<close>), spatial join or predicate (\<^verbatim>\<open>sjoin\<close>,
  \<^verbatim>\<open>within\<close>, \<^verbatim>\<open>intersects\<close>) and reprojection (\<^verbatim>\<open>to_crs\<close>) in the notebooks is a call
  into statsmodels or geopandas: the lists below are all the calls of these names, with
  the library that implements them. Modules 06, 07 and 12 hold no function or class
  definition, no loop, no branch and no comprehension: their statements are imports,
  assignments and expressions, and the only builtins they call are \<^verbatim>\<open>type\<close> and
  \<^verbatim>\<open>print\<close>. Module 03 holds one \<^verbatim>\<open>for\<close> loop and one list comprehension, imports
  nothing and calls builtins only.
\<close>

theorem C1_delegation_to_libraries:
  "calls_named [''OLS'', ''fit'', ''sjoin'', ''within'', ''intersects'', ''to_crs''] nb12 =
     [(GeoPandas, ''to_crs''), (GeoPandas, ''sjoin''),
      (Statsmodels, ''OLS''), (Statsmodels, ''fit''),
      (Statsmodels, ''OLS''), (Statsmodels, ''fit''),
      (Statsmodels, ''OLS''), (Statsmodels, ''fit''),
      (Statsmodels, ''OLS''), (Statsmodels, ''fit''),
      (Statsmodels, ''OLS''), (Statsmodels, ''fit'')]
   \<and> calls_named [''OLS'', ''fit'', ''sjoin'', ''within'', ''intersects'', ''to_crs''] nb07 =
     [(GeoPandas, ''to_crs''), (GeoPandas, ''intersects''), (GeoPandas, ''within''),
      (GeoPandas, ''to_crs''), (GeoPandas, ''to_crs''), (GeoPandas, ''to_crs''),
      (GeoPandas, ''to_crs''), (GeoPandas, ''to_crs''), (GeoPandas, ''sjoin'')]
   \<and> calls_named [''OLS'', ''fit'', ''sjoin'', ''within'', ''intersects'', ''to_crs''] nb06 = []
   \<and> calls_named [''OLS'', ''fit'', ''sjoin'', ''within'', ''intersects'', ''to_crs''] nb03 = []
   \<and> compound (nb06) = [] \<and> comprehensions (nb06) = []
   \<and> compound (nb07) = [] \<and> comprehensions (nb07) = []
   \<and> compound (nb12) = [] \<and> comprehensions (nb12) = []
   \<and> remdups (called Builtin nb06) = [''type'']
   \<and> remdups (called Builtin nb07) = [''type'']
   \<and> remdups (called Builtin nb12) = [''print'']
   \<and> compound (nb03) =
     [For (Name ''value'') (Name ''int_list'')
        [ExprStmt
           (Call Builtin (Attr (Name ''new_list'') ''append'')
              [Call Builtin (Name ''str'') [Name ''value'']])]]
   \<and> comprehensions (nb03) =
     [ListComp (Call Builtin (Name ''str'') [Name ''value'']) (Name ''value'')
        (Name ''int_list'')]
   \<and> filter (\<lambda>(l, f). l \<noteq> Builtin) (heads nb03) = []
   \<and> imports_of nb03 = []"
  by (intro conjI)
    (rule delegated_calls_nb12 delegated_calls_nb07 delegated_calls_nb06 delegated_calls_nb03
      straight_line_nb06 straight_line_nb07 straight_line_nb12 builtin_calls_nb loops_nb03
      libraries_nb03)+


section \<open>What each notebook does\<close>

lemma activities_nb12: "does_all_five nb12"
  by (simp add: does_all_five_def loads_tabular_def loads_spatial_def merges_or_joins_def
      computes_descriptive_statistics_def visualizes_def fits_ols_def notebook_defs
      nb12_def inventory_Cons nb12_inventory)

lemma activities_nb07:
  "loads_tabular nb07"
  "loads_spatial nb07"
  "merges_or_joins nb07"
  "computes_descriptive_statistics nb07"
  "visualizes nb07"
  "\<not> fits_ols nb07"
  by (simp_all add: does_all_five_def loads_tabular_def loads_spatial_def merges_or_joins_def
      computes_descriptive_statistics_def visualizes_def fits_ols_def notebook_defs
      nb07_def inventory_Cons nb07_inventory)

lemma activities_nb06:
  "loads_tabular nb06"
  "\<not> loads_spatial nb06"
  "\<not> merges_or_joins nb06"
  "computes_descriptive_statistics nb06"
  "visualizes nb06"
  "\<not> fits_ols nb06"
  "calls_any Seaborn [''regplot''] nb06"
  by (simp_all add: does_all_five_def loads_tabular_def loads_spatial_def merges_or_joins_def
      computes_descriptive_statistics_def visualizes_def fits_ols_def notebook_defs
      nb06_def inventory_Cons nb06_inventory)

lemma activities_nb03:
  "\<not> loads_tabular nb03"
  "\<not> loads_spatial nb03"
  "\<not> merges_or_joins nb03"
  "\<not> computes_descriptive_statistics nb03"
  "\<not> visualizes nb03"
  "\<not> fits_ols nb03"
  by (simp_all add: does_all_five_def loads_tabular_def loads_spatial_def merges_or_joins_def
      computes_descriptive_statistics_def visualizes_def fits_ols_def notebook_defs
      nb03_def inventory_Cons nb03_inventory)

text \<open>
  C2, as stated, fails: module 03 does none of the five activities, module 06 loads no
  spatial data, merges nothing and fits no model, and module 07 fits no model.
\<close>

theorem C2_not_every_notebook_counterexample:
  "\<not> does_all_five nb03 \<and> \<not> does_all_five nb06 \<and> \<not> does_all_five nb07"
  by (simp add: does_all_five_def activities_nb03 activities_nb06 activities_nb07)

text \<open>
  C2, amended. Module 12 loads tabular and spatial data, merges and joins them, computes
  descriptive statistics (a correlation matrix), visualizes, and fits OLS models with
  statsmodels. Module 07 does the first four and fits no model. Module 06 loads tabular
  data, computes descriptive statistics and visualizes (\<^verbatim>\<open>sns.regplot\<close> draws a
  regression line), but loads no spatial data, merges nothing and calls no model-fitting
  function. Module 03 does none of the five.
\<close>

theorem C2_activities_by_notebook:
  "does_all_five nb12
   \<and> (loads_tabular nb07 \<and> loads_spatial nb07 \<and> merges_or_joins nb07
      \<and> computes_descriptive_statistics nb07 \<and> visualizes nb07 \<and> \<not> fits_ols nb07)
   \<and> (loads_tabular nb06 \<and> \<not> loads_spatial nb06 \<and> \<not> merges_or_joins nb06
      \<and> computes_descriptive_statistics nb06 \<and> visualizes nb06 \<and> \<not> fits_ols nb06
      \<and> calls_any Seaborn [''regplot''] nb06)
   \<and> (\<not> loads_tabular nb03 \<and> \<not> loads_spatial nb03 \<and> \<not> merges_or_joins nb03
      \<and> \<not> computes_descriptive_statistics nb03 \<and> \<not> visualizes nb03 \<and> \<not> fits_ols nb03)"
  by (intro conjI) (rule activities_nb12 activities_nb07 activities_nb06 activities_nb03)+


section \<open>The actions of each cell\<close>






















































































































































































































section \<open>What one notebook's run can change for another\<close>




















section \<open>No exception is handled\<close>

lemma self_in_substmts: "s \<in> set (substmts s)"
  by (cases s) simp_all

lemma top_level_statements: "set (concat nb) \<subseteq> set (statements nb)"
  using self_in_substmts by (fastforce simp: statements_def)

lemma tries_compound: "tries nb = filter is_try (compound nb)"
proof -
  have "is_try s \<Longrightarrow> is_compound s" for s
    by (cases s) simp_all
  then have "(\<lambda>s. is_compound s \<and> is_try s) = is_try"
    by auto
  then show ?thesis
    by (simp add: tries_def compound_def)
qed

lemma no_tries_top_level:
  assumes "tries nb = []"
  shows "list_all (\<lambda>s. \<not> is_try s) (concat nb)"
proof -
  from assms have "\<forall>s \<in> set (statements nb). \<not> is_try s"
    by (simp add: tries_def filter_empty_conv)
  with top_level_statements [of nb] show ?thesis
    by (auto simp: list_all_iff)
qed

lemma exec_no_try: "\<not> is_try s \<Longrightarrow> exec eff s env = eff s env"
  by (cases s) simp_all

lemma exec_block_raises:
  assumes "list_all (\<lambda>s. \<not> is_try s) ss"
  shows "exec_block eff ss env = Inl x \<longleftrightarrow>
     (\<exists>pre s post env0. ss = pre @ s # post \<and> exec_block eff pre env = Inr env0
        \<and> eff s env0 = Inl x)"
  using assms
proof (induction ss arbitrary: env)
  case Nil
  then show ?case by simp
next
  case (Cons s ss)
  then have s: "exec eff s env = eff s env" and ss: "list_all (\<lambda>s. \<not> is_try s) ss"
    by (simp_all add: exec_no_try)
  show ?case
  proof (cases "eff s env")
    case (Inl x')
    have "(\<exists>pre s' post env0. s # ss = pre @ s' # post \<and> exec_block eff pre env = Inr env0
        \<and> eff s' env0 = Inl x) \<longleftrightarrow> x' = x"
    proof
      assume "\<exists>pre s' post env0. s # ss = pre @ s' # post \<and> exec_block eff pre env = Inr env0
        \<and> eff s' env0 = Inl x"
      then obtain pre s' post env0 where
        eq: "s # ss = pre @ s' # post" and run: "exec_block eff pre env = Inr env0"
        and raise: "eff s' env0 = Inl x"
        by blast
      show "x' = x"
      proof (cases pre)
        case Nil
        with eq run raise Inl show ?thesis by simp
      next
        case (Cons a pre')
        with eq have "a = s" by simp
        with Cons run s Inl show ?thesis by simp
      qed
    next
      assume "x' = x"
      with Inl have "s # ss = [] @ s # ss \<and> exec_block eff [] env = Inr env \<and> eff s env = Inl x"
        by simp
      then show "\<exists>pre s' post env0. s # ss = pre @ s' # post \<and> exec_block eff pre env = Inr env0
        \<and> eff s' env0 = Inl x"
        by blast
    qed
    with Inl s show ?thesis by simp
  next
    case (Inr env1)
    have "(\<exists>pre s' post env0. s # ss = pre @ s' # post \<and> exec_block eff pre env = Inr env0
        \<and> eff s' env0 = Inl x) \<longleftrightarrow>
      (\<exists>pre s' post env0. ss = pre @ s' # post \<and> exec_block eff pre env1 = Inr env0
        \<and> eff s' env0 = Inl x)"
    proof
      assume "\<exists>pre s' post env0. s # ss = pre @ s' # post \<and> exec_block eff pre env = Inr env0
        \<and> eff s' env0 = Inl x"
      then obtain pre s' post env0 where
        eq: "s # ss = pre @ s' # post" and run: "exec_block eff pre env = Inr env0"
        and raise: "eff s' env0 = Inl x"
        by blast
      show "\<exists>pre s' post env0. ss = pre @ s' # post \<and> exec_block eff pre env1 = Inr env0
        \<and> eff s' env0 = Inl x"
      proof (cases pre)
        case Nil
        with eq run raise Inr show ?thesis by simp
      next
        case (Cons a pre')
        with eq have "a = s" and "ss = pre' @ s' # post" by simp_all
        moreover from Cons run s Inr \<open>a = s\<close> have "exec_block eff pre' env1 = Inr env0"
          by simp
        ultimately show ?thesis using raise by blast
      qed
    next
      assume "\<exists>pre s' post env0. ss = pre @ s' # post \<and> exec_block eff pre env1 = Inr env0
        \<and> eff s' env0 = Inl x"
      then obtain pre s' post env0 where
        eq: "ss = pre @ s' # post" and run: "exec_block eff pre env1 = Inr env0"
        and raise: "eff s' env0 = Inl x"
        by blast
      from eq have "s # ss = (s # pre) @ s' # post" by simp
      moreover from run s Inr have "exec_block eff (s # pre) env = Inr env0" by simp
      ultimately show "\<exists>pre s' post env0. s # ss = pre @ s' # post
        \<and> exec_block eff pre env = Inr env0 \<and> eff s' env0 = Inl x"
        using raise by blast
    qed
    with Inr s Cons.IH [OF ss, of env1] show ?thesis by simp
  qed
qed

lemma tries_notebooks:
  "tries nb03 = []" "tries nb06 = []" "tries nb07 = []" "tries nb12 = []"
  by (simp_all add: tries_compound loops_nb03 straight_line_nb06 straight_line_nb07
      straight_line_nb12)

lemma failed_read_file:
  assumes "read_file G url_tracts = Inl e"
  shows "nb07_gdf_listings_counties G = Inl e" and "nb12_gdf G = Inl e"
  using assms
  by (simp_all add: nb07_gdf_listings_counties_def nb07_sjoin_arguments_def
      nb07_before_reprojection_def nb12_gdf_def nb12_sjoin_arguments_def)

text \<open>
  C5. No notebook holds a \<^verbatim>\<open>try\<close> statement, at any depth. So a run of a notebook's
  statements in order raises an exception exactly when some statement, run after all the
  statements before it returned, raised it: the exception is the statement's own,
  neither caught nor changed, and nothing runs after it. In the models of modules 07 and
  12, a failed fetch of the tract file is the result of the whole run.
\<close>

theorem C5_exceptions_propagate:
  "tries nb03 = [] \<and> tries nb06 = [] \<and> tries nb07 = [] \<and> tries nb12 = []
   \<and> (\<forall>nb \<in> set [nb03, nb06, nb07, nb12].
        \<forall>(eff :: stmt \<Rightarrow> 'e \<Rightarrow> error \<times> 'e + 'e) env x.
         exec_block eff (concat nb) env = Inl x \<longleftrightarrow>
           (\<exists>pre s post env0. concat nb = pre @ s # post
              \<and> exec_block eff pre env = Inr env0 \<and> eff s env0 = Inl x))
   \<and> (\<forall>(G :: 'c geolib) e. read_file G url_tracts = Inl e \<longrightarrow>
         nb07_gdf_listings_counties G = Inl e \<and> nb12_gdf G = Inl e)"
proof (intro conjI ballI allI impI)
  fix nb :: "stmt list list" and eff :: "stmt \<Rightarrow> 'e \<Rightarrow> error \<times> 'e + 'e" and env x
  assume "nb \<in> set [nb03, nb06, nb07, nb12]"
  then have "tries nb = []"
    using tries_notebooks by auto
  then show "exec_block eff (concat nb) env = Inl x \<longleftrightarrow>
           (\<exists>pre s post env0. concat nb = pre @ s # post
              \<and> exec_block eff pre env = Inr env0 \<and> eff s env0 = Inl x)"
    by (intro exec_block_raises no_tries_top_level)
next
  fix G :: "'c geolib" and e
  assume "read_file G url_tracts = Inl e"
  then show "nb07_gdf_listings_counties G = Inl e" and "nb12_gdf G = Inl e"
    by (rule failed_read_file)+
qed (rule tries_notebooks)+

theorem C5_exceptions_propagate_witness:
  "exec_block eff_example (concat nb12) () = Inl (LibraryError ''ModuleNotFoundError'', ())
   \<and> nb12_gdf geolib_offline = Inl (LibraryError ''URLError'')
   \<and> nb07_gdf_listings_counties geolib_offline = Inl (LibraryError ''URLError'')"
proof -
  have nb: "nb12 \<in> set [nb03, nb06, nb07, nb12]"
    by simp
  have split: "concat nb12 =
      [Shell ''pip install geopandas numpy pandas seaborn statsmodels'']
      @ Import ''geopandas'' ''gpd'' # tl (tl (concat nb12))"
    by (simp add: nb12_def nb12_cell1_def nb12_cell2_def)
  have pre: "exec_block eff_example
      [Shell ''pip install geopandas numpy pandas seaborn statsmodels''] () = Inr ()"
    by (simp add: eff_example_def)
  have raise: "eff_example (Import ''geopandas'' ''gpd'') ()
      = Inl (LibraryError ''ModuleNotFoundError'', ())"
    by (simp add: eff_example_def)
  have offline: "read_file geolib_offline url_tracts = Inl (LibraryError ''URLError'')"
    by (simp add: geolib_offline_def)
  note main = C5_exceptions_propagate [where 'e = unit and 'c = string]
  from main nb split pre raise
  have "exec_block eff_example (concat nb12) () = Inl (LibraryError ''ModuleNotFoundError'', ())"
    by blast
  moreover from main offline
  have "nb12_gdf geolib_offline = Inl (LibraryError ''URLError'')"
    and "nb07_gdf_listings_counties geolib_offline = Inl (LibraryError ''URLError'')"
    by blast+
  ultimately show ?thesis by simp
qed

end
